(* ===== verification/SqlScan.thy ===== *)
theory SqlScan
  imports Prelude
begin

text \<open>
  The byte scanner of \<^verbatim>\<open>internal/provider/sql/scan.go\<close>: it locates the driver
  placeholders of a statement, skipping comments, quoted regions and dollar-quoted bodies.
  Each loop over a byte index is a function on the index with the distance to the end of the
  statement as its measure. A skipping routine that the source ends with \<open>(next, true)\<close> is
  \<open>Some next\<close>, and \<open>(i, false)\<close> is \<open>None\<close>.
\<close>

section \<open>Dialects and placeholders\<close>

record dialect =
  d_numbered :: bool
  d_positional :: bool
  d_dollarQuoting :: bool
  d_nestedBlockComments :: bool
  d_backtickIdent :: bool
  d_hashLineComment :: bool
  d_dashDashNeedsSpace :: bool
  d_backslashEscapes :: bool

record placeholder =
  p_start :: nat
  p_end :: nat
  p_index :: nat

definition driverAliasPostgres :: string where "driverAliasPostgres = ''postgres''"
definition driverAliasPgx :: string where "driverAliasPgx = ''pgx''"
definition driverAliasMySQL :: string where "driverAliasMySQL = ''mysql''"

datatype db_driver = DriverPgx | DriverMySQL

definition resolveDriver :: "string \<Rightarrow> db_driver option" where
  "resolveDriver alias =
     (if alias = driverAliasPostgres \<or> alias = driverAliasPgx then Some DriverPgx
      else if alias = driverAliasMySQL then Some DriverMySQL
      else None)"

definition pgDialect :: dialect where
  "pgDialect = \<lparr>d_numbered = True, d_positional = False, d_dollarQuoting = True,
     d_nestedBlockComments = True, d_backtickIdent = False, d_hashLineComment = False,
     d_dashDashNeedsSpace = False, d_backslashEscapes = False\<rparr>"

definition mysqlDialect :: dialect where
  "mysqlDialect = \<lparr>d_numbered = False, d_positional = True, d_dollarQuoting = False,
     d_nestedBlockComments = False, d_backtickIdent = True, d_hashLineComment = True,
     d_dashDashNeedsSpace = True, d_backslashEscapes = True\<rparr>"

definition dialectFor :: "string \<Rightarrow> dialect option" where
  "dialectFor alias =
     (case resolveDriver alias of
        None \<Rightarrow> None
      | Some DriverPgx \<Rightarrow> Some pgDialect
      | Some DriverMySQL \<Rightarrow> Some mysqlDialect)"

section \<open>Byte tests\<close>

definition hasPrefixAt :: "string \<Rightarrow> nat \<Rightarrow> string \<Rightarrow> bool" where
  "hasPrefixAt sql i prefix \<longleftrightarrow> has_prefix (drop i sql) prefix"

definition indexAt :: "string \<Rightarrow> nat \<Rightarrow> string \<Rightarrow> nat option" where
  "indexAt sql from needle =
     (if length sql \<le> from then None
      else (case str_index (drop from sql) needle of None \<Rightarrow> None | Some k \<Rightarrow> Some (from + k)))"

definition isDigitByte :: "char \<Rightarrow> bool" where
  "isDigitByte b \<longleftrightarrow> (let n = of_char b :: nat in 48 \<le> n \<and> n \<le> 57)"

definition isIdentByte :: "char \<Rightarrow> bool" where
  "isIdentByte b \<longleftrightarrow> (let n = of_char b :: nat in
     b = CHR ''_'' \<or> (48 \<le> n \<and> n \<le> 57) \<or> (97 \<le> n \<and> n \<le> 122) \<or> (65 \<le> n \<and> n \<le> 90))"

section \<open>Regions that are not code\<close>

definition isLineCommentStart :: "dialect \<Rightarrow> string \<Rightarrow> nat \<Rightarrow> bool" where
  "isLineCommentStart d sql i \<longleftrightarrow>
     (if d_hashLineComment d \<and> sql ! i = CHR ''#'' then True
      else if \<not> hasPrefixAt sql i ''--'' then False
      else if \<not> d_dashDashNeedsSpace d then True
      else if length sql \<le> i + 2 then True
      else sql ! (i + 2) = CHR '' '' \<or> sql ! (i + 2) = CHR 0x09
           \<or> sql ! (i + 2) = CHR 0x0A \<or> sql ! (i + 2) = CHR 0x0D)"

function skipLineComment :: "string \<Rightarrow> nat \<Rightarrow> nat" where
  "skipLineComment sql j =
     (if j < length sql
      then (if sql ! j = CHR 0x0A then j + 1 else skipLineComment sql (j + 1))
      else length sql)"
  by pat_completeness auto
termination by (relation "measure (\<lambda>(sql, j). length sql - j)") auto

text \<open>The loop of \<open>skipBlockComment\<close>, entered at \<open>i + 2\<close> with depth 1.\<close>

function blockCommentLoop :: "string \<Rightarrow> bool \<Rightarrow> nat \<Rightarrow> nat \<Rightarrow> nat" where
  "blockCommentLoop sql nested depth j =
     (if j < length sql
      then (if hasPrefixAt sql j ''*/''
            then (if depth - 1 = 0 then j + 2 else blockCommentLoop sql nested (depth - 1) (j + 2))
            else if nested \<and> hasPrefixAt sql j ''/*''
            then blockCommentLoop sql nested (depth + 1) (j + 2)
            else blockCommentLoop sql nested depth (j + 1))
      else length sql)"
  by pat_completeness auto
termination by (relation "measure (\<lambda>(sql, nested, depth, j). length sql - j)") auto

definition skipBlockComment :: "string \<Rightarrow> nat \<Rightarrow> bool \<Rightarrow> nat" where
  "skipBlockComment sql i nested = blockCommentLoop sql nested 1 (i + 2)"

text \<open>The loop of \<open>skipQuoted\<close>, entered just past the opening quote.\<close>

function quotedLoop :: "string \<Rightarrow> char \<Rightarrow> bool \<Rightarrow> nat \<Rightarrow> nat" where
  "quotedLoop sql quote backslash j =
     (if j < length sql
      then (if backslash \<and> sql ! j = CHR 0x5C \<and> j + 1 < length sql
            then quotedLoop sql quote backslash (j + 2)
            else if sql ! j \<noteq> quote then quotedLoop sql quote backslash (j + 1)
            else if j + 1 < length sql \<and> sql ! (j + 1) = quote
            then quotedLoop sql quote backslash (j + 2)
            else j + 1)
      else length sql)"
  by pat_completeness auto
termination by (relation "measure (\<lambda>(sql, quote, backslash, j). length sql - j)") auto

definition skipQuoted :: "string \<Rightarrow> nat \<Rightarrow> char \<Rightarrow> bool \<Rightarrow> nat" where
  "skipQuoted sql i quote backslash = quotedLoop sql quote backslash (i + 1)"

definition isPostgresEscapeString :: "dialect \<Rightarrow> string \<Rightarrow> nat \<Rightarrow> bool" where
  "isPostgresEscapeString d sql i \<longleftrightarrow>
     (if \<not> d_dollarQuoting d \<or> i = 0 then False
      else if sql ! (i - 1) \<noteq> CHR ''E'' \<and> sql ! (i - 1) \<noteq> CHR ''e'' then False
      else if i = 1 then True
      else \<not> isIdentByte (sql ! (i - 2)))"

text \<open>The first offset at or after \<open>j\<close> that cannot continue a dollar tag.\<close>

function dollarTagEnd :: "string \<Rightarrow> nat \<Rightarrow> nat" where
  "dollarTagEnd sql j =
     (if j < length sql \<and> isIdentByte (sql ! j) \<and> \<not> isDigitByte (sql ! j)
      then dollarTagEnd sql (j + 1) else j)"
  by pat_completeness auto
termination by (relation "measure (\<lambda>(sql, j). length sql - j)") auto

definition skipDollarQuoted :: "string \<Rightarrow> nat \<Rightarrow> nat option" where
  "skipDollarQuoted sql i =
     (let tagEnd = dollarTagEnd sql (i + 1) in
      if length sql \<le> tagEnd \<or> sql ! tagEnd \<noteq> CHR ''$'' then None
      else (let tag = take (tagEnd + 1 - i) (drop i sql) in
            case indexAt sql (tagEnd + 1) tag of
              None \<Rightarrow> Some (length sql)
            | Some closing \<Rightarrow> Some (closing + length tag)))"

definition skipNonCode :: "dialect \<Rightarrow> string \<Rightarrow> nat \<Rightarrow> nat option" where
  "skipNonCode d sql i =
     (if isLineCommentStart d sql i then Some (skipLineComment sql i)
      else if hasPrefixAt sql i ''/*'' then Some (skipBlockComment sql i (d_nestedBlockComments d))
      else if sql ! i = CHR 0x27
      then Some (skipQuoted sql i (CHR 0x27) (d_backslashEscapes d \<or> isPostgresEscapeString d sql i))
      else if sql ! i = CHR 0x22 then Some (skipQuoted sql i (CHR 0x22) (d_backslashEscapes d))
      else if d_backtickIdent d \<and> sql ! i = CHR 0x60 then Some (skipQuoted sql i (CHR 0x60) False)
      else if d_dollarQuoting d \<and> sql ! i = CHR ''$'' then skipDollarQuoted sql i
      else None)"

declare skipLineComment.simps [simp del] blockCommentLoop.simps [simp del]
  quotedLoop.simps [simp del] dollarTagEnd.simps [simp del]

section \<open>Numbered placeholders\<close>

function digitsEnd :: "string \<Rightarrow> nat \<Rightarrow> nat" where
  "digitsEnd sql j = (if j < length sql \<and> isDigitByte (sql ! j) then digitsEnd sql (j + 1) else j)"
  by pat_completeness auto
termination by (relation "measure (\<lambda>(sql, j). length sql - j)") auto

declare digitsEnd.simps [simp del]

text \<open>strconv.Atoi on a run of digits: the value, or an error past the 64-bit signed range.\<close>

definition digits_val :: "string \<Rightarrow> nat" where
  "digits_val s = foldl (\<lambda>n c. 10 * n + (of_char c - 48)) 0 s"

definition atoi_digits :: "string \<Rightarrow> nat option" where
  "atoi_digits s = (if s = [] then None
     else (let n = digits_val s in if int n < 2 ^ 63 then Some n else None))"

definition readNumbered :: "string \<Rightarrow> nat \<Rightarrow> placeholder option" where
  "readNumbered sql i =
     (let j = digitsEnd sql (i + 1) in
      if j = i + 1 then None
      else (case atoi_digits (take (j - (i + 1)) (drop (i + 1) sql)) of
              None \<Rightarrow> None
            | Some n \<Rightarrow> Some \<lparr>p_start = i, p_end = j, p_index = n\<rparr>))"

section \<open>Progress of the skipping routines\<close>

lemma skipLineComment_bounds: "j \<le> length sql \<Longrightarrow> j \<le> skipLineComment sql j \<and> skipLineComment sql j \<le> length sql"
proof (induction sql j rule: skipLineComment.induct)
  case (1 sql j)
  then show ?case by (subst (1 2) skipLineComment.simps) auto
qed

lemma skipLineComment_progress: "j < length sql \<Longrightarrow> j < skipLineComment sql j"
  using skipLineComment_bounds [of "j + 1" sql] by (subst skipLineComment.simps) auto

lemma blockCommentLoop_bounds:
  "j \<le> blockCommentLoop sql nested depth j \<or> blockCommentLoop sql nested depth j = length sql"
  "blockCommentLoop sql nested depth j \<le> length sql"
proof (induction sql nested depth j rule: blockCommentLoop.induct)
  case (1 sql nested depth j)
  {
    case 1
    show ?case using "1.IH"(1,3,5) by (subst (1 2) blockCommentLoop.simps) (auto; fastforce)
  next
    case 2
    have "hasPrefixAt sql j ''*/'' \<Longrightarrow> j < length sql \<Longrightarrow> j + 2 \<le> length sql"
      using has_prefix_length [of "drop j sql" "''*/''"] by (simp add: hasPrefixAt_def)
    then show ?case using "1.IH"(2,4,6) by (subst blockCommentLoop.simps) auto
  }
qed

lemma quotedLoop_bounds:
  "j \<le> length sql \<Longrightarrow> j \<le> quotedLoop sql quote backslash j \<and> quotedLoop sql quote backslash j \<le> length sql"
proof (induction sql quote backslash j rule: quotedLoop.induct)
  case (1 sql quote backslash j)
  then show ?case by (subst (1 2) quotedLoop.simps) auto
qed

lemma dollarTagEnd_bounds: "j \<le> length sql \<Longrightarrow> j \<le> dollarTagEnd sql j \<and> dollarTagEnd sql j \<le> length sql"
proof (induction sql j rule: dollarTagEnd.induct)
  case (1 sql j)
  then show ?case by (subst (1 2) dollarTagEnd.simps) auto
qed

lemma digitsEnd_bounds: "j \<le> length sql \<Longrightarrow> j \<le> digitsEnd sql j \<and> digitsEnd sql j \<le> length sql"
proof (induction sql j rule: digitsEnd.induct)
  case (1 sql j)
  then show ?case by (subst (1 2) digitsEnd.simps) auto
qed

lemma skipNonCode_progress:
  assumes "i < length sql" and "skipNonCode d sql i = Some n"
  shows "i < n \<and> n \<le> length sql"
proof -
  have line: "i < skipLineComment sql i" "skipLineComment sql i \<le> length sql"
    using skipLineComment_progress skipLineComment_bounds [of i sql] assms(1) by auto
  have block: "i < skipBlockComment sql i b" "skipBlockComment sql i b \<le> length sql" for b
    using blockCommentLoop_bounds [where sql = sql and j = "i + 2" and nested = b and depth = 1] assms(1) by (auto simp: skipBlockComment_def)
  have quoted: "i < skipQuoted sql i q b" "skipQuoted sql i q b \<le> length sql" for q b
    using quotedLoop_bounds [of "i + 1" sql q b] assms(1) by (auto simp: skipQuoted_def)
  have dollar: "skipDollarQuoted sql i = Some n \<Longrightarrow> i < n \<and> n \<le> length sql"
    using assms(1) dollarTagEnd_bounds [of "i + 1" sql]
    by (auto simp: skipDollarQuoted_def Let_def indexAt_def split: if_splits option.splits
        dest!: str_index_Some)
  show ?thesis
    using assms(2) line block quoted dollar by (auto simp: skipNonCode_def split: if_splits)
qed

lemma readNumbered_progress:
  "i < length sql \<Longrightarrow> readNumbered sql i = Some p \<Longrightarrow>
     p_start p = i \<and> i + 1 < p_end p \<and> p_end p \<le> length sql"
  using digitsEnd_bounds [of "i + 1" sql]
  by (auto simp: readNumbered_def Let_def split: if_splits option.splits)

section \<open>The scan\<close>

function scanLoop :: "dialect \<Rightarrow> string \<Rightarrow> nat \<Rightarrow> placeholder list \<Rightarrow> placeholder list" where
  "scanLoop d sql i found =
     (if i < length sql
      then (case skipNonCode d sql i of
              Some n \<Rightarrow> scanLoop d sql n found
            | None \<Rightarrow>
                if d_numbered d \<and> sql ! i = CHR ''$''
                then (case readNumbered sql i of
                        None \<Rightarrow> scanLoop d sql (i + 1) found
                      | Some p \<Rightarrow> scanLoop d sql (p_end p) (found @ [p]))
                else if d_positional d \<and> sql ! i = CHR ''?''
                then scanLoop d sql (i + 1)
                       (found @ [\<lparr>p_start = i, p_end = i + 1, p_index = length found + 1\<rparr>])
                else scanLoop d sql (i + 1) found)
      else found)"
  by pat_completeness auto
termination
  by (relation "measure (\<lambda>(d, sql, i, found). length sql - i)")
    (auto dest: skipNonCode_progress readNumbered_progress)

declare scanLoop.simps [simp del]

text \<open>The error result of \<open>scanPlaceholders\<close> is always nil, so the model returns the list alone.\<close>

definition scanPlaceholders :: "dialect \<Rightarrow> string \<Rightarrow> placeholder list" where
  "scanPlaceholders d sql = scanLoop d sql 0 []"

section \<open>What the scan finds\<close>

definition slice :: "string \<Rightarrow> nat \<Rightarrow> nat \<Rightarrow> string" where
  "slice sql a b = take (b - a) (drop a sql)"

lemma slice_Cons: "a < b \<Longrightarrow> a < length s \<Longrightarrow> slice s a b = s ! a # slice s (Suc a) b"
  by (simp add: slice_def Cons_nth_drop_Suc [symmetric] take_Cons' del: drop_Suc_Cons)

lemma slice_empty [simp]: "slice s a a = []"
  by (simp add: slice_def)

text \<open>Placeholders in textual order, pairwise disjoint, non-empty and inside the first \<open>n\<close> bytes.\<close>

definition well_placed :: "nat \<Rightarrow> placeholder list \<Rightarrow> bool" where
  "well_placed n ps \<longleftrightarrow> sorted_wrt (\<lambda>p q. p_end p \<le> p_start q) ps
     \<and> (\<forall>p \<in> set ps. p_start p < p_end p \<and> p_end p \<le> n)"

lemma well_placed_Nil [simp]: "well_placed n []"
  by (simp add: well_placed_def)

lemma well_placed_snoc:
  "well_placed i ps \<Longrightarrow> i \<le> p_start p \<Longrightarrow> p_start p < p_end p \<Longrightarrow> p_end p \<le> n \<Longrightarrow>
     well_placed n (ps @ [p])"
  by (fastforce simp: well_placed_def sorted_wrt_append)

lemma well_placed_mono: "well_placed i ps \<Longrightarrow> i \<le> n \<Longrightarrow> well_placed n ps"
  by (auto simp: well_placed_def)

text \<open>A numbered placeholder is a dollar sign and the decimal digits of its index.\<close>

definition numbered_text :: "string \<Rightarrow> placeholder \<Rightarrow> bool" where
  "numbered_text sql p \<longleftrightarrow>
     (\<exists>ds. slice sql (p_start p) (p_end p) = CHR ''$'' # ds \<and> ds \<noteq> [] \<and> list_all isDigitByte ds
           \<and> digits_val ds = p_index p \<and> p_index p < 2 ^ 63)"

definition positional_text :: "string \<Rightarrow> placeholder \<Rightarrow> bool" where
  "positional_text sql p \<longleftrightarrow> slice sql (p_start p) (p_end p) = ''?''"

lemma digitsEnd_digits: "j \<le> length sql \<Longrightarrow> list_all isDigitByte (slice sql j (digitsEnd sql j))"
proof (induction sql j rule: digitsEnd.induct)
  case (1 sql j)
  show ?case
  proof (cases "j < length sql \<and> isDigitByte (sql ! j)")
    case True
    with "1.IH" have IH: "list_all isDigitByte (slice sql (j + 1) (digitsEnd sql (j + 1)))" by simp
    have "digitsEnd sql j = digitsEnd sql (j + 1)" "j + 1 \<le> digitsEnd sql (j + 1)"
      using True digitsEnd_bounds [of "j + 1" sql] by (subst digitsEnd.simps, auto)
    then have "slice sql j (digitsEnd sql j) = sql ! j # slice sql (j + 1) (digitsEnd sql (j + 1))"
      using True by (simp add: slice_Cons)
    with IH True show ?thesis by simp
  next
    case False
    then have "digitsEnd sql j = j" by (subst digitsEnd.simps) auto
    then show ?thesis by simp
  qed
qed

lemma readNumbered_text:
  assumes "i < length sql" "sql ! i = CHR ''$''" "readNumbered sql i = Some p"
  shows "numbered_text sql p"
proof -
  let ?j = "digitsEnd sql (i + 1)" and ?ds = "slice sql (i + 1) (digitsEnd sql (i + 1))"
  from assms(3) have p: "?j \<noteq> i + 1" "p = \<lparr>p_start = i, p_end = ?j, p_index = digits_val ?ds\<rparr>"
    "?ds \<noteq> []" "digits_val ?ds < 2 ^ 63"
    by (auto simp: readNumbered_def Let_def slice_def atoi_digits_def split: if_splits option.splits)
  have "i + 1 \<le> ?j" using digitsEnd_bounds [of "i + 1" sql] assms(1) by simp
  then have "slice sql i ?j = CHR ''$'' # ?ds"
    using assms(1,2) by (simp add: slice_Cons)
  with p digitsEnd_digits [of "i + 1" sql] assms(1) show ?thesis by (simp add: numbered_text_def)
qed

text \<open>
  One induction for every invariant of the scan: a predicate on the index and the list found so
  far that survives a skipped region, a numbered placeholder, a positional placeholder and a plain
  byte holds when the loop ends.
\<close>

definition scan_step_ok :: "dialect \<Rightarrow> string \<Rightarrow> (nat \<Rightarrow> placeholder list \<Rightarrow> bool) \<Rightarrow> bool" where
  "scan_step_ok d sql I \<longleftrightarrow> (\<forall>i found. I i found \<longrightarrow> i < length sql \<longrightarrow>
     (\<forall>n. skipNonCode d sql i = Some n \<longrightarrow> I n found)
     \<and> (\<forall>p. d_numbered d \<longrightarrow> sql ! i = CHR ''$'' \<longrightarrow> readNumbered sql i = Some p \<longrightarrow>
            I (p_end p) (found @ [p]))
     \<and> (d_positional d \<longrightarrow> sql ! i = CHR ''?'' \<longrightarrow>
            I (i + 1) (found @ [\<lparr>p_start = i, p_end = i + 1, p_index = length found + 1\<rparr>]))
     \<and> I (i + 1) found)"

lemma scanLoop_invariant:
  "scan_step_ok d sql I \<Longrightarrow> i \<le> length sql \<Longrightarrow> I i found \<Longrightarrow> I (length sql) (scanLoop d sql i found)"
proof (induction d sql i found rule: scanLoop.induct)
  case (1 d sql i found)
  show ?case
  proof (cases "i < length sql")
    case False
    with "1.prems" show ?thesis by (subst scanLoop.simps) simp
  next
    case inside: True
    note steps = "1.prems"(1) [unfolded scan_step_ok_def, rule_format, OF "1.prems"(3) inside]
    show ?thesis
    proof (cases "skipNonCode d sql i")
      case (Some n)
      with skipNonCode_progress [OF inside Some] steps inside "1.IH" "1.prems"(1)
      show ?thesis by (subst scanLoop.simps) simp
    next
      case None
      then show ?thesis using inside steps "1.IH" "1.prems"(1) readNumbered_progress [OF inside]
        by (subst scanLoop.simps) (auto split: option.splits)
    qed
  qed
qed

lemma scanPlaceholders_well_placed: "well_placed (length sql) (scanPlaceholders d sql)"
proof -
  have "well_placed n found"
    if "well_placed i found" "i < length sql" "skipNonCode d sql i = Some n" for i n found
    using that skipNonCode_progress by (meson less_imp_le well_placed_mono)
  moreover have "well_placed (p_end p) (found @ [p])"
    if "well_placed i found" "i < length sql" "readNumbered sql i = Some p" for i p found
    using that readNumbered_progress [of i sql p] by (intro well_placed_snoc [of i]) auto
  ultimately have "scan_step_ok d sql well_placed"
    unfolding scan_step_ok_def by (auto intro: well_placed_snoc well_placed_mono)
  then show ?thesis by (simp add: scanPlaceholders_def scanLoop_invariant)
qed

lemma scanPlaceholders_numbered_text:
  assumes "\<not> d_positional d"
  shows "\<forall>p \<in> set (scanPlaceholders d sql). numbered_text sql p"
proof -
  have "scan_step_ok d sql (\<lambda>i ps. \<forall>p \<in> set ps. numbered_text sql p)"
    using assms unfolding scan_step_ok_def by (auto intro: readNumbered_text)
  from scanLoop_invariant [OF this, of 0 "[]"] show ?thesis by (simp add: scanPlaceholders_def)
qed

lemma scanPlaceholders_positional:
  assumes "\<not> d_numbered d"
  shows "(\<forall>p \<in> set (scanPlaceholders d sql). positional_text sql p)
     \<and> map p_index (scanPlaceholders d sql) = [1..<length (scanPlaceholders d sql) + 1]"
proof -
  let ?I = "\<lambda>i ps. (\<forall>p \<in> set ps. positional_text sql p) \<and> map p_index ps = [1..<length ps + 1]"
  have "scan_step_ok d sql (\<lambda>i. ?I i)"
    using assms unfolding scan_step_ok_def by (auto simp: positional_text_def slice_Cons)
  from scanLoop_invariant [OF this, of 0 "[]"] show ?thesis by (simp add: scanPlaceholders_def)
qed

end
