(* ===== verification/SqlExpand.thy ===== *)
theory SqlExpand
  imports SqlScan
begin

text \<open>
  List-argument expansion of \<^verbatim>\<open>internal/provider/sql/expand.go\<close>: every placeholder bound to
  a list becomes a run of placeholders and the argument list is flattened in binding order. Go's
  \<^verbatim>\<open>[]any\<close> of scalars and \<^verbatim>\<open>ListArg\<close> values is a list of \<open>sql_arg\<close>; the formatted
  errors are the constructors of \<open>expand_error\<close>.
\<close>

datatype 'a sql_arg = Scalar 'a | ListArg "'a list"

datatype expand_error =
    UnsupportedDriver string
  | IndexOutOfRange nat nat
  | EmptyList nat
  | ListUnused nat
  | ListReused nat nat
  | CountMismatch nat nat

fun isListArg :: "'a sql_arg \<Rightarrow> bool" where
  "isListArg (ListArg xs) = True"
| "isListArg (Scalar x) = False"

fun hasListArg :: "'a sql_arg list \<Rightarrow> bool" where
  "hasListArg [] = False"
| "hasListArg (arg # args) = (if isListArg arg then True else hasListArg args)"

fun argWidth :: "'a sql_arg \<Rightarrow> nat" where
  "argWidth (ListArg xs) = length xs"
| "argWidth (Scalar x) = 1"

fun flattenArgs :: "'a sql_arg list \<Rightarrow> 'a sql_arg list" where
  "flattenArgs [] = []"
| "flattenArgs (Scalar x # args) = Scalar x # flattenArgs args"
| "flattenArgs (ListArg xs # args) = map Scalar xs @ flattenArgs args"

section \<open>Rewriting the text\<close>

fun rewriteLoop :: "string \<Rightarrow> nat \<Rightarrow> placeholder list \<Rightarrow> (placeholder \<Rightarrow> string) \<Rightarrow> string" where
  "rewriteLoop sql cursor [] render = drop cursor sql"
| "rewriteLoop sql cursor (p # ps) render =
     slice sql cursor (p_start p) @ render p @ rewriteLoop sql (p_end p) ps render"

definition rewrite :: "string \<Rightarrow> placeholder list \<Rightarrow> (placeholder \<Rightarrow> string) \<Rightarrow> string" where
  "rewrite sql found render = rewriteLoop sql 0 found render"

definition placeholderRun :: "dialect \<Rightarrow> nat \<Rightarrow> nat \<Rightarrow> string" where
  "placeholderRun d base width =
     str_join '','' (map (\<lambda>i. if d_numbered d then CHR ''$'' # itoa (base + i) else ''?'') [0..<width])"

section \<open>Numbered placeholders\<close>

fun countLoop :: "nat \<Rightarrow> placeholder list \<Rightarrow> (nat \<Rightarrow> nat) \<Rightarrow> expand_error + (nat \<Rightarrow> nat)" where
  "countLoop nargs [] counts = Inr counts"
| "countLoop nargs (p # ps) counts =
     (if p_index p < 1 \<or> nargs < p_index p then Inl (IndexOutOfRange (p_index p) nargs)
      else countLoop nargs ps (counts(p_index p := counts (p_index p) + 1)))"

fun checkNumberedListArg :: "nat \<Rightarrow> 'a sql_arg \<Rightarrow> nat \<Rightarrow> expand_error option" where
  "checkNumberedListArg index (Scalar x) occurrences = None"
| "checkNumberedListArg index (ListArg xs) occurrences =
     (if length xs = 0 then Some (EmptyList index)
      else if occurrences = 0 then Some (ListUnused index)
      else if 1 < occurrences then Some (ListReused index occurrences)
      else None)"

text \<open>The loop over the arguments: the bases of arguments \<open>i + 1, i + 2, \<dots>\<close>, or the first error.\<close>

fun basesLoop :: "(nat \<Rightarrow> nat) \<Rightarrow> nat \<Rightarrow> nat \<Rightarrow> 'a sql_arg list \<Rightarrow> expand_error + nat list" where
  "basesLoop counts i nxt [] = Inr []"
| "basesLoop counts i nxt (arg # args) =
     (case checkNumberedListArg i arg (counts (i + 1)) of
        Some e \<Rightarrow> Inl e
      | None \<Rightarrow> bind_result (basesLoop counts (i + 1) (nxt + argWidth arg) args)
                  (\<lambda>bs. Inr (nxt # bs)))"

definition expandNumbered ::
  "dialect \<Rightarrow> string \<Rightarrow> 'a sql_arg list \<Rightarrow> placeholder list \<Rightarrow> expand_error + (string \<times> 'a sql_arg list)" where
  "expandNumbered d sql args found =
     bind_result (countLoop (length args) found (\<lambda>_. 0)) (\<lambda>counts.
     bind_result (basesLoop counts 0 1 args) (\<lambda>bs.
       let bases = 0 # bs in
       Inr (rewrite sql found
              (\<lambda>p. placeholderRun d (bases ! p_index p) (argWidth (args ! (p_index p - 1)))),
            flattenArgs args)))"

section \<open>Positional placeholders\<close>

fun firstEmptyList :: "nat \<Rightarrow> 'a sql_arg list \<Rightarrow> nat option" where
  "firstEmptyList i [] = None"
| "firstEmptyList i (arg # args) =
     (if isListArg arg \<and> argWidth arg = 0 then Some i else firstEmptyList (i + 1) args)"

definition expandPositional ::
  "dialect \<Rightarrow> string \<Rightarrow> 'a sql_arg list \<Rightarrow> placeholder list \<Rightarrow> expand_error + (string \<times> 'a sql_arg list)" where
  "expandPositional d sql args found =
     (if length found \<noteq> length args then Inl (CountMismatch (length found) (length args))
      else (case firstEmptyList 0 args of
              Some i \<Rightarrow> Inl (EmptyList i)
            | None \<Rightarrow> Inr (rewrite sql found
                (\<lambda>p. placeholderRun d 0 (argWidth (args ! (p_index p - 1)))), flattenArgs args)))"

definition expandListArgs ::
  "string \<Rightarrow> string \<Rightarrow> 'a sql_arg list \<Rightarrow> expand_error + (string \<times> 'a sql_arg list)" where
  "expandListArgs driverAlias sql args =
     (if \<not> hasListArg args then Inr (sql, args)
      else (case dialectFor driverAlias of
              None \<Rightarrow> Inl (UnsupportedDriver driverAlias)
            | Some d \<Rightarrow>
                (let found = scanPlaceholders d sql in
                 if d_numbered d then expandNumbered d sql args found
                 else expandPositional d sql args found)))"

section \<open>The interface between the scanner and the expander\<close>

text \<open>
  The expander relies on its scanner for two things: the placeholders are in textual order without
  overlap, and they lie inside the statement. Everything proved of \<open>rewrite\<close> rests on that alone.
\<close>

locale placeholder_scanner =
  fixes scan :: "string \<Rightarrow> placeholder list"
  assumes scan_placed: "well_placed (length sql) (scan sql)"
begin

lemma rewriteLoop_identity:
  "cursor \<le> length sql \<Longrightarrow> well_placed (length sql) ps \<Longrightarrow> \<forall>p \<in> set ps. cursor \<le> p_start p \<Longrightarrow>
     rewriteLoop sql cursor ps (\<lambda>p. slice sql (p_start p) (p_end p)) = drop cursor sql"
proof (induction ps arbitrary: cursor)
  case Nil
  then show ?case by simp
next
  case (Cons p ps)
  then have p: "cursor \<le> p_start p" "p_start p \<le> p_end p" "p_end p \<le> length sql"
    "well_placed (length sql) ps" "\<forall>q \<in> set ps. p_end p \<le> p_start q"
    by (auto simp: well_placed_def)
  have "slice sql cursor (p_start p) @ slice sql (p_start p) (p_end p) @ drop (p_end p) sql
      = drop cursor sql"
    using p(1-3) by (simp add: slice_def) (metis append_take_drop_id drop_drop le_add_diff_inverse2)
  with Cons.IH [OF p(3) p(4) p(5)] show ?case by simp
qed

lemma rewrite_identity: "rewrite sql (scan sql) (\<lambda>p. slice sql (p_start p) (p_end p)) = sql"
  using rewriteLoop_identity [of 0 sql "scan sql"] scan_placed by (simp add: rewrite_def)

lemma length_rewriteLoop:
  "cursor \<le> length sql \<Longrightarrow> well_placed (length sql) ps \<Longrightarrow> \<forall>p \<in> set ps. cursor \<le> p_start p \<Longrightarrow>
     length (rewriteLoop sql cursor ps render) + sum_list (map (\<lambda>p. p_end p - p_start p) ps)
     = (length sql - cursor) + sum_list (map (\<lambda>p. length (render p)) ps)"
proof (induction ps arbitrary: cursor)
  case Nil
  then show ?case by simp
next
  case (Cons p ps)
  then have p: "cursor \<le> p_start p" "p_start p \<le> p_end p" "p_end p \<le> length sql"
    "well_placed (length sql) ps" "\<forall>q \<in> set ps. p_end p \<le> p_start q"
    by (auto simp: well_placed_def)
  from Cons.IH [OF p(3) p(4) p(5)] p(1-3) show ?case by (simp add: slice_def)
qed

lemma length_rewrite:
  "length (rewrite sql (scan sql) render) + sum_list (map (\<lambda>p. p_end p - p_start p) (scan sql))
     = length sql + sum_list (map (\<lambda>p. length (render p)) (scan sql))"
  using length_rewriteLoop [of 0 sql "scan sql" render] scan_placed by (simp add: rewrite_def)

end

interpretation sql_scan: placeholder_scanner "scanPlaceholders d" for d
  by unfold_locales (rule scanPlaceholders_well_placed)

section \<open>Binding order\<close>

fun argElems :: "'a sql_arg \<Rightarrow> 'a sql_arg list" where
  "argElems (Scalar x) = [Scalar x]"
| "argElems (ListArg xs) = map Scalar xs"

text \<open>How many flattened values precede argument \<open>k\<close> (counted from 0).\<close>

definition widthBefore :: "'a sql_arg list \<Rightarrow> nat \<Rightarrow> nat" where
  "widthBefore args k = sum_list (map argWidth (take k args))"

lemma length_argElems [simp]: "length (argElems arg) = argWidth arg"
  by (cases arg) auto

lemma flattenArgs_concat: "flattenArgs args = concat (map argElems args)"
  by (induction args rule: flattenArgs.induct) auto

lemma length_flattenArgs: "length (flattenArgs args) = sum_list (map argWidth args)"
  by (simp add: flattenArgs_concat length_concat comp_def)

lemma widthBefore_Cons [simp]:
  "widthBefore (a # args) 0 = 0" "widthBefore (a # args) (Suc k) = argWidth a + widthBefore args k"
  by (simp_all add: widthBefore_def)

lemma flattenArgs_segment:
  "k < length args \<Longrightarrow>
     take (argWidth (args ! k)) (drop (widthBefore args k) (flattenArgs args)) = argElems (args ! k)"
proof (induction args arbitrary: k)
  case (Cons a args)
  then show ?case by (cases k) (auto simp: flattenArgs_concat)
qed simp

lemma basesLoop_Inr:
  "basesLoop counts i nxt args = Inr bs \<Longrightarrow> length bs = length args \<and>
     (\<forall>k < length args. bs ! k = nxt + widthBefore args k)"
proof (induction counts i nxt args arbitrary: bs rule: basesLoop.induct)
  case (2 counts i nxt arg args)
  then obtain bs' where bs': "basesLoop counts (i + 1) (nxt + argWidth arg) args = Inr bs'" "bs = nxt # bs'"
    by (auto split: option.splits)
  with 2 have "length bs' = length args"
    "\<forall>k < length args. bs' ! k = nxt + argWidth arg + widthBefore args k"
    by (auto split: option.splits)
  with bs'(2) show ?case by (auto simp: less_Suc_eq_0_disj)
qed simp

lemma basesLoop_ok:
  "is_ok (basesLoop counts i nxt args) \<longleftrightarrow>
     (\<forall>k < length args. checkNumberedListArg (i + k) (args ! k) (counts (i + k + 1)) = None)"
proof (induction counts i nxt args rule: basesLoop.induct)
  case (2 counts i nxt arg args)
  show ?case
  proof (cases "checkNumberedListArg i arg (counts (i + 1))")
    case None
    have "is_ok (bind_result r (\<lambda>bs. Inr (nxt # bs))) = is_ok r" for r :: "expand_error + nat list"
      by (cases r) auto
    with 2 [OF None] None show ?thesis by (simp add: All_less_Suc2)
  next
    case (Some e)
    then show ?thesis by (auto intro!: exI [of _ 0])
  qed
qed (simp add: is_ok_def)

definition occurrences :: "nat \<Rightarrow> placeholder list \<Rightarrow> nat" where
  "occurrences k found = length (filter (\<lambda>p. p_index p = k) found)"

lemma countLoop_ok:
  "is_ok (countLoop nargs found counts) \<longleftrightarrow> (\<forall>p \<in> set found. 1 \<le> p_index p \<and> p_index p \<le> nargs)"
  by (induction found arbitrary: counts) auto

lemma countLoop_Inr:
  "countLoop nargs found counts = Inr c \<Longrightarrow> c k = counts k + occurrences k found"
  by (induction found arbitrary: counts) (auto simp: occurrences_def split: if_splits)

lemma checkNumberedListArg_None:
  "checkNumberedListArg i arg n = None \<longleftrightarrow> (\<forall>xs. arg = ListArg xs \<longrightarrow> xs \<noteq> [] \<and> n = 1)"
  by (cases arg) auto

lemma firstEmptyList_None:
  "firstEmptyList i args = None \<longleftrightarrow> (\<forall>arg \<in> set args. arg \<noteq> ListArg [])"
proof (induction i args rule: firstEmptyList.induct)
  case (2 i arg args)
  then show ?case by (cases arg) auto
qed simp

lemma expandNumbered_ok_iff:
  "is_ok (expandNumbered d sql args found) \<longleftrightarrow>
     (\<forall>p \<in> set found. 1 \<le> p_index p \<and> p_index p \<le> length args) \<and>
     (\<forall>k < length args. \<forall>xs. args ! k = ListArg xs \<longrightarrow> xs \<noteq> [] \<and> occurrences (k + 1) found = 1)"
proof (cases "\<forall>p \<in> set found. 1 \<le> p_index p \<and> p_index p \<le> length args")
  case True
  let ?c = "\<lambda>k. occurrences k found"
  from True obtain c' where "countLoop (length args) found (\<lambda>_. 0) = Inr c'"
    using countLoop_ok [of "length args" found "\<lambda>_. 0"] by (auto simp: is_ok_iff)
  moreover from this have "c' = ?c" by (auto simp: countLoop_Inr)
  ultimately have c: "countLoop (length args) found (\<lambda>_. 0) = Inr ?c" by simp
  have "is_ok (expandNumbered d sql args found) = is_ok (basesLoop ?c 0 1 args)"
    unfolding expandNumbered_def c by (cases "basesLoop ?c 0 1 args") (auto simp: Let_def)
  with True show ?thesis by (simp add: basesLoop_ok checkNumberedListArg_None)
next
  case False
  then have "\<not> is_ok (countLoop (length args) found (\<lambda>_. 0))" using countLoop_ok by blast
  then have "\<not> is_ok (expandNumbered d sql args found)"
    unfolding expandNumbered_def not_is_ok_iff by auto
  with False show ?thesis by blast
qed

lemma expandNumbered_Inr:
  assumes "expandNumbered d sql args found = Inr (sql', flat)"
  shows "flat = flattenArgs args \<and>
    sql' = rewrite sql found (\<lambda>p. placeholderRun d (1 + widthBefore args (p_index p - 1))
                                    (argWidth (args ! (p_index p - 1)))) \<and>
    (\<forall>p \<in> set found. take (argWidth (args ! (p_index p - 1))) (drop (widthBefore args (p_index p - 1)) flat)
                      = argElems (args ! (p_index p - 1)))"
proof -
  from assms obtain counts bs where
    c: "countLoop (length args) found (\<lambda>_. 0) = Inr counts" and
    b: "basesLoop counts 0 1 args = Inr bs" and
    eq: "sql' = rewrite sql found (\<lambda>p. placeholderRun d ((0 # bs) ! p_index p) (argWidth (args ! (p_index p - 1))))"
        "flat = flattenArgs args"
    by (auto simp: expandNumbered_def Let_def)
  from c countLoop_ok [of "length args" found "\<lambda>_. 0"]
  have range: "\<forall>p \<in> set found. 1 \<le> p_index p \<and> p_index p \<le> length args" by simp
  have "(0 # bs) ! p_index p = 1 + widthBefore args (p_index p - 1)" if "p \<in> set found" for p
  proof -
    from range that obtain k where "p_index p = Suc k" "k < length args"
      by (metis One_nat_def Suc_le_D Suc_le_eq)
    with basesLoop_Inr [OF b] show ?thesis by simp
  qed
  then have "rewriteLoop sql c ps (\<lambda>p. placeholderRun d ((0 # bs) ! p_index p) (argWidth (args ! (p_index p - 1))))
      = rewriteLoop sql c ps (\<lambda>p. placeholderRun d (1 + widthBefore args (p_index p - 1))
                                    (argWidth (args ! (p_index p - 1))))"
    if "set ps \<subseteq> set found" for c ps
    using that by (induction ps arbitrary: c) auto
  with eq range show ?thesis
    by (auto simp: rewrite_def intro!: flattenArgs_segment)
qed

lemma hasListArg_iff: "hasListArg args \<longleftrightarrow> (\<exists>arg \<in> set args. isListArg arg)"
  by (induction args) auto

lemma expandPositional_Inr:
  assumes "expandPositional d sql args found = Inr (sql', flat)"
    and "map p_index found = [1..<length found + 1]"
  shows "length found = length args \<and> flat = flattenArgs args
     \<and> sql' = rewrite sql found (\<lambda>p. placeholderRun d 0 (argWidth (args ! (p_index p - 1))))
     \<and> concat (map (\<lambda>p. argElems (args ! (p_index p - 1))) found) = flat"
proof -
  from assms(1) have n: "length found = length args" and f: "flat = flattenArgs args"
    and s: "sql' = rewrite sql found (\<lambda>p. placeholderRun d 0 (argWidth (args ! (p_index p - 1))))"
    by (auto simp: expandPositional_def split: if_splits option.splits)
  have "map (\<lambda>p. argElems (args ! (p_index p - 1))) found
      = map (\<lambda>k. argElems (args ! (k - 1))) (map p_index found)" by simp
  also have "\<dots> = map (\<lambda>k. argElems (args ! (k - 1))) [1..<length args + 1]" using assms(2) n by simp
  also have "\<dots> = map argElems args"
    by (rule nth_equalityI) (simp_all del: upt_Suc)
  finally show ?thesis using n f s by (simp add: flattenArgs_concat)
qed

lemma dialectFor_cases:
  "dialectFor alias = Some d \<Longrightarrow> d = pgDialect \<or> d = mysqlDialect"
  by (auto simp: dialectFor_def split: option.splits db_driver.splits)

lemma dialect_flags [simp]:
  "d_numbered pgDialect" "\<not> d_positional pgDialect" "\<not> d_numbered mysqlDialect" "d_positional mysqlDialect"
  by (simp_all add: pgDialect_def mysqlDialect_def)

section \<open>Properties\<close>

text \<open>C16: a statement is rewritten for a numbered (PostgreSQL) dialect exactly when every \<open>$N\<close> names
  one of the arguments and every list argument is non-empty and referenced exactly once; any other
  statement is refused.\<close>

theorem expandNumbered_accepts_iff:
  "is_ok (expandNumbered d sql args found) \<longleftrightarrow>
     (\<forall>p \<in> set found. 1 \<le> p_index p \<and> p_index p \<le> length args) \<and>
     (\<forall>k < length args. \<forall>xs. args ! k = ListArg xs \<longrightarrow> xs \<noteq> [] \<and> occurrences (k + 1) found = 1)"
  by (rule expandNumbered_ok_iff)

theorem expandNumbered_accepts_iff_witness:
  "is_ok (expandNumbered pgDialect ''a IN ($1)'' [ListArg [1::int, 2]]
     [\<lparr>p_start = 6, p_end = 8, p_index = 1\<rparr>])"
  by (subst expandNumbered_accepts_iff) (simp add: occurrences_def)


lemma pg_scan_example:
  "scanPlaceholders pgDialect ''x=$2 AND a IN ($1)'' =
     [\<lparr>p_start = 2, p_end = 4, p_index = 2\<rparr>, \<lparr>p_start = 15, p_end = 17, p_index = 1\<rparr>]"
  by code_simp




text \<open>C18: the scanner returns placeholders in textual order, pairwise disjoint and inside the statement,
  each of them a dollar sign followed by the decimal digits of its index for a numbered dialect.\<close>

theorem scan_locates_numbered:
  "well_placed (length sql) (scanPlaceholders pgDialect sql)
   \<and> list_all (numbered_text sql) (scanPlaceholders pgDialect sql)"
  using sql_scan.scan_placed scanPlaceholders_numbered_text [of pgDialect] by (simp add: list_all_iff)

lemma dollarTagEnd_tag:
  "list_all (\<lambda>c. isIdentByte c \<and> \<not> isDigitByte c) tag \<Longrightarrow> isDigitByte d \<Longrightarrow>
     dollarTagEnd (pre @ tag @ d # rest) (length pre) = length pre + length tag"
proof (induction tag arbitrary: pre)
  case Nil
  then show ?case by (subst dollarTagEnd.simps) simp
next
  case (Cons c tag)
  then have "dollarTagEnd ((pre @ [c]) @ tag @ d # rest) (length (pre @ [c])) = length (pre @ [c]) + length tag"
    by (intro Cons.IH) auto
  with Cons.prems show ?case by (subst dollarTagEnd.simps) (simp add: nth_append)
qed



end
