(* ===== verification/CtyValue.thy ===== *)
theory CtyValue
  imports Prelude Complex_Main
begin

text \<open>
  The values the HCL evaluator hands to the rest of the program (package cty, which is not under
  src/): known, unmarked values with their types. The program reads them through constructors and
  accessors only, so they are a datatype whose constructors are the documented kinds of cty; a null
  keeps its type, object attributes and map elements are association lists in iteration order, and
  \<^verbatim>\<open>RawEquals\<close>, documented as equality of type and value, is HOL equality. Numbers are
  rationals (big.Float without infinities).
\<close>

datatype cty =
    TDynamic | TString | TNumber | TBool
  | TList cty | TSet cty | TMap cty
  | TTuple "cty list" | TObject "(string \<times> cty) list"

datatype cval =
    VNull cty
  | VString string
  | VNumber rat
  | VBool bool
  | VList cty "cval list"
  | VSet cty "cval list"
  | VMap cty "(string \<times> cval) list"
  | VTuple "cval list"
  | VObject "(string \<times> cval) list"

fun typeOf :: "cval \<Rightarrow> cty" where
  "typeOf (VNull t) = t"
| "typeOf (VString s) = TString"
| "typeOf (VNumber n) = TNumber"
| "typeOf (VBool b) = TBool"
| "typeOf (VList t vs) = TList t"
| "typeOf (VSet t vs) = TSet t"
| "typeOf (VMap t kvs) = TMap t"
| "typeOf (VTuple vs) = TTuple (map typeOf vs)"
| "typeOf (VObject kvs) = TObject (map (\<lambda>kv. (fst kv, typeOf (snd kv))) kvs)"

fun isNull :: "cval \<Rightarrow> bool" where
  "isNull (VNull t) = True"
| "isNull _ = False"

fun isObjectType :: "cty \<Rightarrow> bool" where
  "isObjectType (TObject _) = True"
| "isObjectType _ = False"

fun isMapType :: "cty \<Rightarrow> bool" where
  "isMapType (TMap _) = True"
| "isMapType _ = False"

fun isTupleType :: "cty \<Rightarrow> bool" where
  "isTupleType (TTuple _) = True"
| "isTupleType _ = False"

fun isListType :: "cty \<Rightarrow> bool" where
  "isListType (TList _) = True"
| "isListType _ = False"

fun isSetType :: "cty \<Rightarrow> bool" where
  "isSetType (TSet _) = True"
| "isSetType _ = False"

text \<open>AsString panics on a null and on any other type: \<open>None\<close>.\<close>

fun asString :: "cval \<Rightarrow> string option" where
  "asString (VString s) = Some s"
| "asString _ = None"

text \<open>ElementIterator over a list, set or tuple; it panics on a null: \<open>None\<close>.\<close>

fun elements :: "cval \<Rightarrow> cval list option" where
  "elements (VList t vs) = Some vs"
| "elements (VSet t vs) = Some vs"
| "elements (VTuple vs) = Some vs"
| "elements _ = None"

fun attributes :: "cval \<Rightarrow> (string \<times> cval) list" where
  "attributes (VObject kvs) = kvs"
| "attributes (VMap t kvs) = kvs"
| "attributes _ = []"

text \<open>Objects and maps have distinct keys at every level.\<close>

fun wf_cval :: "cval \<Rightarrow> bool" where
  "wf_cval (VList t vs) = (\<forall>v \<in> set vs. wf_cval v)"
| "wf_cval (VSet t vs) = (\<forall>v \<in> set vs. wf_cval v)"
| "wf_cval (VTuple vs) = (\<forall>v \<in> set vs. wf_cval v)"
| "wf_cval (VMap t kvs) = (distinct (map fst kvs) \<and> (\<forall>kv \<in> set kvs. wf_cval (snd kv)))"
| "wf_cval (VObject kvs) = (distinct (map fst kvs) \<and> (\<forall>kv \<in> set kvs. wf_cval (snd kv)))"
| "wf_cval _ = True"

lemma size_map_of: "map_of kvs k = Some v \<Longrightarrow> size v < Suc (size_list (size_prod (\<lambda>_. 0) size) kvs)"
  by (induction kvs) (auto split: if_splits)

lemma size_prod_snd: "size_prod (\<lambda>_. 0) size kv = Suc (size (snd kv))"
  by (cases kv) simp

lemma map_of_filter_neq: "k \<noteq> k' \<Longrightarrow> map_of (filter (\<lambda>kv. fst kv \<noteq> k') kvs) k = map_of kvs k"
  by (induction kvs) auto

text \<open>
  What the program takes from the Go runtime and this development does not compute: the regular
  expression engine, time.ParseDuration (nanoseconds) and the rounding of a number to float64.
\<close>

record go_env =
  re_compile :: "string \<Rightarrow> string + (string \<Rightarrow> bool)"
  parse_duration :: "string \<Rightarrow> int option"
  to_f64 :: "rat \<Rightarrow> rat"

text \<open>A concrete environment for examples: literal patterns, no durations, exact numbers.\<close>

definition exact_env :: go_env where
  "exact_env = \<lparr>re_compile = \<lambda>p. Inr (\<lambda>s. s = p), parse_duration = \<lambda>s. None, to_f64 = \<lambda>q. q\<rparr>"

end
