(* ===== verification/Assertion.thy ===== *)
theory Assertion
  imports CtyValue
begin

text \<open>
  The assertion engine of \<^verbatim>\<open>internal/assertion\<close>: the matcher table (matcher.go), numeric and
  duration thresholds (threshold.go), UUIDs (uuid.go), exact equality and partial JSON matching
  (json.go). A check ends in \<open>Pass\<close> (a nil error), \<open>Fail\<close> with the Mismatch it returns, or
  \<open>Panic\<close> where the code calls an accessor of cty that panics. The formatted messages of the
  source keep their format string and its operands: \<open>Msg\<close>.
\<close>

section \<open>Outcomes\<close>

datatype fmt_arg = FStr string | FVal cval | FFloat rat | FInt nat

datatype amsg = Msg string "fmt_arg list" | WantGot cval cval

abbreviation UnknownMatcher :: "string \<Rightarrow> amsg" where
  "UnknownMatcher name \<equiv> Msg ''unknown matcher %q'' [FStr name]"

abbreviation ValueDoesNotExist :: "amsg" where
  "ValueDoesNotExist \<equiv> Msg ''value does not exist'' []"

abbreviation ValueExists :: "amsg" where
  "ValueExists \<equiv> Msg ''value exists but should not'' []"

abbreviation NotAString :: "amsg" where
  "NotAString \<equiv> Msg ''value is not a string'' []"

abbreviation NotANumber :: "amsg" where
  "NotANumber \<equiv> Msg ''value is not a number'' []"

abbreviation NotABool :: "amsg" where
  "NotABool \<equiv> Msg ''value is not a bool'' []"

abbreviation NotAnArray :: "amsg" where
  "NotAnArray \<equiv> Msg ''value is not an array'' []"

abbreviation NotAnObject :: "amsg" where
  "NotAnObject \<equiv> Msg ''value is not an object'' []"

abbreviation ContainsMissingValue :: "amsg" where
  "ContainsMissingValue \<equiv> Msg ''contains matcher is missing value'' []"

abbreviation DoesNotContain :: "string \<Rightarrow> string \<Rightarrow> amsg" where
  "DoesNotContain a n \<equiv> Msg ''%q does not contain %q'' [FStr a, FStr n]"

abbreviation ArrayDoesNotContain :: "amsg" where
  "ArrayDoesNotContain \<equiv> Msg ''array does not contain expected value'' []"

abbreviation ContainsWrongType :: "amsg" where
  "ContainsWrongType \<equiv> Msg ''contains matcher requires string or array'' []"

abbreviation MatchesRequiresPattern :: "amsg" where
  "MatchesRequiresPattern \<equiv> Msg ''matches matcher requires regex pattern'' []"

abbreviation MatchesRequiresString :: "amsg" where
  "MatchesRequiresString \<equiv> Msg ''matches matcher requires actual string'' []"

abbreviation RegexError :: "string \<Rightarrow> amsg" where
  "RegexError e \<equiv> Msg ''%s'' [FStr e]"

abbreviation DoesNotMatch :: "string \<Rightarrow> string \<Rightarrow> amsg" where
  "DoesNotMatch a p \<equiv> Msg ''%q does not match %q'' [FStr a, FStr p]"

abbreviation OneOfMissingValues :: "amsg" where
  "OneOfMissingValues \<equiv> Msg ''one_of matcher is missing values'' []"

abbreviation OneOfRequiresList :: "amsg" where
  "OneOfRequiresList \<equiv> Msg ''one_of matcher requires list'' []"

abbreviation NotInAllowedList :: "amsg" where
  "NotInAllowedList \<equiv> Msg ''value is not in allowed list'' []"

abbreviation ThresholdMissingValue :: "string \<Rightarrow> amsg" where
  "ThresholdMissingValue n \<equiv> Msg ''%s matcher is missing value'' [FStr n]"

abbreviation ThresholdNotNumeric :: "string \<Rightarrow> cval \<Rightarrow> amsg" where
  "ThresholdNotNumeric n v \<equiv> Msg ''%s threshold must be number or duration, got %s'' [FStr n, FVal v]"

abbreviation ComparisonFailed :: "string \<Rightarrow> cval \<Rightarrow> rat \<Rightarrow> amsg" where
  "ComparisonFailed opn t a \<equiv> Msg ''value must be %s %s, got %s'' [FStr opn, FVal t, FFloat a]"

abbreviation BetweenRequiresMinMax :: "amsg" where
  "BetweenRequiresMinMax \<equiv> Msg ''between matcher requires min and max'' []"

abbreviation BetweenMinNotNumeric :: "cval \<Rightarrow> amsg" where
  "BetweenMinNotNumeric v \<equiv> Msg ''between min must be number or duration, got %s'' [FVal v]"

abbreviation BetweenMaxNotNumeric :: "cval \<Rightarrow> amsg" where
  "BetweenMaxNotNumeric v \<equiv> Msg ''between max must be number or duration, got %s'' [FVal v]"

abbreviation BetweenMinAboveMax :: "amsg" where
  "BetweenMinAboveMax \<equiv> Msg ''between min must be <= max'' []"

abbreviation NotBetween :: "cval \<Rightarrow> cval \<Rightarrow> rat \<Rightarrow> amsg" where
  "NotBetween lo hi a \<equiv> Msg ''value must be between %s and %s, got %s'' [FVal lo, FVal hi, FFloat a]"

abbreviation UuidRequiresString :: "amsg" where
  "UuidRequiresString \<equiv> Msg ''uuid matcher requires a string value'' []"

abbreviation NotValidUuid :: "string \<Rightarrow> amsg" where
  "NotValidUuid v \<equiv> Msg ''%q is not a valid UUID'' [FStr v]"

abbreviation NotExactUuid :: "string \<Rightarrow> string \<Rightarrow> amsg" where
  "NotExactUuid v l \<equiv> Msg ''%q is not the %s UUID'' [FStr v, FStr l]"

abbreviation NotOfficialUuid :: "string \<Rightarrow> amsg" where
  "NotOfficialUuid v \<equiv> Msg ''%q is not an official UUID'' [FStr v]"

abbreviation NotUuidVersion :: "string \<Rightarrow> string \<Rightarrow> amsg" where
  "NotUuidVersion v w \<equiv> Msg ''%q is not a UUID v%s'' [FStr v, FStr w]"

abbreviation InvalidUuidVariant :: "string \<Rightarrow> amsg" where
  "InvalidUuidVariant v \<equiv> Msg ''%q has an invalid UUID variant'' [FStr v]"

abbreviation ExpectedNull :: "amsg" where
  "ExpectedNull \<equiv> Msg ''expected null'' []"

abbreviation ActualIsNull :: "amsg" where
  "ActualIsNull \<equiv> Msg ''actual value is null'' []"

abbreviation ExpectedObject :: "amsg" where
  "ExpectedObject \<equiv> Msg ''expected object'' []"

abbreviation ExpectedArray :: "amsg" where
  "ExpectedArray \<equiv> Msg ''expected array'' []"

abbreviation MissingRequiredField :: "amsg" where
  "MissingRequiredField \<equiv> Msg ''missing required field'' []"

abbreviation UnexpectedField :: "string \<Rightarrow> amsg" where
  "UnexpectedField k \<equiv> Msg ''object has unexpected field %q'' [FStr k]"

abbreviation ArrayLengthMismatch :: "nat \<Rightarrow> nat \<Rightarrow> amsg" where
  "ArrayLengthMismatch w g \<equiv> Msg ''array length mismatch want=%d got=%d'' [FInt w, FInt g]"

record mismatch =
  m_path :: string
  m_message :: amsg

datatype outcome = Pass | Fail mismatch | Panic

abbreviation fail_at :: "string \<Rightarrow> amsg \<Rightarrow> outcome" where
  "fail_at path msg \<equiv> Fail \<lparr>m_path = path, m_message = msg\<rparr>"

fun after :: "outcome \<Rightarrow> outcome \<Rightarrow> outcome" where
  "after Pass r = r"
| "after (Fail m) r = Fail m"
| "after Panic r = Panic"

lemma after_Pass_iff [simp]: "after a b = Pass \<longleftrightarrow> a = Pass \<and> b = Pass"
  by (cases a) auto

type_synonym matcher_args = "(string \<times> cval) list"

section \<open>Recognising matchers\<close>

definition matcherKey :: string where "matcherKey = ''__tales_matcher''"

datatype matcher_view = NotMatcher | Matcher string matcher_args | MatcherPanic

definition isMatcher :: "cval \<Rightarrow> matcher_view" where
  "isMatcher value = (case value of
     VObject kvs \<Rightarrow>
       (case map_of kvs matcherKey of
          None \<Rightarrow> NotMatcher
        | Some name \<Rightarrow>
            if typeOf name \<noteq> TString then NotMatcher
            else (case asString name of
                    None \<Rightarrow> MatcherPanic
                  | Some s \<Rightarrow> Matcher s (filter (\<lambda>kv. fst kv \<noteq> matcherKey) kvs)))
   | _ \<Rightarrow> NotMatcher)"

datatype wrapper_view = NotWrapper | Wrapper string cval | WrapperPanic

definition fieldWrapper :: "cval \<Rightarrow> wrapper_view" where
  "fieldWrapper value = (case isMatcher value of
     MatcherPanic \<Rightarrow> WrapperPanic
   | NotMatcher \<Rightarrow> NotWrapper
   | Matcher name args \<Rightarrow>
       if name \<noteq> ''optional'' \<and> name \<noteq> ''required'' then NotWrapper
       else (case map_of args ''value'' of
               None \<Rightarrow> NotWrapper
             | Some inner \<Rightarrow> Wrapper name inner))"

section \<open>Handlers\<close>

definition matchExists :: "cval \<Rightarrow> string \<Rightarrow> outcome" where
  "matchExists actual path = (if \<not> isNull actual then Pass else fail_at path ValueDoesNotExist)"

definition matchNotExists :: "cval \<Rightarrow> string \<Rightarrow> outcome" where
  "matchNotExists actual path = (if isNull actual then Pass else fail_at path ValueExists)"

definition matchIsString :: "cval \<Rightarrow> string \<Rightarrow> outcome" where
  "matchIsString actual path = (if typeOf actual = TString then Pass else fail_at path NotAString)"

definition matchIsNumber :: "cval \<Rightarrow> string \<Rightarrow> outcome" where
  "matchIsNumber actual path = (if typeOf actual = TNumber then Pass else fail_at path NotANumber)"

definition matchIsBool :: "cval \<Rightarrow> string \<Rightarrow> outcome" where
  "matchIsBool actual path = (if typeOf actual = TBool then Pass else fail_at path NotABool)"

definition matchIsArray :: "cval \<Rightarrow> string \<Rightarrow> outcome" where
  "matchIsArray actual path =
     (if isListType (typeOf actual) \<or> isTupleType (typeOf actual) then Pass
      else fail_at path NotAnArray)"

definition matchIsObject :: "cval \<Rightarrow> string \<Rightarrow> outcome" where
  "matchIsObject actual path =
     (if isObjectType (typeOf actual) \<or> isMapType (typeOf actual) then Pass
      else fail_at path NotAnObject)"

definition matchContains :: "matcher_args \<Rightarrow> cval \<Rightarrow> string \<Rightarrow> outcome" where
  "matchContains args actual path = (case map_of args ''value'' of
     None \<Rightarrow> fail_at path ContainsMissingValue
   | Some needle \<Rightarrow>
       if typeOf actual = TString \<and> typeOf needle = TString
       then (case (asString actual, asString needle) of
               (Some a, Some n) \<Rightarrow>
                 if str_contains a n then Pass else fail_at path (DoesNotContain a n)
             | _ \<Rightarrow> Panic)
       else if isListType (typeOf actual) \<or> isTupleType (typeOf actual)
       then (case elements actual of
               None \<Rightarrow> Panic
             | Some elems \<Rightarrow>
                 if needle \<in> set elems then Pass else fail_at path ArrayDoesNotContain)
       else fail_at path ContainsWrongType)"

definition matchRegex :: "go_env \<Rightarrow> matcher_args \<Rightarrow> cval \<Rightarrow> string \<Rightarrow> outcome" where
  "matchRegex E args actual path = (case map_of args ''value'' of
     None \<Rightarrow> fail_at path MatchesRequiresPattern
   | Some patternVal \<Rightarrow>
       if typeOf patternVal \<noteq> TString then fail_at path MatchesRequiresPattern
       else if typeOf actual \<noteq> TString then fail_at path MatchesRequiresString
       else (case asString patternVal of
               None \<Rightarrow> Panic
             | Some pattern \<Rightarrow>
                 (case re_compile E pattern of
                    Inl err \<Rightarrow> fail_at path (RegexError err)
                  | Inr matches \<Rightarrow>
                      (case asString actual of
                         None \<Rightarrow> Panic
                       | Some s \<Rightarrow> if matches s then Pass else fail_at path (DoesNotMatch s pattern)))))"

definition matchOneOf :: "matcher_args \<Rightarrow> cval \<Rightarrow> string \<Rightarrow> outcome" where
  "matchOneOf args actual path = (case map_of args ''value'' of
     None \<Rightarrow> fail_at path OneOfMissingValues
   | Some values \<Rightarrow>
       if \<not> isTupleType (typeOf values) \<and> \<not> isListType (typeOf values)
       then fail_at path OneOfRequiresList
       else (case elements values of
               None \<Rightarrow> Panic
             | Some candidates \<Rightarrow>
                 if actual \<in> set candidates then Pass else fail_at path NotInAllowedList))"

section \<open>Thresholds\<close>

definition thresholdValue :: "go_env \<Rightarrow> cval \<Rightarrow> rat option" where
  "thresholdValue E v = (case v of
     VNumber n \<Rightarrow> Some (to_f64 E n)
   | VString s \<Rightarrow>
       (case parse_duration E s of
          None \<Rightarrow> None
        | Some d \<Rightarrow> Some (to_f64 E (to_f64 E (of_int d) / 1000000)))
   | _ \<Rightarrow> None)"

definition comparisonError :: "go_env \<Rightarrow> string \<Rightarrow> string \<Rightarrow> cval \<Rightarrow> cval \<Rightarrow> outcome" where
  "comparisonError E path opn actual threshold = (case thresholdValue E actual of
     None \<Rightarrow> fail_at path NotANumber
   | Some a \<Rightarrow> fail_at path (ComparisonFailed opn threshold a))"

definition matchThreshold ::
  "go_env \<Rightarrow> matcher_args \<Rightarrow> cval \<Rightarrow> string \<Rightarrow> string \<Rightarrow> string \<Rightarrow> (rat \<Rightarrow> rat \<Rightarrow> bool) \<Rightarrow> outcome" where
  "matchThreshold E args actual path name opn cmp = (case map_of args ''value'' of
     None \<Rightarrow> fail_at path (ThresholdMissingValue name)
   | Some thresholdVal \<Rightarrow>
       (case thresholdValue E thresholdVal of
          None \<Rightarrow> fail_at path (ThresholdNotNumeric name thresholdVal)
        | Some threshold \<Rightarrow>
            (case thresholdValue E actual of
               None \<Rightarrow> fail_at path NotANumber
             | Some a \<Rightarrow> if cmp a threshold then Pass
                         else comparisonError E path opn actual thresholdVal)))"

definition matchLt :: "go_env \<Rightarrow> matcher_args \<Rightarrow> cval \<Rightarrow> string \<Rightarrow> outcome" where
  "matchLt E args actual path = matchThreshold E args actual path ''lt'' ''<'' (\<lambda>a t. a < t)"

definition matchLte :: "go_env \<Rightarrow> matcher_args \<Rightarrow> cval \<Rightarrow> string \<Rightarrow> outcome" where
  "matchLte E args actual path = matchThreshold E args actual path ''lte'' ''<='' (\<lambda>a t. a \<le> t)"

definition matchGt :: "go_env \<Rightarrow> matcher_args \<Rightarrow> cval \<Rightarrow> string \<Rightarrow> outcome" where
  "matchGt E args actual path = matchThreshold E args actual path ''gt'' ''>'' (\<lambda>a t. a > t)"

definition matchGte :: "go_env \<Rightarrow> matcher_args \<Rightarrow> cval \<Rightarrow> string \<Rightarrow> outcome" where
  "matchGte E args actual path = matchThreshold E args actual path ''gte'' ''>='' (\<lambda>a t. a \<ge> t)"

definition matchBetween :: "go_env \<Rightarrow> matcher_args \<Rightarrow> cval \<Rightarrow> string \<Rightarrow> outcome" where
  "matchBetween E args actual path = (case (map_of args ''min'', map_of args ''max'') of
     (Some minVal, Some maxVal) \<Rightarrow>
       (case thresholdValue E minVal of
          None \<Rightarrow> fail_at path (BetweenMinNotNumeric minVal)
        | Some lo \<Rightarrow>
            (case thresholdValue E maxVal of
               None \<Rightarrow> fail_at path (BetweenMaxNotNumeric maxVal)
             | Some hi \<Rightarrow>
                 if lo > hi then fail_at path BetweenMinAboveMax
                 else (case thresholdValue E actual of
                         None \<Rightarrow> fail_at path NotANumber
                       | Some a \<Rightarrow> if a \<ge> lo \<and> a \<le> hi then Pass
                                   else fail_at path (NotBetween minVal maxVal a))))
   | _ \<Rightarrow> fail_at path BetweenRequiresMinMax)"

section \<open>UUIDs\<close>

definition uuidNilValue :: string where "uuidNilValue = ''00000000-0000-0000-0000-000000000000''"
definition uuidMaxValue :: string where "uuidMaxValue = ''ffffffff-ffff-ffff-ffff-ffffffffffff''"

definition isHexByte :: "char \<Rightarrow> bool" where
  "isHexByte b \<longleftrightarrow> (let n = of_char b :: nat in
     (48 \<le> n \<and> n \<le> 57) \<or> (97 \<le> n \<and> n \<le> 102) \<or> (65 \<le> n \<and> n \<le> 70))"

text \<open>The anchored expression \<open>uuidCanonicalRE\<close>: hyphens at 8, 13, 18 and 23 of 36 characters.\<close>

definition uuidCanonicalRE :: "string \<Rightarrow> bool" where
  "uuidCanonicalRE s \<longleftrightarrow> length s = 36 \<and>
     list_all (\<lambda>i. if i \<in> {8, 13, 18, 23} then s ! i = CHR ''-'' else isHexByte (s ! i)) [0..<36]"

definition uuidVariantOK :: "string \<Rightarrow> bool" where
  "uuidVariantOK lower \<longleftrightarrow> lower ! 19 \<in> {CHR ''8'', CHR ''9'', CHR ''a'', CHR ''b''}"

definition expectExactUUID :: "string \<Rightarrow> string \<Rightarrow> string \<Rightarrow> string \<Rightarrow> string \<Rightarrow> outcome" where
  "expectExactUUID lower want original label path =
     (if lower = want then Pass else fail_at path (NotExactUuid original label))"

definition validateAnyUUID :: "string \<Rightarrow> string \<Rightarrow> string \<Rightarrow> outcome" where
  "validateAnyUUID lower original path =
     (if lower = uuidNilValue \<or> lower = uuidMaxValue then Pass
      else if (of_char (lower ! 14) :: nat) < 49 \<or> 56 < (of_char (lower ! 14) :: nat)
              \<or> \<not> uuidVariantOK lower
      then fail_at path (NotOfficialUuid original)
      else Pass)"

definition validateVersionedUUID :: "string \<Rightarrow> string \<Rightarrow> string \<Rightarrow> string \<Rightarrow> outcome" where
  "validateVersionedUUID lower original want path =
     (if [lower ! 14] \<noteq> want then fail_at path (NotUuidVersion original want)
      else if \<not> uuidVariantOK lower then fail_at path (InvalidUuidVariant original)
      else Pass)"

definition matchUUID :: "matcher_args \<Rightarrow> cval \<Rightarrow> string \<Rightarrow> outcome" where
  "matchUUID args actual path =
     (if isNull actual then fail_at path ValueDoesNotExist
      else if typeOf actual \<noteq> TString then fail_at path UuidRequiresString
      else (case asString actual of
              None \<Rightarrow> Panic
            | Some value \<Rightarrow>
                if \<not> uuidCanonicalRE value then fail_at path (NotValidUuid value)
                else (let lower = to_lower value;
                          check = (\<lambda>want.
                            if want = ''nil'' then expectExactUUID lower uuidNilValue value ''nil'' path
                            else if want = ''max'' then expectExactUUID lower uuidMaxValue value ''max'' path
                            else if want = [] then validateAnyUUID lower value path
                            else validateVersionedUUID lower value want path)
                      in (case map_of args ''version'' of
                            None \<Rightarrow> check []
                          | Some v \<Rightarrow>
                              if typeOf v \<noteq> TString then check []
                              else (case asString v of None \<Rightarrow> Panic | Some want \<Rightarrow> check want)))))"

section \<open>Dispatch\<close>

definition applyMatcher :: "go_env \<Rightarrow> string \<Rightarrow> matcher_args \<Rightarrow> cval \<Rightarrow> string \<Rightarrow> outcome" where
  "applyMatcher E name args actual path =
     (if name = ''exists'' then matchExists actual path
      else if name = ''not_exists'' then matchNotExists actual path
      else if name = ''is_string'' then matchIsString actual path
      else if name = ''is_number'' then matchIsNumber actual path
      else if name = ''is_bool'' then matchIsBool actual path
      else if name = ''is_array'' then matchIsArray actual path
      else if name = ''is_object'' then matchIsObject actual path
      else if name = ''contains'' then matchContains args actual path
      else if name = ''matches'' then matchRegex E args actual path
      else if name = ''one_of'' then matchOneOf args actual path
      else if name = ''uuid'' then matchUUID args actual path
      else if name = ''any'' then Pass
      else if name = ''lt'' then matchLt E args actual path
      else if name = ''lte'' then matchLte E args actual path
      else if name = ''gt'' then matchGt E args actual path
      else if name = ''gte'' then matchGte E args actual path
      else if name = ''between'' then matchBetween E args actual path
      else fail_at path (UnknownMatcher name))"

lemma isMatcher_Matcher:
  "isMatcher v = Matcher name args \<Longrightarrow>
     \<exists>kvs. v = VObject kvs \<and> args = filter (\<lambda>kv. fst kv \<noteq> matcherKey) kvs"
  by (auto simp: isMatcher_def split: cval.splits option.splits if_splits)

lemma fieldWrapper_Wrapper:
  "fieldWrapper v = Wrapper kind inner \<Longrightarrow> \<exists>kvs. v = VObject kvs \<and> map_of kvs ''value'' = Some inner"
  by (auto simp: fieldWrapper_def matcherKey_def map_of_filter_neq
      split: matcher_view.splits option.splits if_splits dest!: isMatcher_Matcher)

lemma fieldWrapper_size: "fieldWrapper v = Wrapper kind inner \<Longrightarrow> size inner < size v"
  using size_map_of by (fastforce dest: fieldWrapper_Wrapper)

end
