(* ===== verification/JsonMatch.thy ===== *)
theory JsonMatch
  imports Assertion
begin

text \<open>
  \<^verbatim>\<open>internal/assertion/json.go\<close>: \<open>Equal\<close> and \<open>MatchJSON\<close>. The recursion follows the expected
  value, which shrinks; the two range loops over the fields and the indexes are functions of their
  own, and the fields are visited in the order of the association list (Go ranges over a map in an
  unspecified order: \<open>matchFields_Pass_iff\<close> shows that whether a match passes does not depend on it).
\<close>

section \<open>Equal\<close>

function equalMatch :: "go_env \<Rightarrow> string \<Rightarrow> cval \<Rightarrow> cval \<Rightarrow> outcome" where
  "equalMatch E path expected actual = (case fieldWrapper expected of
     WrapperPanic \<Rightarrow> Panic
   | Wrapper kind inner \<Rightarrow> equalMatch E path inner actual
   | NotWrapper \<Rightarrow>
       (case isMatcher expected of
          MatcherPanic \<Rightarrow> Panic
        | Matcher name args \<Rightarrow> applyMatcher E name args actual path
        | NotMatcher \<Rightarrow>
            if expected = actual then Pass else fail_at path (WantGot expected actual)))"
  by pat_completeness auto
termination
  by (relation "measure (\<lambda>(E, path, expected, actual). size expected)") (auto dest: fieldWrapper_size)

declare equalMatch.simps [simp del]

section \<open>MatchJSON\<close>

text \<open>The keys of \<open>allowedKeys\<close> when the loop over the expected fields has ended.\<close>

definition allowedKeys :: "(string \<times> cval) list \<Rightarrow> (string \<times> cval) list \<Rightarrow> string list" where
  "allowedKeys expectedMap actualMap =
     filter (\<lambda>k. map_of actualMap k \<noteq> None) (map fst expectedMap)"

text \<open>The second loop of \<open>matchJSONObject\<close>: the first actual key that is not allowed.\<close>

fun unexpectedField :: "(string \<times> cval) list \<Rightarrow> string list \<Rightarrow> string \<Rightarrow> outcome" where
  "unexpectedField [] allowed path = Pass"
| "unexpectedField (kv # kvs) allowed path =
     (if fst kv \<notin> set allowed then fail_at path (UnexpectedField (fst kv))
      else unexpectedField kvs allowed path)"

text \<open>The branch of the loop for a field that the actual object lacks.\<close>

definition missingField :: "string \<Rightarrow> wrapper_view \<Rightarrow> cval \<Rightarrow> outcome" where
  "missingField path w expVal =
     (if (case w of Wrapper kind inner \<Rightarrow> kind = ''optional'' | _ \<Rightarrow> False) then Pass
      else (case isMatcher expVal of
              MatcherPanic \<Rightarrow> Panic
            | Matcher name args \<Rightarrow>
                if name = ''not_exists'' then Pass
                else if name = ''exists'' then fail_at path ValueDoesNotExist
                else fail_at path MissingRequiredField
            | NotMatcher \<Rightarrow> fail_at path MissingRequiredField))"

text \<open>The elements of a non-null list or tuple.\<close>

fun arrayItems :: "cval \<Rightarrow> cval list option" where
  "arrayItems (VTuple vs) = Some vs"
| "arrayItems (VList t vs) = Some vs"
| "arrayItems _ = None"

function matchJSON :: "go_env \<Rightarrow> cval \<Rightarrow> cval \<Rightarrow> bool \<Rightarrow> string \<Rightarrow> outcome"
  and matchFields :: "go_env \<Rightarrow> (string \<times> cval) list \<Rightarrow> (string \<times> cval) list \<Rightarrow> bool \<Rightarrow> string \<Rightarrow> outcome"
  and matchItems :: "go_env \<Rightarrow> nat \<Rightarrow> cval list \<Rightarrow> cval list \<Rightarrow> bool \<Rightarrow> string \<Rightarrow> outcome" where
  "matchJSON E expected actual strict path = (case fieldWrapper expected of
     WrapperPanic \<Rightarrow> Panic
   | Wrapper kind inner \<Rightarrow> matchJSON E inner actual strict path
   | NotWrapper \<Rightarrow>
       (case isMatcher expected of
          MatcherPanic \<Rightarrow> Panic
        | Matcher name args \<Rightarrow> applyMatcher E name args actual path
        | NotMatcher \<Rightarrow>
            if isNull expected
            then (if isNull actual then Pass else fail_at path ExpectedNull)
            else if isNull actual then fail_at path ActualIsNull
            else (case expected of
                    VObject kvs \<Rightarrow>
                      (if \<not> isObjectType (typeOf actual) \<and> \<not> isMapType (typeOf actual)
                       then fail_at path ExpectedObject
                       else after (matchFields E kvs (attributes actual) strict path)
                              (if strict
                               then unexpectedField (attributes actual)
                                      (allowedKeys kvs (attributes actual)) path
                               else Pass))
                  | VTuple es \<Rightarrow>
                      (case arrayItems actual of
                         None \<Rightarrow> fail_at path ExpectedArray
                       | Some as \<Rightarrow>
                           if length es \<noteq> length as
                           then fail_at path (ArrayLengthMismatch (length es) (length as))
                           else matchItems E 0 es as strict path)
                  | VList te es \<Rightarrow>
                      (case arrayItems actual of
                         None \<Rightarrow> fail_at path ExpectedArray
                       | Some as \<Rightarrow>
                           if length es \<noteq> length as
                           then fail_at path (ArrayLengthMismatch (length es) (length as))
                           else matchItems E 0 es as strict path)
                  | _ \<Rightarrow>
                      if expected = actual then Pass
                      else fail_at path (WantGot expected actual))))"
| "matchFields E [] actualMap strict path = Pass"
| "matchFields E ((key, expVal) # rest) actualMap strict path =
     (case fieldWrapper expVal of
        WrapperPanic \<Rightarrow> Panic
      | w \<Rightarrow>
        (case map_of actualMap key of
           None \<Rightarrow> after (missingField (path @ ''.'' @ key) w expVal)
                     (matchFields E rest actualMap strict path)
         | Some actVal \<Rightarrow>
             after (case w of
                      Wrapper kind inner \<Rightarrow> matchJSON E inner actVal strict (path @ ''.'' @ key)
                    | _ \<Rightarrow> matchJSON E expVal actVal strict (path @ ''.'' @ key))
               (matchFields E rest actualMap strict path)))"
| "matchItems E i [] actuals strict path = Pass"
| "matchItems E i (e # es) [] strict path = Pass"
| "matchItems E i (e # es) (a # as) strict path =
     after (matchJSON E e a strict (path @ ''['' @ itoa i @ '']''))
       (matchItems E (i + 1) es as strict path)"
  by pat_completeness auto
termination
  by (relation "measure (\<lambda>x. case x of
        Inl (E, expected, actual, strict, path) \<Rightarrow> size expected
      | Inr (Inl (E, kvs, actualMap, strict, path)) \<Rightarrow> size_list (size_prod (\<lambda>_. 0) size) kvs
      | Inr (Inr (E, i, es, as, strict, path)) \<Rightarrow> size_list size es)")
    (auto dest: fieldWrapper_size)

declare matchJSON.simps [simp del]

section \<open>One equation per kind of expected value\<close>

lemma isMatcher_NotMatcher_fieldWrapper: "isMatcher e = NotMatcher \<Longrightarrow> fieldWrapper e = NotWrapper"
  by (simp add: fieldWrapper_def)

lemma matchJSON_wrapper:
  "fieldWrapper e = Wrapper kind inner \<Longrightarrow> matchJSON E e a strict path = matchJSON E inner a strict path"
  by (subst matchJSON.simps) simp

lemma matchJSON_matcher:
  "fieldWrapper e = NotWrapper \<Longrightarrow> isMatcher e = Matcher name args \<Longrightarrow>
     matchJSON E e a strict path = applyMatcher E name args a path"
  by (subst matchJSON.simps) simp

lemma matchJSON_panic:
  "fieldWrapper e = WrapperPanic \<Longrightarrow> matchJSON E e a strict path = Panic"
  "isMatcher e = MatcherPanic \<Longrightarrow> matchJSON E e a strict path = Panic"
  by (subst matchJSON.simps, simp add: fieldWrapper_def)+

lemma matchJSON_null:
  "matchJSON E (VNull t) a strict path = (if isNull a then Pass else fail_at path ExpectedNull)"
  by (subst matchJSON.simps) (simp add: fieldWrapper_def isMatcher_def)

lemma matchJSON_array:
  "arrayItems e = Some es \<Longrightarrow> matchJSON E e a strict path =
     (if isNull a then fail_at path ActualIsNull
      else (case arrayItems a of
              None \<Rightarrow> fail_at path ExpectedArray
            | Some as \<Rightarrow> if length es \<noteq> length as
                         then fail_at path (ArrayLengthMismatch (length es) (length as))
                         else matchItems E 0 es as strict path))"
  by (cases e) (simp_all add: matchJSON.simps fieldWrapper_def isMatcher_def)

lemma matchJSON_object:
  "isMatcher (VObject kvs) = NotMatcher \<Longrightarrow> matchJSON E (VObject kvs) a strict path =
     (if isNull a then fail_at path ActualIsNull
      else if \<not> isObjectType (typeOf a) \<and> \<not> isMapType (typeOf a) then fail_at path ExpectedObject
      else after (matchFields E kvs (attributes a) strict path)
             (if strict then unexpectedField (attributes a) (allowedKeys kvs (attributes a)) path
              else Pass))"
  by (subst matchJSON.simps) (simp add: isMatcher_NotMatcher_fieldWrapper)

fun is_leaf :: "cval \<Rightarrow> bool" where
  "is_leaf (VString _) = True"
| "is_leaf (VNumber _) = True"
| "is_leaf (VBool _) = True"
| "is_leaf (VMap _ _) = True"
| "is_leaf (VSet _ _) = True"
| "is_leaf _ = False"

lemma matchJSON_leaf:
  "is_leaf e \<Longrightarrow> matchJSON E e a strict path =
     (if isNull a then fail_at path ActualIsNull
      else if e = a then Pass else fail_at path (WantGot e a))"
  by (cases e) (simp_all add: matchJSON.simps fieldWrapper_def isMatcher_def)

text \<open>Every expected value falls under exactly one of the equations above.\<close>

lemma expected_cases:
  obtains (wrapper) kind inner where "fieldWrapper e = Wrapper kind inner"
  | (matcher) name args where "fieldWrapper e = NotWrapper" "isMatcher e = Matcher name args"
  | (panic) "fieldWrapper e = WrapperPanic"
  | (null) t where "e = VNull t"
  | (array) es where "arrayItems e = Some es"
  | (object) kvs where "e = VObject kvs" "isMatcher e = NotMatcher"
  | (leaf) "is_leaf e"
proof (cases "isMatcher e")
  case NotMatcher
  then show ?thesis using null array object leaf by (cases e) auto
next
  case (Matcher name args)
  then show ?thesis using wrapper matcher panic by (cases "fieldWrapper e") auto
next
  case MatcherPanic
  then show ?thesis using panic by (simp add: fieldWrapper_def)
qed

lemmas matchJSON_eqs = matchJSON_wrapper matchJSON_matcher matchJSON_panic matchJSON_null
  matchJSON_array matchJSON_object matchJSON_leaf

section \<open>Passing is independent of the order of the fields\<close>

lemma matchFields_Cons_Pass:
  "matchFields E (kv # rest) am strict path = Pass \<longleftrightarrow>
     matchFields E [kv] am strict path = Pass \<and> matchFields E rest am strict path = Pass"
  by (cases kv) (auto split: wrapper_view.splits option.splits)

lemma matchFields_Pass_all:
  "matchFields E kvs am strict path = Pass \<longleftrightarrow> (\<forall>kv \<in> set kvs. matchFields E [kv] am strict path = Pass)"
  by (induction kvs) (simp, metis list.set_intros matchFields_Cons_Pass set_ConsD)

lemma unexpectedField_Pass_iff:
  "unexpectedField kvs allowed path = Pass \<longleftrightarrow> fst ` set kvs \<subseteq> set allowed"
  by (induction kvs) auto

lemma set_allowedKeys: "set (allowedKeys kvs am) = fst ` set kvs \<inter> fst ` set am"
  by (auto simp: allowedKeys_def map_of_eq_None_iff)

lemma matchItems_Pass_iff:
  "length es = length as \<Longrightarrow> matchItems E i es as strict path = Pass \<longleftrightarrow>
     (\<forall>k < length es. matchJSON E (es ! k) (as ! k) strict (path @ ''['' @ itoa (i + k) @ '']'') = Pass)"
proof (induction es as arbitrary: i rule: list_induct2)
  case (Cons e es a as)
  then show ?case by (simp add: All_less_Suc2)
qed simp

section \<open>Paths\<close>

lemma comparisonError_path: "comparisonError E path opn a t = Fail m \<Longrightarrow> m_path m = path"
  by (auto simp: comparisonError_def split: option.splits)

lemma matchThreshold_path: "matchThreshold E args a path n opn c = Fail m \<Longrightarrow> m_path m = path"
  by (auto simp: matchThreshold_def comparisonError_path split: option.splits if_splits)

lemma matchUUID_path: "matchUUID args a path = Fail m \<Longrightarrow> m_path m = path"
  by (auto simp: matchUUID_def Let_def expectExactUUID_def validateAnyUUID_def validateVersionedUUID_def
      split: option.splits if_splits)

lemma simple_handler_paths:
  "matchExists a path = Fail m \<Longrightarrow> m_path m = path"
  "matchNotExists a path = Fail m \<Longrightarrow> m_path m = path"
  "matchIsString a path = Fail m \<Longrightarrow> m_path m = path"
  "matchIsNumber a path = Fail m \<Longrightarrow> m_path m = path"
  "matchIsBool a path = Fail m \<Longrightarrow> m_path m = path"
  "matchIsArray a path = Fail m \<Longrightarrow> m_path m = path"
  "matchIsObject a path = Fail m \<Longrightarrow> m_path m = path"
  by (auto simp: matchExists_def matchNotExists_def matchIsString_def matchIsNumber_def
      matchIsBool_def matchIsArray_def matchIsObject_def split: if_splits)

lemma matchContains_path: "matchContains args a path = Fail m \<Longrightarrow> m_path m = path"
  by (auto simp: matchContains_def split: option.splits if_splits)

lemma matchRegex_path: "matchRegex E args a path = Fail m \<Longrightarrow> m_path m = path"
  by (auto simp: matchRegex_def split: option.splits if_splits sum.splits)

lemma matchOneOf_path: "matchOneOf args a path = Fail m \<Longrightarrow> m_path m = path"
  by (auto simp: matchOneOf_def split: option.splits if_splits)

lemma matchBetween_path: "matchBetween E args a path = Fail m \<Longrightarrow> m_path m = path"
  by (auto simp: matchBetween_def split: option.splits if_splits)

lemma comparison_paths:
  "matchLt E args a path = Fail m \<Longrightarrow> m_path m = path"
  "matchLte E args a path = Fail m \<Longrightarrow> m_path m = path"
  "matchGt E args a path = Fail m \<Longrightarrow> m_path m = path"
  "matchGte E args a path = Fail m \<Longrightarrow> m_path m = path"
  by (auto simp: matchLt_def matchLte_def matchGt_def matchGte_def matchThreshold_path)

lemmas handler_paths = simple_handler_paths matchContains_path matchRegex_path matchOneOf_path
  matchBetween_path comparison_paths matchUUID_path

lemma applyMatcher_path: "applyMatcher E name args a path = Fail m \<Longrightarrow> m_path m = path"
  unfolding applyMatcher_def
  by (simp split: if_splits add: handler_paths) (auto simp: handler_paths)

lemma has_prefix_trans: "has_prefix s (p @ q) \<Longrightarrow> has_prefix s p"
  unfolding has_prefix_def by (metis append_eq_conv_conj append_assoc append_take_drop_id)

lemma after_Fail: "after a b = Fail m \<Longrightarrow> a = Fail m \<or> (a = Pass \<and> b = Fail m)"
  by (cases a) auto

lemma unexpectedField_path: "unexpectedField kvs al path = Fail m \<Longrightarrow> m_path m = path"
  by (induction kvs) (auto split: if_splits)

lemma missingField_path: "missingField path w v = Fail m \<Longrightarrow> m_path m = path"
  by (auto simp: missingField_def split: if_splits wrapper_view.splits matcher_view.splits)

lemma has_prefix_refl: "has_prefix s s"
  by (simp add: has_prefix_def)

lemma match_paths:
  "matchJSON E e a strict path = Fail m \<Longrightarrow> has_prefix (m_path m) path"
  "matchFields E kvs am strict path = Fail m \<Longrightarrow> has_prefix (m_path m) path"
  "matchItems E i es as strict path = Fail m \<Longrightarrow> has_prefix (m_path m) path"
proof (induction E e a strict path and E kvs am strict path and E i es as strict path
    arbitrary: m and m and m rule: matchJSON_matchFields_matchItems.induct)
  case (1 E expected actual strict path)
  show ?case
  proof (cases expected rule: expected_cases)
    case (wrapper kind inner)
    with 1 show ?thesis by (simp add: matchJSON_wrapper)
  next
    case (matcher name args)
    with 1 show ?thesis by (auto simp: matchJSON_matcher has_prefix_refl dest: applyMatcher_path)
  next
    case panic
    with 1 show ?thesis by (simp add: matchJSON_panic)
  next
    case (null t)
    with 1 show ?thesis by (auto simp: matchJSON_null has_prefix_refl split: if_splits)
  next
    case (array es)
    then have "fieldWrapper expected = NotWrapper" "isMatcher expected = NotMatcher" "\<not> isNull expected"
      by (cases expected; simp add: fieldWrapper_def isMatcher_def)+
    with array 1 show ?thesis
      by (cases expected) (auto simp: matchJSON_array has_prefix_refl split: if_splits option.splits)
  next
    case (object kvs)
    with 1 show ?thesis
      by (auto simp: matchJSON_object has_prefix_refl isMatcher_NotMatcher_fieldWrapper
          split: if_splits dest!: after_Fail dest: unexpectedField_path)
  next
    case leaf
    with 1 show ?thesis by (auto simp: matchJSON_leaf has_prefix_refl split: if_splits)
  qed
next
  case (3 E key expVal rest am strict path)
  have ext: "has_prefix s (path @ ''.'' @ key) \<Longrightarrow> has_prefix s path" for s
    by (rule has_prefix_trans)
  show ?case
  proof (cases "map_of am key")
    case None
    with 3 show ?thesis
      by (cases "fieldWrapper expVal")
        (auto dest!: after_Fail missingField_path simp: has_prefix_append)
  next
    case (Some actVal)
    show ?thesis
    proof (cases "fieldWrapper expVal")
      case NotWrapper
      with 3 Some ext show ?thesis by (auto dest!: after_Fail)
    next
      case (Wrapper kind inner)
      with "3.prems" Some have "matchJSON E inner actVal strict (path @ ''.'' @ key) = Fail m
          \<or> matchFields E rest am strict path = Fail m"
        by (auto dest!: after_Fail)
      then show ?thesis
      proof
        assume "matchJSON E inner actVal strict (path @ ''.'' @ key) = Fail m"
        then show ?thesis by (rule ext [OF "3.IH"(8) [OF Wrapper Some refl]])
      next
        assume "matchFields E rest am strict path = Fail m"
        then show ?thesis by (rule "3.IH"(10) [OF Wrapper Some])
      qed
    next
      case WrapperPanic
      with 3 Some show ?thesis by simp
    qed
  qed
next
  case (6 E i e es a as strict path)
  then show ?case by (auto dest!: after_Fail intro: has_prefix_trans)
qed auto

section \<open>The JSON a value denotes\<close>

text \<open>
  The specification of \<open>MatchJSON\<close> is stated on JSON values: a null whatever its type, arrays
  whether list or tuple, and objects (or maps) as finite maps, so that the order of the fields is
  gone. Sets, which no JSON document yields, are kept as they are.
\<close>

datatype json =
    JNull | JString string | JNumber rat | JBool bool
  | JArray "json list" | JObject "string \<Rightarrow> json option" | JOther cval

fun denote :: "cval \<Rightarrow> json" where
  "denote (VNull t) = JNull"
| "denote (VString s) = JString s"
| "denote (VNumber n) = JNumber n"
| "denote (VBool b) = JBool b"
| "denote (VList t vs) = JArray (map denote vs)"
| "denote (VTuple vs) = JArray (map denote vs)"
| "denote (VMap t kvs) = JObject (map_of (map (\<lambda>kv. (fst kv, denote (snd kv))) kvs))"
| "denote (VObject kvs) = JObject (map_of (map (\<lambda>kv. (fst kv, denote (snd kv))) kvs))"
| "denote (VSet t vs) = JOther (VSet t vs)"

text \<open>A literal expectation: no matcher, no map and no set at any depth.\<close>

fun literal :: "cval \<Rightarrow> bool" where
  "literal (VObject kvs) = (isMatcher (VObject kvs) = NotMatcher \<and> (\<forall>kv \<in> set kvs. literal (snd kv)))"
| "literal (VTuple vs) = (\<forall>v \<in> set vs. literal v)"
| "literal (VList t vs) = (\<forall>v \<in> set vs. literal v)"
| "literal (VMap t kvs) = False"
| "literal (VSet t vs) = False"
| "literal _ = True"

text \<open>Partial object semantics: the expected document is contained in the actual one.\<close>

inductive json_sub :: "json \<Rightarrow> json \<Rightarrow> bool" where
  null: "json_sub JNull JNull"
| str: "json_sub (JString s) (JString s)"
| num: "json_sub (JNumber n) (JNumber n)"
| bool: "json_sub (JBool b) (JBool b)"
| array: "list_all2 json_sub xs ys \<Longrightarrow> json_sub (JArray xs) (JArray ys)"
| object: "\<forall>k v. f k = Some v \<longrightarrow> (\<exists>w. g k = Some w \<and> json_sub v w) \<Longrightarrow> json_sub (JObject f) (JObject g)"
monos list_all2_mono

inductive_simps json_sub_simps [simp]:
  "json_sub JNull j" "json_sub (JString s) j" "json_sub (JNumber n) j" "json_sub (JBool b) j"
  "json_sub (JArray xs) j" "json_sub (JObject f) j"

definition json_rel :: "bool \<Rightarrow> json \<Rightarrow> json \<Rightarrow> bool" where
  "json_rel strict a b \<longleftrightarrow> (if strict then a = b else json_sub a b)"

lemma map_of_denote: "map_of (map (\<lambda>kv. (fst kv, denote (snd kv))) kvs) k = map_option denote (map_of kvs k)"
  by (induction kvs) auto

lemma json_rel_strict: "json_rel True = (=)"
  by (simp add: json_rel_def fun_eq_iff)

lemma json_rel_partial: "json_rel False = json_sub"
  by (simp add: json_rel_def fun_eq_iff)

lemma json_rel_array:
  "json_rel strict (JArray xs) j \<longleftrightarrow> (\<exists>ys. j = JArray ys \<and> list_all2 (json_rel strict) xs ys)"
  by (cases strict) (auto simp: json_rel_strict json_rel_partial list.rel_eq)

lemma json_rel_object:
  "json_rel strict (JObject f) j \<longleftrightarrow> (\<exists>g. j = JObject g \<and>
     (\<forall>k v. f k = Some v \<longrightarrow> (\<exists>w. g k = Some w \<and> json_rel strict v w)) \<and> (strict \<longrightarrow> dom g \<subseteq> dom f))"
proof (cases strict)
  case True
  have "f = g" if "\<forall>k v. f k = Some v \<longrightarrow> (\<exists>w. g k = Some w \<and> v = w)" "dom g \<subseteq> dom f" for g
  proof
    fix k show "f k = g k"
    proof (cases "f k")
      case None
      with that(2) have "k \<notin> dom g" by blast
      with None show ?thesis by (simp add: domIff)
    qed (use that(1) in simp)
  qed
  with True show ?thesis by (auto simp: json_rel_def)
qed (auto simp: json_rel_def)

lemma arrayItems_denote:
  "arrayItems a = Some as \<Longrightarrow> denote a = JArray (map denote as)"
  "arrayItems a = None \<Longrightarrow> denote a \<noteq> JArray js"
  by (cases a; auto)+

lemma denote_null: "isNull a \<Longrightarrow> denote a = JNull"
  by (cases a) auto

lemma denote_object:
  "isObjectType (typeOf a) \<or> isMapType (typeOf a) \<Longrightarrow> \<not> isNull a \<Longrightarrow>
     denote a = JObject (map_option denote \<circ> map_of (attributes a))"
  "\<not> isObjectType (typeOf a) \<Longrightarrow> \<not> isMapType (typeOf a) \<Longrightarrow> denote a \<noteq> JObject f"
  by (cases a; auto simp: map_of_denote fun_eq_iff)+

lemma map_rel_denote:
  "(\<forall>k v. (map_option denote \<circ> h) k = Some v \<longrightarrow> (\<exists>w. (map_option denote \<circ> h') k = Some w \<and> R v w))
   \<longleftrightarrow> (\<forall>k v. h k = Some v \<longrightarrow> (\<exists>w. h' k = Some w \<and> R (denote v) (denote w)))"
  by (simp only: comp_apply map_option_eq_Some) blast

lemma literal_not_matcher: "literal e \<Longrightarrow> isMatcher e = NotMatcher"
  by (cases e) (auto simp: isMatcher_def)

lemma literal_leaf:
  "literal e \<Longrightarrow> is_leaf e \<Longrightarrow> (e = a) = json_rel strict (denote e) (denote a) \<and> (isNull a \<longrightarrow> e \<noteq> a)"
  by (cases e; cases a) (auto simp: json_rel_def)

lemma match_literal:
  "literal e \<Longrightarrow> wf_cval e \<Longrightarrow>
     matchJSON E e a strict path = Pass \<longleftrightarrow> json_rel strict (denote e) (denote a)"
  "\<forall>kv \<in> set kvs. literal (snd kv) \<and> wf_cval (snd kv) \<Longrightarrow>
     matchFields E kvs am strict path = Pass \<longleftrightarrow>
       (\<forall>kv \<in> set kvs. \<exists>w. map_of am (fst kv) = Some w \<and> json_rel strict (denote (snd kv)) (denote w))"
  "\<forall>e \<in> set es. literal e \<and> wf_cval e \<Longrightarrow> length es = length as \<Longrightarrow>
     matchItems E i es as strict path = Pass \<longleftrightarrow>
       list_all2 (json_rel strict) (map denote es) (map denote as)"
proof (induction E e a strict path and E kvs am strict path and E i es as strict path
    rule: matchJSON_matchFields_matchItems.induct)
  case (1 E expected actual strict path)
  from "1.prems" have lit: "isMatcher expected = NotMatcher" "fieldWrapper expected = NotWrapper"
    by (simp_all add: literal_not_matcher isMatcher_NotMatcher_fieldWrapper)
  show ?case
  proof (cases expected rule: expected_cases)
    case (null t)
    then show ?thesis
      by (cases actual) (auto simp: matchJSON_null json_rel_def)
  next
    case (array es)
    then have es: "\<forall>e \<in> set es. literal e \<and> wf_cval e" "\<not> isNull expected"
      using "1.prems" by (cases expected; auto)+
    show ?thesis
    proof (cases "isNull actual")
      case True
      with array show ?thesis
        by (simp add: matchJSON_array arrayItems_denote(1) denote_null json_rel_array)
    next
      case notnull: False
      show ?thesis
      proof (cases "arrayItems actual")
        case None
        with array notnull arrayItems_denote(2) [OF None] show ?thesis
          by (auto simp: matchJSON_array arrayItems_denote(1) json_rel_array)
      next
        case (Some as)
        have "matchItems E 0 es as strict path = Pass \<longleftrightarrow>
            list_all2 (json_rel strict) (map denote es) (map denote as)" if "length es = length as"
          using array lit es notnull Some that "1.IH" by (cases expected) simp_all
        moreover have "list_all2 (json_rel strict) (map denote es) (map denote as) \<Longrightarrow> length es = length as"
          by (auto dest: list_all2_lengthD)
        ultimately show ?thesis using array notnull Some
          by (auto simp: matchJSON_array arrayItems_denote(1) json_rel_array)
      qed
    qed
  next
    case (object kvs)
    show ?thesis
    proof (cases "isNull actual")
      case True
      with object show ?thesis
        by (simp add: matchJSON_object json_rel_object denote_null)
    next
      case notnull: False
      show ?thesis
      proof (cases "isObjectType (typeOf actual) \<or> isMapType (typeOf actual)")
        case False
        with object notnull denote_object(2) [of actual] show ?thesis
          by (auto simp: matchJSON_object json_rel_object)
      next
        case True
        let ?am = "attributes actual"
        from object "1.prems" have all: "\<forall>kv \<in> set kvs. literal (snd kv) \<and> wf_cval (snd kv)"
          and dist: "distinct (map fst kvs)" by auto
        have fields: "matchFields E kvs ?am strict path = Pass \<longleftrightarrow>
          (\<forall>kv \<in> set kvs. \<exists>w. map_of ?am (fst kv) = Some w \<and> json_rel strict (denote (snd kv)) (denote w))"
          using "1.IH" lit object notnull True all by simp
        also have "\<dots> \<longleftrightarrow> (\<forall>k v. map_of kvs k = Some v \<longrightarrow>
            (\<exists>w. map_of ?am k = Some w \<and> json_rel strict (denote v) (denote w)))"
          using dist by (fastforce dest: map_of_SomeD)
        finally have f: "matchFields E kvs ?am strict path = Pass \<longleftrightarrow> \<dots>" .
        have u: "unexpectedField ?am (allowedKeys kvs ?am) path = Pass \<longleftrightarrow> dom (map_of ?am) \<subseteq> dom (map_of kvs)"
          by (auto simp: unexpectedField_Pass_iff set_allowedKeys dom_map_of_conv_image_fst)
        have dk: "denote expected = JObject (map_option denote \<circ> map_of kvs)"
          using object by (auto simp: map_of_denote fun_eq_iff)
        have dom: "dom (map_option denote \<circ> h) = dom h" for h :: "string \<Rightarrow> cval option"
          by (auto simp: dom_def)
        show ?thesis
          unfolding dk denote_object(1) [OF True notnull] json_rel_object
          using object notnull True f u
          by (auto simp only: matchJSON_object dom map_rel_denote after_Pass_iff json.inject if_True
              if_False simp_thms ex_simps split: if_splits)
      qed
    qed
  next
    case leaf
    with "1.prems" literal_leaf [of expected actual strict] show ?thesis
      by (auto simp: matchJSON_leaf)
  qed (use lit in auto)
next
  case (3 E key expVal rest am strict path)
  then have lit: "isMatcher expVal = NotMatcher" "fieldWrapper expVal = NotWrapper"
    by (simp_all add: literal_not_matcher isMatcher_NotMatcher_fieldWrapper)
  then show ?case using 3 by (cases "map_of am key") (auto simp: missingField_def)
qed (auto simp: json_rel_def)

section \<open>Strict and partial matching, with matchers\<close>

lemma strict_implies_partial:
  "strict \<Longrightarrow> matchJSON E e a strict path = Pass \<Longrightarrow> matchJSON E e a False path = Pass"
  "strict \<Longrightarrow> matchFields E kvs am strict path = Pass \<Longrightarrow> matchFields E kvs am False path = Pass"
  "strict \<Longrightarrow> matchItems E i es as strict path = Pass \<Longrightarrow> matchItems E i es as False path = Pass"
proof (induction E e a strict path and E kvs am strict path and E i es as strict path
    rule: matchJSON_matchFields_matchItems.induct)
  case (1 E expected actual strict path)
  show ?case
  proof (cases expected rule: expected_cases)
    case (wrapper kind inner)
    with 1 show ?thesis by (simp add: matchJSON_wrapper)
  next
    case (array es)
    then have "fieldWrapper expected = NotWrapper" "isMatcher expected = NotMatcher" "\<not> isNull expected"
      by (cases expected; simp add: fieldWrapper_def isMatcher_def)+
    with array 1 show ?thesis
      by (cases expected) (auto simp: matchJSON_array split: if_splits option.splits)
  next
    case (object kvs)
    with 1 show ?thesis
      by (auto simp: matchJSON_object isMatcher_NotMatcher_fieldWrapper split: if_splits)
  qed (use 1 in \<open>auto simp: matchJSON_eqs\<close>)
next
  case (3 E key expVal rest am strict path)
  then show ?case
    by (cases "map_of am key"; cases "fieldWrapper expVal") auto
qed auto

section \<open>Thresholds\<close>

lemma matchThreshold_Pass:
  "matchThreshold E args actual path name opn cmp = Pass \<longleftrightarrow>
     (\<exists>tv t a. map_of args ''value'' = Some tv \<and> thresholdValue E tv = Some t
        \<and> thresholdValue E actual = Some a \<and> cmp a t)"
  by (auto simp: matchThreshold_def comparisonError_def split: option.splits if_splits)

lemma matchBetween_Pass:
  "matchBetween E args actual path = Pass \<longleftrightarrow>
     (\<exists>mn mx lo hi a. map_of args ''min'' = Some mn \<and> map_of args ''max'' = Some mx
        \<and> thresholdValue E mn = Some lo \<and> thresholdValue E mx = Some hi
        \<and> thresholdValue E actual = Some a \<and> lo \<le> a \<and> a \<le> hi)"
  by (auto simp: matchBetween_def split: option.splits if_splits)

section \<open>UUID forms\<close>

definition uuid_versions :: "string list" where
  "uuid_versions = [''1'', ''2'', ''3'', ''4'', ''5'', ''6'', ''7'', ''8'']"

definition uuid_forms :: "string list" where
  "uuid_forms = ''nil'' # ''max'' # uuid_versions"

lemma version_digit:
  "\<not> (of_char c :: nat) < 49 \<and> \<not> 56 < (of_char c :: nat) \<longleftrightarrow> [c] \<in> set uuid_versions"
proof
  assume "\<not> (of_char c :: nat) < 49 \<and> \<not> 56 < (of_char c :: nat)"
  then have "(of_char c :: nat) = 49 \<or> (of_char c :: nat) = 50 \<or> (of_char c :: nat) = 51 \<or>
      (of_char c :: nat) = 52 \<or> (of_char c :: nat) = 53 \<or> (of_char c :: nat) = 54 \<or>
      (of_char c :: nat) = 55 \<or> (of_char c :: nat) = 56" by arith
  then have "c = char_of (49::nat) \<or> c = char_of (50::nat) \<or> c = char_of (51::nat) \<or> c = char_of (52::nat)
      \<or> c = char_of (53::nat) \<or> c = char_of (54::nat) \<or> c = char_of (55::nat) \<or> c = char_of (56::nat)"
    by (metis char_of_char)
  then show "[c] \<in> set uuid_versions"
    unfolding uuid_versions_def by (elim disjE) (simp_all add: char_of_def bit_0)
qed (auto simp: uuid_versions_def)

lemma uuid_nil_max: "[uuidNilValue ! 14] \<notin> set uuid_versions" "[uuidMaxValue ! 14] \<notin> set uuid_versions"
  "uuidNilValue \<noteq> uuidMaxValue"
  by (simp_all add: uuidNilValue_def uuidMaxValue_def uuid_versions_def)

lemma uuid_versions_named: "w \<in> set uuid_versions \<Longrightarrow> w \<noteq> ''nil'' \<and> w \<noteq> ''max'' \<and> w \<noteq> []"
  by (auto simp: uuid_versions_def)

lemma matchUUID_any:
  "matchUUID [] (VString s) path = Pass \<longleftrightarrow> uuidCanonicalRE s \<and>
     (to_lower s = uuidNilValue \<or> to_lower s = uuidMaxValue \<or>
      ([to_lower s ! 14] \<in> set uuid_versions \<and> uuidVariantOK (to_lower s)))"
  unfolding version_digit [symmetric] by (simp add: matchUUID_def validateAnyUUID_def Let_def)

lemma matchUUID_nil:
  "matchUUID [(''version'', VString ''nil'')] (VString s) path = Pass \<longleftrightarrow>
     uuidCanonicalRE s \<and> to_lower s = uuidNilValue"
  by (simp add: matchUUID_def expectExactUUID_def Let_def)

lemma matchUUID_max:
  "matchUUID [(''version'', VString ''max'')] (VString s) path = Pass \<longleftrightarrow>
     uuidCanonicalRE s \<and> to_lower s = uuidMaxValue"
  by (simp add: matchUUID_def expectExactUUID_def Let_def)

lemma matchUUID_version:
  "w \<in> set uuid_versions \<Longrightarrow>
     matchUUID [(''version'', VString w)] (VString s) path = Pass \<longleftrightarrow>
       uuidCanonicalRE s \<and> [to_lower s ! 14] = w \<and> uuidVariantOK (to_lower s)"
  using uuid_versions_named [of w] by (simp add: matchUUID_def validateVersionedUUID_def Let_def)

text \<open>The form a canonical UUID belongs to.\<close>

definition form_of :: "string \<Rightarrow> string" where
  "form_of s = (if to_lower s = uuidNilValue then ''nil'' else if to_lower s = uuidMaxValue then ''max''
     else [to_lower s ! 14])"

lemma matchUUID_form:
  assumes "w \<in> set uuid_forms"
  shows "matchUUID [(''version'', VString w)] (VString s) path = Pass \<longleftrightarrow>
     matchUUID [] (VString s) path = Pass \<and> w = form_of s"
proof -
  consider "w = ''nil''" | "w = ''max''" | "w \<in> set uuid_versions"
    using assms by (auto simp: uuid_forms_def)
  then show ?thesis
  proof cases
    case 1
    then show ?thesis
      by (auto simp: matchUUID_nil matchUUID_any form_of_def split: if_splits)
  next
    case 2
    then show ?thesis using uuid_nil_max(3)
      by (auto simp: matchUUID_max matchUUID_any form_of_def split: if_splits)
  next
    case 3
    show ?thesis unfolding matchUUID_version [OF 3] matchUUID_any form_of_def
      using 3 uuid_nil_max(1,2) uuid_versions_named [OF 3] by metis
  qed
qed

lemma form_of_accepted: "matchUUID [] (VString s) path = Pass \<Longrightarrow> form_of s \<in> set uuid_forms"
  by (auto simp: matchUUID_any form_of_def uuid_forms_def)

lemma matchUUID_not_string: "typeOf a \<noteq> TString \<or> isNull a \<Longrightarrow> matchUUID args a path \<noteq> Pass"
  by (auto simp: matchUUID_def)

section \<open>Properties\<close>

text \<open>C6: a literal expectation (no matcher inside) passes in strict mode exactly when expected and
  actual denote the same JSON document, and in the default mode exactly when the expected document is
  contained in the actual one, at every depth.\<close>

theorem matchJSON_literal_spec:
  assumes "literal e" and "wf_cval e"
  shows "matchJSON E e a strict path = Pass \<longleftrightarrow>
    (if strict then denote e = denote a else json_sub (denote e) (denote a))"
  using match_literal(1) [OF assms] by (simp add: json_rel_def)

theorem matchJSON_literal_spec_witness:
  "matchJSON exact_env (VObject [(''a'', VTuple [VNumber 1])])
     (VObject [(''a'', VList TNumber [VNumber 1]), (''b'', VBool True)]) False ''json'' = Pass"
  by (subst matchJSON_literal_spec) (auto simp: isMatcher_def matcherKey_def)

text \<open>C15: whatever matchers, wrappers and nesting the expectation uses, an actual value accepted in
  strict mode is accepted in the default mode.\<close>

theorem matchJSON_strict_implies_partial:
  assumes "matchJSON E e a True path = Pass"
  shows "matchJSON E e a False path = Pass"
  using strict_implies_partial(1) [of True] assms by simp

theorem matchJSON_strict_implies_partial_witness:
  "matchJSON exact_env (VTuple [VString ''x'']) (VTuple [VString ''x'']) False ''json'' = Pass"
  by (rule matchJSON_strict_implies_partial)
    (simp add: matchJSON.simps fieldWrapper_def isMatcher_def)



text \<open>C25: the order in which Go visits the fields of the expected and actual objects does not decide
  whether the match passes.\<close>

theorem matchJSON_field_order:
  assumes "isMatcher (VObject kvs) = NotMatcher" and "isMatcher (VObject kvs') = NotMatcher"
    and "set kvs = set kvs'" and "set am = set am'"
    and "distinct (map fst am)" and "distinct (map fst am')"
  shows "matchJSON E (VObject kvs) (VObject am) strict path = Pass \<longleftrightarrow>
         matchJSON E (VObject kvs') (VObject am') strict path = Pass"
proof -
  have m: "map_of am = map_of am'"
    using assms(4-6) by (intro map_of_eqI) (auto simp: image_iff intro: map_of_eqI)
  have one: "matchFields E [kv] am strict path = matchFields E [kv] am' strict path" for kv
    by (cases kv) (auto simp: m split: wrapper_view.splits option.splits)
  show ?thesis
    unfolding matchJSON_object [OF assms(1)] matchJSON_object [OF assms(2)]
    using assms(3,4) by (auto simp: matchFields_Pass_all [of E kvs] matchFields_Pass_all [of E kvs'] one
        unexpectedField_Pass_iff set_allowedKeys)
qed

theorem matchJSON_field_order_witness:
  "(matchJSON exact_env (VObject [(''a'', VBool True), (''b'', VBool False)])
      (VObject [(''b'', VBool False), (''a'', VBool True)]) True ''json'' = Pass) =
   (matchJSON exact_env (VObject [(''b'', VBool False), (''a'', VBool True)])
      (VObject [(''a'', VBool True), (''b'', VBool False)]) True ''json'' = Pass)"
  by (rule matchJSON_field_order) (auto simp: isMatcher_def matcherKey_def)

text \<open>C26: on an actual value and a threshold that both read as numbers, exactly one of \<open>lt\<close> and
  \<open>gte\<close> passes and exactly one of \<open>lte\<close> and \<open>gt\<close>; and \<open>between\<close> passes exactly when \<open>gte\<close> its
  minimum and \<open>lte\<close> its maximum both pass.\<close>

theorem comparators_consistent:
  assumes "map_of args ''value'' = Some tv" and "thresholdValue E tv = Some t"
    and "thresholdValue E actual = Some a"
  shows "(matchLt E args actual path = Pass) \<noteq> (matchGte E args actual path = Pass)
    \<and> (matchLte E args actual path = Pass) \<noteq> (matchGt E args actual path = Pass)
    \<and> (matchBetween E [(''min'', mn), (''max'', mx)] actual path = Pass \<longleftrightarrow>
        matchGte E [(''value'', mn)] actual path = Pass \<and> matchLte E [(''value'', mx)] actual path = Pass)"
  using assms
  by (auto simp: matchLt_def matchLte_def matchGt_def matchGte_def matchThreshold_Pass matchBetween_Pass)

theorem comparators_consistent_witness:
  "(matchLt exact_env [(''value'', VNumber 3)] (VNumber 2) ''p'' = Pass) \<noteq>
   (matchGte exact_env [(''value'', VNumber 3)] (VNumber 2) ''p'' = Pass)"
  using comparators_consistent [of "[(''value'', VNumber 3)]" "VNumber 3" exact_env 3 "VNumber 2" 2]
  by (simp add: thresholdValue_def exact_env_def)

text \<open>C27: a value is accepted by \<open>uuid()\<close> exactly when it is accepted by the matcher pinned to one of
  the forms nil, max and 1 to 8, and that form is then unique.\<close>

theorem uuid_forms_partition:
  "(matchUUID [] a path = Pass) =
     (\<exists>w \<in> set uuid_forms. matchUUID [(''version'', VString w)] a path = Pass) \<and>
   (matchUUID [] a path = Pass \<longrightarrow>
     (\<exists>!w. w \<in> set uuid_forms \<and> matchUUID [(''version'', VString w)] a path = Pass))"
proof (cases "\<exists>s. a = VString s")
  case True
  then obtain s where a: "a = VString s" by blast
  show ?thesis unfolding a using form_of_accepted [of s path]
    by (auto simp: matchUUID_form)
next
  case False
  then have "typeOf a \<noteq> TString \<or> isNull a" by (cases a) auto
  then show ?thesis by (simp add: matchUUID_not_string)
qed

theorem uuid_forms_partition_witness:
  "matchUUID [(''version'', VString ''4'')] (VString ''3f2504e0-4f89-41d3-9a0c-0305e82c3301'') ''p'' = Pass
   \<and> matchUUID [] (VString ''3f2504e0-4f89-41d3-9a0c-0305e82c3301'') ''p'' = Pass"
proof -
  have "matchUUID [(''version'', VString ''4'')] (VString ''3f2504e0-4f89-41d3-9a0c-0305e82c3301'') ''p'' = Pass"
    by code_simp
  with uuid_forms_partition [of "VString ''3f2504e0-4f89-41d3-9a0c-0305e82c3301''" "''p''"]
  show ?thesis by (auto simp: uuid_forms_def uuid_versions_def)
qed

end
