(* ===== verification/Model.thy ===== *)
theory Model
  imports CtyValue
begin

text \<open>
  The data of \<^verbatim>\<open>internal/model\<close>: one record per struct, fields in the order of the source. A
  nil pointer is \<open>None\<close>. An expression keeps what the program observes of an
  \<^verbatim>\<open>hcl.Expression\<close>: its text, the traversals \<^verbatim>\<open>Variables()\<close> returns, and the function call it is
  when it is one; \<^verbatim>\<open>model.Expression.Empty\<close> is \<open>None\<close>. Go maps are association lists with distinct
  keys in the order the program visits them. Source positions of expressions are left out.
\<close>

section \<open>Errors\<close>

text \<open>
  A formatted text or error keeps the format string of the source and its operands; a list operand
  is a Go slice printed with %v, or texts joined by a separator.
\<close>

datatype goerr = Errorf string "goarg list"
  and goarg = AStr string | AInt int | AVal cval | AErr goerr | AStrs "string list" | AJoin string "goerr list"

type_synonym gotext = goerr

abbreviation Sprintf :: "string \<Rightarrow> goarg list \<Rightarrow> gotext" where "Sprintf \<equiv> Errorf"

section \<open>Expressions\<close>

datatype traverser = TraverseRoot string | TraverseAttr string | TraverseIndex

datatype hcl_expr =
  HclExpr (hx_text: string) (hx_variables: "traverser list list") (hx_call: "(string \<times> hcl_expr list) option")

type_synonym expression = "hcl_expr option"

definition Empty :: "expression \<Rightarrow> bool" where "Empty e \<longleftrightarrow> e = None"

section \<open>Skip rules\<close>

datatype skip_kind = SkipIf | SkipUnless

record skip_rule =
  sk_Kind :: skip_kind
  sk_Condition :: expression
  sk_Reason :: expression
  sk_OS :: expression
  sk_Arch :: expression
  sk_EnvSet :: expression
  sk_Env :: expression

definition HasConditions :: "skip_rule \<Rightarrow> bool" where
  "HasConditions r \<longleftrightarrow> \<not> Empty (sk_Condition r) \<or> \<not> Empty (sk_OS r) \<or> \<not> Empty (sk_Arch r)
     \<or> \<not> Empty (sk_EnvSet r) \<or> \<not> Empty (sk_Env r)"

section \<open>Requests and expectations\<close>

record step_var =
  v_Name :: string
  v_Expr :: expression

record multipart_file_part =
  mf_Field :: expression
  mf_Path :: expression
  mf_Content :: expression
  mf_Filename :: expression
  mf_ContentType :: expression

record multipart_field_part =
  mp_Name :: expression
  mp_Value :: expression

record multipart_part =
  part_File :: "multipart_file_part option"
  part_Field :: "multipart_field_part option"

record request_body =
  rb_JSON :: expression
  rb_Form :: expression
  rb_Raw :: expression
  rb_Multipart :: "multipart_part list option"

record basic_auth =
  ba_Username :: expression
  ba_Password :: expression

record request_auth =
  ra_Basic :: "basic_auth option"

record request =
  rq_Method :: expression
  rq_URL :: expression
  rq_Headers :: expression
  rq_Query :: expression
  rq_Body :: "request_body option"
  rq_Timeout :: expression
  rq_Auth :: "request_auth option"

record expect_shortcut =
  sc_Name :: string
  sc_Expected :: expression

record expect_block =
  ex_Status :: expression
  ex_Headers :: expression
  ex_JSON :: expression
  ex_Body :: expression
  ex_Strict :: expression
  ex_Shortcuts :: "expect_shortcut list"

record save_block =
  sv_Body :: expression

record retry =
  rt_Attempts :: int
  rt_Interval :: int

section \<open>Provider payloads\<close>

record keyword_call =
  kc_Name :: expression
  kc_Inputs :: expression

record sql_op =
  so_SQL :: expression
  so_Args :: expression

record sql_call =
  sq_Connection :: expression
  sq_Exec :: "sql_op option"
  sq_Query :: "sql_op option"

record file_expect =
  fe_Exists :: expression
  fe_SizeBytes :: expression
  fe_Text :: expression
  fe_JSON :: expression
  fe_Hashes :: "(string \<times> expression) list"

record file_call =
  fc_Path :: expression
  fc_Expect :: "file_expect option"

record exec_sandbox =
  xs_Mode :: expression
  xs_Workdir :: expression
  xs_Env :: expression
  xs_Network :: expression

record exec_expect =
  xe_ExitCode :: expression
  xe_Stdout :: expression
  xe_Stderr :: expression
  xe_StdoutJSON :: expression

record exec_call =
  xc_Command :: expression
  xc_Args :: expression
  xc_Env :: expression
  xc_Stdin :: expression
  xc_Timeout :: expression
  xc_Sandbox :: "exec_sandbox option"
  xc_Expect :: "exec_expect option"

record rpc_expect =
  re_Status :: expression
  re_Error :: expression
  re_Message :: expression
  re_Headers :: expression
  re_Metadata :: expression
  re_Trailers :: expression

record rpc_call =
  rc_Target :: expression
  rc_Service :: expression
  rc_Method :: expression
  rc_Message :: expression
  rc_Headers :: expression
  rc_Metadata :: expression
  rc_Timeout :: expression
  rc_Expect :: "rpc_expect option"

record webhook_start =
  ws_Address :: expression
  ws_Path :: expression
  ws_PublicURL :: expression
  ws_PublicScheme :: expression
  ws_PublicHost :: expression
  ws_PublicPort :: expression
  ws_MaxBodySize :: expression

record webhook_wait =
  ww_Timeout :: expression
  ww_Count :: expression

record webhook_request_expect =
  wr_Method :: expression
  wr_Path :: expression
  wr_Headers :: expression
  wr_Query :: expression
  wr_JSON :: expression
  wr_Body :: expression

record webhook_hmac_expect =
  wh_Header :: expression
  wh_Secret :: expression
  wh_Algorithm :: expression
  wh_Format :: expression
  wh_Payload :: expression
  wh_TimestampTolerance :: expression
  wh_TimestampRequired :: expression

record webhook_expect =
  we_Request :: "webhook_request_expect option"
  we_HMAC :: "webhook_hmac_expect option"

record webhook_call =
  wc_Start :: "webhook_start option"
  wc_Wait :: "webhook_wait option"
  wc_Stop :: "expression option"
  wc_Target :: expression
  wc_Expect :: "webhook_expect option"

record load_run =
  lr_Duration :: expression
  lr_Requests :: expression
  lr_Concurrency :: expression
  lr_Rate :: expression
  lr_Warmup :: expression

record load_call =
  lc_Request :: "request option"
  lc_Run :: "load_run option"

record mail_attachment =
  at_Filename :: expression
  at_ContentType :: expression
  at_Path :: expression
  at_Content :: expression

record mail_message =
  mm_From :: expression
  mm_To :: expression
  mm_Cc :: expression
  mm_Bcc :: expression
  mm_Subject :: expression
  mm_Headers :: expression
  mm_Text :: expression
  mm_HTML :: expression
  mm_Attachments :: "mail_attachment list"

record mail_call =
  mc_Target :: expression
  mc_Message :: "mail_message option"

section \<open>Mobile and browser payloads\<close>

record mobile_permission =
  pm_Service :: string
  pm_Decision :: expression

record mobile_action =
  ma_Kind :: string
  ma_ID :: expression
  ma_Label :: expression
  ma_Text :: expression
  ma_Value :: expression
  ma_Secure :: expression
  ma_Timeout :: expression
  ma_Interval :: expression
  ma_Direction :: expression
  ma_Distance :: expression
  ma_Duration :: expression
  ma_First :: expression

text \<open>The locator every mobile expectation carries, and the expected value of the text and value ones.\<close>

record mobile_locator =
  ml_ID :: expression
  ml_Label :: expression
  ml_Text :: expression
  ml_Timeout :: expression
  ml_Interval :: expression

record mobile_value_expectation = mobile_locator +
  mv_Expected :: expression

record mobile_expect =
  me_Visible :: "mobile_locator list"
  me_NotVisible :: "mobile_locator list"
  me_Text :: "mobile_value_expectation list"
  me_Value :: "mobile_value_expectation list"
  me_Enabled :: "mobile_locator list"
  me_Disabled :: "mobile_locator list"

record mobile_step =
  ms_Platform :: expression
  ms_Target :: expression
  ms_Launch :: "expression option"
  ms_Terminate :: bool
  ms_Actions :: "mobile_action list"
  ms_Permissions :: "mobile_permission list"
  ms_Expect :: mobile_expect

definition mobile_HasContent :: "mobile_step option \<Rightarrow> bool" where
  "mobile_HasContent m = (case m of
     None \<Rightarrow> False
   | Some m \<Rightarrow>
       if ms_Launch m \<noteq> None \<or> ms_Terminate m then True
       else if 0 < length (ms_Actions m) then True
       else if 0 < length (me_Visible (ms_Expect m)) \<or> 0 < length (me_NotVisible (ms_Expect m))
            \<or> 0 < length (me_Text (ms_Expect m)) \<or> 0 < length (me_Value (ms_Expect m))
            \<or> 0 < length (me_Enabled (ms_Expect m)) \<or> 0 < length (me_Disabled (ms_Expect m))
       then True
       else False)"

record browser_action =
  bw_Kind :: string
  bw_Selector :: expression
  bw_Value :: expression
  bw_URL :: expression
  bw_Key :: expression
  bw_Secure :: expression
  bw_Force :: expression
  bw_Timeout :: expression
  bw_Interval :: expression
  bw_X :: expression
  bw_Y :: expression
  bw_Paths :: expression

record browser_locator =
  bl_Selector :: expression
  bl_Timeout :: expression
  bl_Interval :: expression

record browser_value_expectation = browser_locator +
  bl_Expected :: expression

record browser_attribute_expectation = browser_value_expectation +
  bl_Name :: expression

record browser_page_expectation =
  bp_Expected :: expression
  bp_Timeout :: expression
  bp_Interval :: expression

record browser_web_perf_expectation =
  wp_Metric :: string
  wp_Expected :: expression

record browser_expect =
  be_Visible :: "browser_locator list"
  be_NotVisible :: "browser_locator list"
  be_Text :: "browser_value_expectation list"
  be_Value :: "browser_value_expectation list"
  be_Enabled :: "browser_locator list"
  be_Disabled :: "browser_locator list"
  be_Attribute :: "browser_attribute_expectation list"
  be_URL :: "browser_page_expectation list"
  be_Title :: "browser_page_expectation list"
  be_WebPerf :: "browser_web_perf_expectation list"

record browser_step =
  bs_Target :: expression
  bs_Actions :: "browser_action list"
  bs_Expect :: browser_expect

definition browser_HasContent :: "browser_step option \<Rightarrow> bool" where
  "browser_HasContent b = (case b of
     None \<Rightarrow> False
   | Some b \<Rightarrow>
       if 0 < length (bs_Actions b) then True
       else (let e = bs_Expect b in
             0 < length (be_Visible e) \<or> 0 < length (be_NotVisible e)
             \<or> 0 < length (be_Text e) \<or> 0 < length (be_Value e)
             \<or> 0 < length (be_Enabled e) \<or> 0 < length (be_Disabled e)
             \<or> 0 < length (be_Attribute e) \<or> 0 < length (be_URL e)
             \<or> 0 < length (be_Title e) \<or> 0 < length (be_WebPerf e)))"

section \<open>Steps, scenarios, suites\<close>

record step =
  st_Provider :: string
  st_Name :: string
  st_File :: string
  st_Line :: int
  st_DependsOn :: "string list"
  st_When :: expression
  st_Vars :: "step_var list"
  st_Request :: "request option"
  st_Expect :: "expect_block option"
  st_Capture :: "(string \<times> expression) list"
  st_Save :: "save_block option"
  st_FileOp :: "file_call option"
  st_Exec :: "exec_call option"
  st_Keyword :: "keyword_call option"
  st_Mobile :: "mobile_step option"
  st_SQL :: "sql_call option"
  st_Mail :: "mail_call option"
  st_Browser :: "browser_step option"
  st_Load :: "load_call option"
  st_Webhook :: "webhook_call option"
  st_RPC :: "rpc_call option"
  st_Retry :: "retry option"
  st_SkipRules :: "skip_rule list"

record keyword_def =
  kw_Name :: string
  kw_File :: string
  kw_Inputs :: "(string \<times> expression) list"
  kw_Steps :: "step list"
  kw_Outputs :: "(string \<times> expression) list"

record generator_def =
  gn_Type :: string
  gn_Name :: string
  gn_File :: string
  gn_Params :: "(string \<times> expression) list"

record scenario_record =
  sr_Output :: expression
  sr_Codec :: expression
  sr_Mask :: expression
  sr_Display :: expression
  sr_Target :: expression
  sr_Force :: expression
  sr_BitRate :: expression
  sr_Size :: expression

record scenario =
  sn_Name :: string
  sn_Tags :: "string list"
  sn_File :: string
  sn_Steps :: "step list"
  sn_Teardown :: "step list"
  sn_SkipRules :: "skip_rule list"
  sn_Record :: "scenario_record option"

record suite =
  su_Version :: int
  su_Files :: "string list"
  su_ConfigExpr :: "(string \<times> expression) list"
  su_Generators :: "(string \<times> generator_def) list"
  su_Keywords :: "(string \<times> keyword_def) list"
  su_Scenarios :: "scenario list"
  su_Teardown :: "step list"
  su_TeardownFile :: string

text \<open>A step with nothing but a provider and a name, for examples.\<close>

definition blank_step :: "string \<Rightarrow> string \<Rightarrow> step" where
  "blank_step provider name = \<lparr>st_Provider = provider, st_Name = name, st_File = [], st_Line = 0,
     st_DependsOn = [], st_When = None, st_Vars = [], st_Request = None, st_Expect = None,
     st_Capture = [], st_Save = None, st_FileOp = None, st_Exec = None, st_Keyword = None,
     st_Mobile = None, st_SQL = None, st_Mail = None, st_Browser = None, st_Load = None,
     st_Webhook = None, st_RPC = None, st_Retry = None, st_SkipRules = []\<rparr>"

definition blank_request :: request where
  "blank_request = \<lparr>rq_Method = None, rq_URL = None, rq_Headers = None, rq_Query = None,
     rq_Body = None, rq_Timeout = None, rq_Auth = None\<rparr>"

definition blank_expect :: expect_block where
  "blank_expect = \<lparr>ex_Status = None, ex_Headers = None, ex_JSON = None, ex_Body = None,
     ex_Strict = None, ex_Shortcuts = []\<rparr>"

text \<open>The expression \<open>ns.attr\<close>.\<close>

definition attr_ref :: "string \<Rightarrow> string \<Rightarrow> hcl_expr" where
  "attr_ref ns attr = HclExpr (ns @ ''.'' @ attr) [[TraverseRoot ns, TraverseAttr attr]] None"

end
