(* ===== verification/StepRefs.thy ===== *)
theory StepRefs
  imports Model
begin

text \<open>
  \<^verbatim>\<open>internal/lang/refs.go\<close>: the names a step refers to, the dependency set of a step, and the
  load-time validation of step order and of step-local variables. The source threads a closure
  \<^verbatim>\<open>collect\<close> through one walker per payload; here each walker returns the expressions it visits, in
  order, and \<open>StepDependencies\<close> and \<open>ValidateStepVars\<close> read the names off that list. A Go set of
  names is the list of its elements in the order Go happens to range over it.
\<close>

section \<open>Names in an expression\<close>

fun rootAttrRef :: "string \<Rightarrow> traverser list \<Rightarrow> string list" where
  "rootAttrRef rootName (TraverseRoot r # TraverseAttr a # rest) = (if r \<noteq> rootName then [] else [a])"
| "rootAttrRef rootName _ = []"

definition findRootAttrRefs :: "expression \<Rightarrow> string \<Rightarrow> string list" where
  "findRootAttrRefs expr rootName = (case expr of
     None \<Rightarrow> []
   | Some e \<Rightarrow> remdups (concat (map (rootAttrRef rootName) (hx_variables e))))"

definition FindStepRefs :: "expression \<Rightarrow> string list" where
  "FindStepRefs expr = findRootAttrRefs expr ''result''"

definition FindVarRefs :: "expression \<Rightarrow> string list" where
  "FindVarRefs expr = findRootAttrRefs expr ''vars''"

definition FindFileRefs :: "expression \<Rightarrow> string list" where
  "FindFileRefs expr = findRootAttrRefs expr ''file''"

section \<open>The walkers\<close>

definition collectRequestRefs :: "request option \<Rightarrow> expression list" where
  "collectRequestRefs req = (case req of
     None \<Rightarrow> []
   | Some r \<Rightarrow>
       [rq_Method r, rq_URL r, rq_Headers r, rq_Query r]
       @ (case rq_Body r of None \<Rightarrow> [] | Some b \<Rightarrow> [rb_JSON b, rb_Form b, rb_Raw b])
       @ (case rq_Auth r of
            None \<Rightarrow> []
          | Some a \<Rightarrow> (case ra_Basic a of None \<Rightarrow> [] | Some b \<Rightarrow> [ba_Username b, ba_Password b]))
       @ [rq_Timeout r])"

definition collectExpectRefs :: "expect_block option \<Rightarrow> expression list" where
  "collectExpectRefs expect = (case expect of
     None \<Rightarrow> []
   | Some e \<Rightarrow> [ex_Status e, ex_Headers e, ex_JSON e, ex_Body e, ex_Strict e])"

definition collectSaveRefs :: "save_block option \<Rightarrow> expression list" where
  "collectSaveRefs save = (case save of None \<Rightarrow> [] | Some s \<Rightarrow> [sv_Body s])"

definition collectFileRefs :: "file_call option \<Rightarrow> expression list" where
  "collectFileRefs file = (case file of
     None \<Rightarrow> []
   | Some f \<Rightarrow> fc_Path f # (case fc_Expect f of
        None \<Rightarrow> []
      | Some e \<Rightarrow> [fe_Exists e, fe_SizeBytes e, fe_Text e, fe_JSON e] @ map snd (fe_Hashes e)))"

definition collectExecRefs :: "exec_call option \<Rightarrow> expression list" where
  "collectExecRefs ex = (case ex of
     None \<Rightarrow> []
   | Some x \<Rightarrow>
       [xc_Command x, xc_Args x, xc_Env x, xc_Stdin x, xc_Timeout x]
       @ (case xc_Sandbox x of
            None \<Rightarrow> []
          | Some s \<Rightarrow> [xs_Mode s, xs_Workdir s, xs_Env s, xs_Network s])
       @ (case xc_Expect x of
            None \<Rightarrow> []
          | Some e \<Rightarrow> [xe_ExitCode e, xe_Stdout e, xe_Stderr e, xe_StdoutJSON e]))"

definition collectMobileLocatorRefs :: "'a mobile_locator_scheme \<Rightarrow> expression list" where
  "collectMobileLocatorRefs v = [ml_ID v, ml_Label v, ml_Text v, ml_Timeout v, ml_Interval v]"

definition collectMobileExpectRefs :: "mobile_expect \<Rightarrow> expression list" where
  "collectMobileExpectRefs e =
     concat (map collectMobileLocatorRefs (me_Visible e))
     @ concat (map collectMobileLocatorRefs (me_NotVisible e))
     @ concat (map (\<lambda>v. collectMobileLocatorRefs v @ [mv_Expected v]) (me_Text e))
     @ concat (map (\<lambda>v. collectMobileLocatorRefs v @ [mv_Expected v]) (me_Value e))
     @ concat (map collectMobileLocatorRefs (me_Enabled e))
     @ concat (map collectMobileLocatorRefs (me_Disabled e))"

definition collectMobileRefs :: "mobile_step option \<Rightarrow> expression list" where
  "collectMobileRefs mob = (case mob of
     None \<Rightarrow> []
   | Some m \<Rightarrow>
       [ms_Platform m, ms_Target m]
       @ (case ms_Launch m of None \<Rightarrow> [] | Some clearState \<Rightarrow> [clearState])
       @ concat (map (\<lambda>a. [ma_ID a, ma_Label a, ma_Text a, ma_Value a, ma_Secure a, ma_Timeout a,
                           ma_Interval a, ma_Direction a, ma_Distance a, ma_Duration a]) (ms_Actions m))
       @ map pm_Decision (ms_Permissions m)
       @ collectMobileExpectRefs (ms_Expect m))"

definition collectSQLRefs :: "sql_call option \<Rightarrow> expression list" where
  "collectSQLRefs sql = (case sql of
     None \<Rightarrow> []
   | Some s \<Rightarrow>
       [sq_Connection s]
       @ (case sq_Exec s of None \<Rightarrow> [] | Some x \<Rightarrow> [so_SQL x, so_Args x])
       @ (case sq_Query s of None \<Rightarrow> [] | Some x \<Rightarrow> [so_SQL x, so_Args x]))"

definition collectWebhookExpectRefs :: "webhook_expect option \<Rightarrow> expression list" where
  "collectWebhookExpectRefs expect = (case expect of
     None \<Rightarrow> []
   | Some e \<Rightarrow>
       (case we_Request e of
          None \<Rightarrow> []
        | Some r \<Rightarrow> [wr_Method r, wr_Path r, wr_Headers r, wr_Query r, wr_JSON r, wr_Body r])
       @ (case we_HMAC e of
            None \<Rightarrow> []
          | Some h \<Rightarrow> [wh_Header h, wh_Secret h, wh_Algorithm h, wh_Format h, wh_Payload h,
                      wh_TimestampTolerance h, wh_TimestampRequired h]))"

definition collectWebhookRefs :: "webhook_call option \<Rightarrow> expression list" where
  "collectWebhookRefs webhook = (case webhook of
     None \<Rightarrow> []
   | Some w \<Rightarrow>
       [wc_Target w]
       @ (case wc_Start w of
            None \<Rightarrow> []
          | Some s \<Rightarrow> [ws_Address s, ws_Path s, ws_PublicURL s, ws_PublicScheme s, ws_PublicHost s,
                      ws_PublicPort s, ws_MaxBodySize s])
       @ (case wc_Wait w of None \<Rightarrow> [] | Some x \<Rightarrow> [ww_Timeout x, ww_Count x])
       @ (case wc_Stop w of None \<Rightarrow> [] | Some target \<Rightarrow> [target])
       @ collectWebhookExpectRefs (wc_Expect w))"

definition collectRPCRefs :: "rpc_call option \<Rightarrow> expression list" where
  "collectRPCRefs rpc = (case rpc of
     None \<Rightarrow> []
   | Some r \<Rightarrow>
       [rc_Target r, rc_Service r, rc_Method r, rc_Message r, rc_Headers r, rc_Metadata r, rc_Timeout r]
       @ (case rc_Expect r of
            None \<Rightarrow> []
          | Some e \<Rightarrow> [re_Status e, re_Error e, re_Message e, re_Headers e, re_Metadata e, re_Trailers e]))"

definition skipRuleExprs :: "skip_rule \<Rightarrow> expression list" where
  "skipRuleExprs rule = [sk_Condition rule, sk_Reason rule, sk_OS rule, sk_Arch rule, sk_EnvSet rule, sk_Env rule]"

definition collectSkipRefs :: "skip_rule list \<Rightarrow> expression list" where
  "collectSkipRefs rules = concat (map skipRuleExprs rules)"

definition collectKeywordRefs :: "keyword_call option \<Rightarrow> expression list" where
  "collectKeywordRefs k = (case k of None \<Rightarrow> [] | Some c \<Rightarrow> [kc_Name c, kc_Inputs c])"

section \<open>Dependencies\<close>

datatype order_error =
    DependsOnLater string string
  | DependsOnUnknown string string
  | SelfDependency string
  | ReferencesLater string string
  | ReferencesUnknown string string

text \<open>Every expression \<open>StepDependencies\<close> collects from.\<close>

definition dependencyExprs :: "step \<Rightarrow> expression list" where
  "dependencyExprs s =
     st_When s # map v_Expr (st_Vars s)
     @ collectRequestRefs (st_Request s) @ collectExpectRefs (st_Expect s)
     @ map snd (st_Capture s)
     @ collectSaveRefs (st_Save s) @ collectFileRefs (st_FileOp s) @ collectExecRefs (st_Exec s)
     @ collectKeywordRefs (st_Keyword s)
     @ collectMobileRefs (st_Mobile s) @ collectSQLRefs (st_SQL s) @ collectWebhookRefs (st_Webhook s)
     @ collectRPCRefs (st_RPC s) @ collectSkipRefs (st_SkipRules s)"

definition StepDependencies :: "step \<Rightarrow> order_error + string list" where
  "StepDependencies s =
     (let deps = remdups (st_DependsOn s @ concat (map FindStepRefs (dependencyExprs s))) in
      if st_Name s \<in> set deps then Inl (SelfDependency (st_Name s)) else Inr deps)"

text \<open>The two loops of \<open>validateStepRefs\<close> share one body; \<open>skip\<close> is their first guard and \<open>later\<close>,
  \<open>unknown\<close> their two errors.\<close>

fun refsLoop ::
  "(string \<Rightarrow> bool) \<Rightarrow> (string \<Rightarrow> order_error) \<Rightarrow> (string \<Rightarrow> order_error) \<Rightarrow>
   string list \<Rightarrow> string list \<Rightarrow> (string \<Rightarrow> bool) \<Rightarrow> string list \<Rightarrow> order_error option" where
  "refsLoop skip later unknown seen known ext [] = None"
| "refsLoop skip later unknown seen known ext (dep # deps) =
     (if skip dep then refsLoop skip later unknown seen known ext deps
      else if dep \<in> set seen then refsLoop skip later unknown seen known ext deps
      else if ext dep then refsLoop skip later unknown seen known ext deps
      else if dep \<in> set known then Some (later dep)
      else Some (unknown dep))"

definition validateStepRefs ::
  "step \<Rightarrow> string list \<Rightarrow> string list \<Rightarrow> (string \<Rightarrow> bool) \<Rightarrow> order_error option" where
  "validateStepRefs s seen known externalDeps =
     (case refsLoop (\<lambda>dep. dep = st_Name s) (DependsOnLater (st_Name s)) (DependsOnUnknown (st_Name s))
             seen known externalDeps (st_DependsOn s) of
        Some e \<Rightarrow> Some e
      | None \<Rightarrow>
          (case StepDependencies s of
             Inl e \<Rightarrow> Some e
           | Inr deps \<Rightarrow>
               refsLoop (\<lambda>dep. dep \<in> set (st_DependsOn s)) (ReferencesLater (st_Name s))
                 (ReferencesUnknown (st_Name s)) seen known externalDeps deps))"

fun validateOrderLoop :: "step list \<Rightarrow> string list \<Rightarrow> string list \<Rightarrow> (string \<Rightarrow> bool) \<Rightarrow> order_error option" where
  "validateOrderLoop [] seen known externalDeps = None"
| "validateOrderLoop (s # steps) seen known externalDeps =
     (case validateStepRefs s seen known externalDeps of
        Some e \<Rightarrow> Some e
      | None \<Rightarrow> validateOrderLoop steps (seen @ [st_Name s]) known externalDeps)"

definition ValidateStepOrder :: "step list \<Rightarrow> (string \<Rightarrow> bool) \<Rightarrow> order_error option" where
  "ValidateStepOrder steps externalDeps = validateOrderLoop steps [] (map st_Name steps) externalDeps"

section \<open>Step-local variables\<close>

datatype vars_error =
    VarSelfReference string string
  | VarBeforeDefined string string string
  | DuplicateVar string string
  | VarInWhen string string
  | VarInSkipRules string string
  | UnknownVar string string

fun varRefsLoop :: "string \<Rightarrow> string \<Rightarrow> string list \<Rightarrow> string list \<Rightarrow> vars_error option" where
  "varRefsLoop stepName name declared [] = None"
| "varRefsLoop stepName name declared (ref # refs) =
     (if ref = name then Some (VarSelfReference stepName name)
      else if ref \<notin> set declared then Some (VarBeforeDefined stepName name ref)
      else varRefsLoop stepName name declared refs)"

fun declareVars :: "string \<Rightarrow> step_var list \<Rightarrow> string list \<Rightarrow> vars_error + string list" where
  "declareVars stepName [] declared = Inr declared"
| "declareVars stepName (v # vs) declared =
     (case varRefsLoop stepName (v_Name v) declared (FindVarRefs (v_Expr v)) of
        Some e \<Rightarrow> Inl e
      | None \<Rightarrow>
          if v_Name v \<in> set declared then Inl (DuplicateVar (v_Name v) stepName)
          else declareVars stepName vs (declared @ [v_Name v]))"

text \<open>The first expression of the list that refers to a variable, and the first variable it names.\<close>

fun firstVarRef :: "expression list \<Rightarrow> string option" where
  "firstVarRef [] = None"
| "firstVarRef (e # es) = (case FindVarRefs e of [] \<Rightarrow> firstVarRef es | r # rs \<Rightarrow> Some r)"

definition bodyExprs :: "step \<Rightarrow> expression list" where
  "bodyExprs s =
     collectRequestRefs (st_Request s) @ collectExpectRefs (st_Expect s) @ map snd (st_Capture s)
     @ collectKeywordRefs (st_Keyword s)
     @ collectSaveRefs (st_Save s) @ collectFileRefs (st_FileOp s) @ collectExecRefs (st_Exec s)
     @ collectMobileRefs (st_Mobile s) @ collectSQLRefs (st_SQL s) @ collectWebhookRefs (st_Webhook s)
     @ collectRPCRefs (st_RPC s)"

definition ValidateStepVars :: "step \<Rightarrow> vars_error option" where
  "ValidateStepVars s = (case declareVars (st_Name s) (st_Vars s) [] of
     Inl e \<Rightarrow> Some e
   | Inr declared \<Rightarrow>
       (case FindVarRefs (st_When s) of
          r # rs \<Rightarrow> Some (VarInWhen (st_Name s) r)
        | [] \<Rightarrow>
            (case firstVarRef (collectSkipRefs (st_SkipRules s)) of
               Some r \<Rightarrow> Some (VarInSkipRules (st_Name s) r)
             | None \<Rightarrow>
                 (case List.find (\<lambda>r. r \<notin> set declared)
                         (remdups (concat (map FindVarRefs (bodyExprs s)))) of
                    Some r \<Rightarrow> Some (UnknownVar (st_Name s) r)
                  | None \<Rightarrow> None))))"

section \<open>What validation guarantees\<close>

text \<open>The names of the steps whose results a step uses, as \<open>StepDependencies\<close> sees them.\<close>

definition stepRefs :: "step \<Rightarrow> string set" where
  "stepRefs s = set (st_DependsOn s) \<union> (\<Union>e \<in> set (dependencyExprs s). set (FindStepRefs e))"

lemma StepDependencies_Inr:
  "StepDependencies s = Inr deps \<longleftrightarrow> st_Name s \<notin> stepRefs s
     \<and> deps = remdups (st_DependsOn s @ concat (map FindStepRefs (dependencyExprs s)))"
  by (auto simp: StepDependencies_def stepRefs_def Let_def)

lemma StepDependencies_set: "StepDependencies s = Inr deps \<Longrightarrow> set deps = stepRefs s"
  by (auto simp: StepDependencies_Inr stepRefs_def)

lemma refsLoop_None:
  "refsLoop skip later unknown seen known ext deps = None \<longleftrightarrow>
     (\<forall>dep \<in> set deps. skip dep \<or> dep \<in> set seen \<or> ext dep)"
  by (induction deps) auto

lemma two_passes:
  assumes "n \<notin> R" and "D \<subseteq> R"
  shows "((\<forall>d \<in> D. d = n \<or> P d) \<and> (\<forall>d \<in> R. d \<in> D \<or> P d)) = (\<forall>d \<in> R. P d)"
proof
  assume l: "(\<forall>d \<in> D. d = n \<or> P d) \<and> (\<forall>d \<in> R. d \<in> D \<or> P d)"
  show "\<forall>d \<in> R. P d"
  proof
    fix d assume "d \<in> R"
    with assms(1) have "d \<noteq> n" by auto
    with l \<open>d \<in> R\<close> show "P d" by auto
  qed
qed (use assms(2) in auto)

lemma validateStepRefs_None:
  "validateStepRefs s seen known ext = None \<longleftrightarrow>
     st_Name s \<notin> stepRefs s \<and> (\<forall>dep \<in> stepRefs s. dep \<in> set seen \<or> ext dep)"
proof (cases "StepDependencies s")
  case (Inl e)
  then have "st_Name s \<in> stepRefs s"
    by (auto simp: StepDependencies_def stepRefs_def Let_def split: if_splits)
  with Inl show ?thesis by (simp add: validateStepRefs_def)
next
  case (Inr deps)
  then have n: "st_Name s \<notin> stepRefs s" "set deps = stepRefs s"
    by (simp add: StepDependencies_Inr) (rule StepDependencies_set [OF Inr])
  have sub: "set (st_DependsOn s) \<subseteq> stepRefs s" by (simp add: stepRefs_def)
  have "validateStepRefs s seen known ext = None \<longleftrightarrow>
      (\<forall>dep \<in> set (st_DependsOn s). dep = st_Name s \<or> dep \<in> set seen \<or> ext dep) \<and>
      (\<forall>dep \<in> stepRefs s. dep \<in> set (st_DependsOn s) \<or> dep \<in> set seen \<or> ext dep)"
    using Inr n(2) by (simp add: validateStepRefs_def refsLoop_None)
  then show ?thesis using n(1)
    by (simp only: two_passes [OF n(1) sub, of "\<lambda>dep. dep \<in> set seen \<or> ext dep"] simp_thms)
qed

lemma validateOrderLoop_None:
  "validateOrderLoop steps seen known ext = None \<longleftrightarrow>
     (\<forall>i < length steps. st_Name (steps ! i) \<notin> stepRefs (steps ! i) \<and>
        (\<forall>dep \<in> stepRefs (steps ! i).
           dep \<in> set seen \<union> set (map st_Name (take i steps)) \<or> ext dep))"
proof (induction steps arbitrary: seen)
  case (Cons s steps)
  show ?case by (auto simp: Cons.IH All_less_Suc2 validateStepRefs_None)
qed simp

lemma varRefsLoop_None:
  "varRefsLoop stepName name declared refs = None \<longleftrightarrow> (\<forall>r \<in> set refs. r \<noteq> name \<and> r \<in> set declared)"
  by (induction refs) auto

lemma declareVars_Inr:
  "declareVars stepName vs declared = Inr d \<longleftrightarrow> d = declared @ map v_Name vs \<and> distinct (map v_Name vs) \<and>
     set declared \<inter> set (map v_Name vs) = {} \<and>
     (\<forall>i < length vs. \<forall>r \<in> set (FindVarRefs (v_Expr (vs ! i))).
        r \<noteq> v_Name (vs ! i) \<and> r \<in> set declared \<union> set (map v_Name (take i vs)))"
proof (induction vs arbitrary: declared)
  case (Cons v vs)
  show ?case
    by (auto simp: Cons.IH All_less_Suc2 error_chain_Inr varRefsLoop_None split: if_splits)
qed auto

lemma firstVarRef_None: "firstVarRef es = None \<longleftrightarrow> (\<forall>e \<in> set es. FindVarRefs e = [])"
  by (induction es) (auto split: list.splits)

lemma find_None_iff': "List.find P xs = None \<longleftrightarrow> (\<forall>x \<in> set xs. \<not> P x)"
  by (induction xs) auto

section \<open>Properties\<close>

text \<open>C8: a list of steps passes the order check exactly when no step depends on itself and every
  dependency of every step, explicit or read off a collected expression, is the name of a step
  earlier in the list or a name the caller provides.\<close>

theorem ValidateStepOrder_accepts_iff:
  "ValidateStepOrder steps ext = None \<longleftrightarrow>
     (\<forall>i < length steps. st_Name (steps ! i) \<notin> stepRefs (steps ! i) \<and>
        (\<forall>dep \<in> stepRefs (steps ! i). dep \<in> set (map st_Name (take i steps)) \<or> ext dep))"
  by (simp add: ValidateStepOrder_def validateOrderLoop_None)

theorem ValidateStepOrder_accepts_iff_witness:
  "ValidateStepOrder [blank_step ''http'' ''login'',
     (blank_step ''http'' ''me'')\<lparr>st_DependsOn := [''login'']\<rparr>] (\<lambda>_. False) = None"
  unfolding ValidateStepOrder_accepts_iff
  by (simp add: All_less_Suc2 stepRefs_def dependencyExprs_def blank_step_def collectRequestRefs_def
      collectExpectRefs_def collectSaveRefs_def collectFileRefs_def collectExecRefs_def collectKeywordRefs_def
      collectMobileRefs_def collectSQLRefs_def collectWebhookRefs_def collectRPCRefs_def collectSkipRefs_def
      FindStepRefs_def findRootAttrRefs_def)



definition eraseMultipart :: "request \<Rightarrow> request" where
  "eraseMultipart r = r\<lparr>rq_Body := map_option (\<lambda>b. b\<lparr>rb_Multipart := None\<rparr>) (rq_Body r)\<rparr>"

definition eraseUnchecked :: "step \<Rightarrow> step" where
  "eraseUnchecked s = s\<lparr>st_Mail := None, st_Browser := None, st_Load := None,
     st_Request := map_option eraseMultipart (st_Request s),
     st_Expect := map_option (\<lambda>e. e\<lparr>ex_Shortcuts := []\<rparr>) (st_Expect s)\<rparr>"

lemma eraseUnchecked_deps:
  "st_Name (eraseUnchecked s) = st_Name s" "st_DependsOn (eraseUnchecked s) = st_DependsOn s"
  "dependencyExprs (eraseUnchecked s) = dependencyExprs s"
  by (auto simp: eraseUnchecked_def eraseMultipart_def dependencyExprs_def collectRequestRefs_def
      collectExpectRefs_def split: option.splits)

lemma stepRefs_eraseUnchecked: "stepRefs (eraseUnchecked s) = stepRefs s"
  by (simp add: stepRefs_def eraseUnchecked_deps)

lemma StepDependencies_eraseUnchecked: "StepDependencies (eraseUnchecked s) = StepDependencies s"
  unfolding StepDependencies_def eraseUnchecked_deps ..

lemma validateStepRefs_eraseUnchecked:
  "validateStepRefs (eraseUnchecked s) seen known ext = validateStepRefs s seen known ext"
  unfolding validateStepRefs_def StepDependencies_eraseUnchecked eraseUnchecked_deps ..

lemma validateOrderLoop_eraseUnchecked:
  "validateOrderLoop (map eraseUnchecked steps) seen known ext = validateOrderLoop steps seen known ext"
  by (induction steps arbitrary: seen)
    (simp_all add: validateStepRefs_eraseUnchecked eraseUnchecked_deps split: option.splits)

text \<open>C30: the order check never looks at the payload of mail, browser and load steps, at multipart parts
  and at the flat shortcuts of an expect block: erasing them does not change its verdict, so a
  reference to an undefined or later step made there is accepted.\<close>

theorem ValidateStepOrder_ignores_payloads:
  "ValidateStepOrder (map eraseUnchecked steps) ext = ValidateStepOrder steps ext"
  by (simp add: ValidateStepOrder_def validateOrderLoop_eraseUnchecked comp_def eraseUnchecked_deps)

end
