(* ===== verification/Loader.thy ===== *)
theory Loader
  imports StepRefs "HOL-Library.AList" "HOL-Library.Char_ord" "HOL-Library.List_Lexorder" "HOL-Library.Multiset"
begin

text \<open>
  Loading a suite: \<^verbatim>\<open>internal/parser/loader.go\<close>, \<^verbatim>\<open>order.go\<close> and \<^verbatim>\<open>suite_teardown.go\<close>. Files are
  merged into one suite, first definition wins, and the merged suite is validated. The file system
  and the HCL parser and decoder are arguments. The diagnostics pointer of the source is an argument
  and a result. Steps are shared by pointer in the source: reordering updates their lines in place,
  which the model writes as an update of the list of decoded steps.
\<close>

section \<open>Diagnostics\<close>

record diagnostic =
  dg_error :: bool
  dg_summary :: string
  dg_detail :: goerr

definition diagError :: "string \<Rightarrow> goerr \<Rightarrow> diagnostic" where
  "diagError summary detail = \<lparr>dg_error = True, dg_summary = summary, dg_detail = detail\<rparr>"

definition HasErrors :: "diagnostic list \<Rightarrow> bool" where
  "HasErrors ds \<longleftrightarrow> (\<exists>d \<in> set ds. dg_error d)"

lemma HasErrors_append [simp]: "HasErrors (xs @ ys) \<longleftrightarrow> HasErrors xs \<or> HasErrors ys"
  by (auto simp: HasErrors_def)

lemma HasErrors_simps [simp]: "\<not> HasErrors []" "HasErrors (diagError s d # ds)"
  by (simp_all add: HasErrors_def diagError_def)

section \<open>Source order (order.go)\<close>

type_synonym stepKey = "string \<times> string"

record sourceStep =
  ss_key :: stepKey
  ss_line :: int

text \<open>What the walk reads of a syntax block: its type, labels, line and child blocks.\<close>

datatype block = Block (bk_type: string) (bk_labels: "string list") (bk_line: int) (bk_blocks: "block list")

definition childBlocks :: "block list option \<Rightarrow> string \<Rightarrow> block list" where
  "childBlocks body blockType = (case body of
     None \<Rightarrow> []
   | Some blocks \<Rightarrow> filter (\<lambda>b. bk_type b = blockType) blocks)"

definition blockBodyAt :: "block list \<Rightarrow> int \<Rightarrow> block list option" where
  "blockBodyAt blocks i = (if i < 0 \<or> i \<ge> int (length blocks) then None else Some (bk_blocks (blocks ! nat i)))"

fun sourceOrderLoop :: "block list \<Rightarrow> sourceStep list" where
  "sourceOrderLoop [] = []"
| "sourceOrderLoop (b # bs) =
     (if bk_type b \<noteq> ''step'' \<and> bk_type b \<noteq> ''case'' then sourceOrderLoop bs
      else (case bk_labels b of
              [provider, name] \<Rightarrow> \<lparr>ss_key = (provider, name), ss_line = bk_line b\<rparr> # sourceOrderLoop bs
            | _ \<Rightarrow> sourceOrderLoop bs))"

definition sourceOrder :: "block list option \<Rightarrow> sourceStep list" where
  "sourceOrder body = (case body of None \<Rightarrow> [] | Some blocks \<Rightarrow> sourceOrderLoop blocks)"

definition keyOf :: "step \<Rightarrow> stepKey" where
  "keyOf s = (st_Provider s, st_Name s)"

text \<open>The index of the step with a key; \<open>None\<close> when the map has no such key.\<close>

fun stepIndex :: "step list \<Rightarrow> stepKey \<Rightarrow> nat option" where
  "stepIndex [] k = None"
| "stepIndex (s # ss) k = (if keyOf s = k then Some 0 else map_option Suc (stepIndex ss k))"

fun reorderLoop :: "step list \<Rightarrow> sourceStep list \<Rightarrow> nat list \<Rightarrow> step list" where
  "reorderLoop steps [] acc = map (\<lambda>i. steps ! i) acc"
| "reorderLoop steps (src # order) acc =
     (case stepIndex steps (ss_key src) of
        None \<Rightarrow> steps
      | Some i \<Rightarrow>
          (let steps' = (if 0 < ss_line src then steps[i := (steps ! i)\<lparr>st_Line := ss_line src\<rparr>] else steps)
           in reorderLoop steps' order (acc @ [i])))"

definition reorderStepsBySource :: "step list \<Rightarrow> sourceStep list \<Rightarrow> step list" where
  "reorderStepsBySource steps order =
     (if length order \<noteq> length steps then steps
      else if \<not> distinct (map keyOf steps) then steps
      else reorderLoop steps order [])"

section \<open>Merging\<close>

fun mergeDefs :: "string \<Rightarrow> string \<Rightarrow> (string \<times> 'd) list \<Rightarrow> (string \<times> 'd) list \<Rightarrow> diagnostic list \<Rightarrow>
    (string \<times> 'd) list \<times> diagnostic list" where
  "mergeDefs summary format dst [] diags = (dst, diags)"
| "mergeDefs summary format dst ((name, d) # src) diags =
     (if map_of dst name \<noteq> None
      then mergeDefs summary format dst src (diags @ [diagError summary (Errorf format [AStr name])])
      else mergeDefs summary format (dst @ [(name, d)]) src diags)"

definition mergeSuiteTeardown :: "suite \<Rightarrow> suite \<Rightarrow> diagnostic list \<Rightarrow> suite \<times> diagnostic list" where
  "mergeSuiteTeardown dst src diags =
     (if length (su_Teardown src) = 0 then (dst, diags)
      else if su_TeardownFile dst \<noteq> []
      then (dst, diags @ [diagError ''Duplicate suite teardown''
              (Errorf ''A suite-level teardown block is already defined in %q; only one file may declare it''
                 [AStr (su_TeardownFile dst)])])
      else (dst\<lparr>su_Teardown := su_Teardown src, su_TeardownFile := su_TeardownFile src\<rparr>, diags))"

definition mergeSuite :: "suite \<Rightarrow> suite \<Rightarrow> diagnostic list \<Rightarrow> suite \<times> diagnostic list" where
  "mergeSuite dst src diags =
     (let dst = (if 0 < su_Version src then dst\<lparr>su_Version := su_Version src\<rparr> else dst);
          dst = dst\<lparr>su_ConfigExpr := fold (\<lambda>(k, v). AList.update k v) (su_ConfigExpr src) (su_ConfigExpr dst)\<rparr>;
          (gens, diags) = mergeDefs ''Duplicate generator'' ''Generator %q is defined multiple times''
                            (su_Generators dst) (su_Generators src) diags;
          (kws, diags) = mergeDefs ''Duplicate keyword'' ''Keyword %q is defined multiple times''
                            (su_Keywords dst) (su_Keywords src) diags;
          dst = dst\<lparr>su_Generators := gens, su_Keywords := kws,
                    su_Scenarios := su_Scenarios dst @ su_Scenarios src\<rparr>
      in mergeSuiteTeardown dst src diags)"

section \<open>Validation\<close>

fun duplicateNames :: "(step \<Rightarrow> goerr) \<Rightarrow> step list \<Rightarrow> string list \<Rightarrow> string list \<times> diagnostic list" where
  "duplicateNames msg [] names = (names, [])"
| "duplicateNames msg (s # ss) names =
     (let (names', ds) = duplicateNames msg ss (names @ [st_Name s]) in
      (names', (if st_Name s \<in> set names then [diagError ''Duplicate step'' (msg s)] else []) @ ds))"

definition order_message :: "order_error \<Rightarrow> goerr" where
  "order_message e = (case e of
     DependsOnLater s d \<Rightarrow> Errorf ''step %q depends on %q, but %q is defined later'' [AStr s, AStr d, AStr d]
   | DependsOnUnknown s d \<Rightarrow> Errorf ''step %q depends on unknown step %q'' [AStr s, AStr d]
   | SelfDependency s \<Rightarrow> Errorf ''step %q cannot depend on itself'' [AStr s]
   | ReferencesLater s d \<Rightarrow> Errorf ''step %q references result.%s, but %q is defined later'' [AStr s, AStr d, AStr d]
   | ReferencesUnknown s d \<Rightarrow> Errorf ''step %q references unknown dependency %q'' [AStr s, AStr d])"

definition vars_detail :: "goerr \<Rightarrow> vars_error \<Rightarrow> goerr" where
  "vars_detail owner e = Errorf ''%s: %v'' [AErr owner, AErr (case e of
     VarSelfReference s v \<Rightarrow> Errorf ''step %q variable %q cannot reference itself'' [AStr s, AStr v]
   | VarBeforeDefined s v r \<Rightarrow> Errorf ''step %q variable %q references vars.%s before it is defined'' [AStr s, AStr v, AStr r]
   | DuplicateVar v s \<Rightarrow> Errorf ''duplicate variable %q in step %q'' [AStr v, AStr s]
   | VarInWhen s r \<Rightarrow> Errorf ''step %q cannot reference vars.%s in when: when is evaluated before the step body'' [AStr s, AStr r]
   | VarInSkipRules s r \<Rightarrow> Errorf ''step %q cannot reference vars.%s in skip rules: skip rules are evaluated before the step body'' [AStr s, AStr r]
   | UnknownVar s r \<Rightarrow> Errorf ''step %q references unknown variable vars.%s'' [AStr s, AStr r])]"

definition validateStepVarsIn :: "step list \<Rightarrow> goerr \<Rightarrow> diagnostic list" where
  "validateStepVarsIn steps owner = concat (map (\<lambda>s. case ValidateStepVars s of
     None \<Rightarrow> [] | Some e \<Rightarrow> [diagError ''Invalid step vars'' (vars_detail owner e)]) steps)"

definition validateScenarioStepVars :: "scenario \<Rightarrow> diagnostic list" where
  "validateScenarioStepVars sc =
     validateStepVarsIn (sn_Steps sc) (Errorf ''Scenario %q'' [AStr (sn_Name sc)])
     @ validateStepVarsIn (sn_Teardown sc) (Errorf ''Scenario %q teardown'' [AStr (sn_Name sc)])"

definition validateScenarioStepOrder :: "scenario \<Rightarrow> diagnostic list" where
  "validateScenarioStepOrder sc = (case ValidateStepOrder (sn_Steps sc) (\<lambda>_. False) of
     None \<Rightarrow> []
   | Some e \<Rightarrow> [diagError ''Invalid step order'' (Errorf ''Scenario %q: %v'' [AStr (sn_Name sc), AErr (order_message e)])])"

definition validateKeywordStepNames :: "suite \<Rightarrow> diagnostic list" where
  "validateKeywordStepNames su = concat (map (\<lambda>name. case map_of (su_Keywords su) name of
     None \<Rightarrow> []
   | Some kw \<Rightarrow> snd (duplicateNames
        (\<lambda>s. Errorf ''Keyword %q has duplicate step %q'' [AStr name, AStr (st_Name s)]) (kw_Steps kw) []))
     (sort (map fst (su_Keywords su))))"

definition validateKeywordStepVars :: "suite \<Rightarrow> diagnostic list" where
  "validateKeywordStepVars su = concat (map (\<lambda>name. case map_of (su_Keywords su) name of
     None \<Rightarrow> []
   | Some kw \<Rightarrow> validateStepVarsIn (kw_Steps kw) (Errorf ''Keyword %q'' [AStr name]))
     (sort (map fst (su_Keywords su))))"

definition validateSuiteTeardown :: "suite \<Rightarrow> diagnostic list" where
  "validateSuiteTeardown su =
     (if length (su_Teardown su) = 0 then []
      else snd (duplicateNames (\<lambda>s. Errorf ''Suite teardown has duplicate step %q'' [AStr (st_Name s)])
                  (su_Teardown su) [])
           @ validateStepVarsIn (su_Teardown su) (Errorf ''Suite teardown'' []))"

fun validateScenarios :: "scenario list \<Rightarrow> string list \<Rightarrow> diagnostic list" where
  "validateScenarios [] scenarioNames = []"
| "validateScenarios (sc # scs) scenarioNames =
     (let dup = (if sn_Name sc \<in> set scenarioNames
                 then [diagError ''Duplicate scenario''
                         (Errorf ''Scenario %q is defined multiple times'' [AStr (sn_Name sc)])] else []);
          (names, d1) = duplicateNames
             (\<lambda>s. Errorf ''Scenario %q has duplicate step %q'' [AStr (sn_Name sc), AStr (st_Name s)])
             (sn_Steps sc) [];
          (names', d2) = duplicateNames
             (\<lambda>s. Errorf ''Scenario %q duplicates step/teardown name %q'' [AStr (sn_Name sc), AStr (st_Name s)])
             (sn_Teardown sc) names
      in dup @ d1 @ d2 @ validateScenarioStepOrder sc @ validateScenarioStepVars sc
         @ validateScenarios scs (scenarioNames @ [sn_Name sc]))"

definition validateSuite :: "suite \<Rightarrow> diagnostic list" where
  "validateSuite su =
     validateScenarios (su_Scenarios su) []
     @ validateKeywordStepNames su @ validateKeywordStepVars su @ validateSuiteTeardown su"

section \<open>LoadPath\<close>

record loader_env =
  le_stat :: "string \<Rightarrow> goerr + bool"
  le_walk :: "string \<Rightarrow> goerr + (string \<times> string \<times> bool) list"
  le_parse :: "string \<Rightarrow> diagnostic list"
  le_decode :: "string \<Rightarrow> suite \<times> diagnostic list"

definition collectFiles :: "loader_env \<Rightarrow> string \<Rightarrow> bool \<Rightarrow> goerr + string list" where
  "collectFiles L path isDir =
     (if \<not> isDir
      then (if \<not> has_suffix path ''.tales'' then Inl (Errorf ''input file must end with .tales'' [])
            else Inr [path])
      else (case le_walk L path of
              Inl err \<Rightarrow> Inl (Errorf ''cannot walk %q: %w'' [AStr path, AErr err])
            | Inr entries \<Rightarrow>
                Inr (map fst (filter (\<lambda>(current, name, dir). \<not> dir \<and> has_suffix name ''.tales'') entries))))"

definition emptySuite :: "string list \<Rightarrow> suite" where
  "emptySuite files = \<lparr>su_Version = 1, su_Files = files, su_ConfigExpr = [], su_Generators = [],
     su_Keywords = [], su_Scenarios = [], su_Teardown = [], su_TeardownFile = []\<rparr>"

fun loadFiles :: "loader_env \<Rightarrow> string list \<Rightarrow> suite \<Rightarrow> diagnostic list \<Rightarrow> suite \<times> diagnostic list" where
  "loadFiles L [] su diags = (su, diags)"
| "loadFiles L (file # files) su diags =
     (let parseDiags = le_parse L file; diags = diags @ parseDiags in
      if HasErrors parseDiags then loadFiles L files su diags
      else (let (decoded, decodeDiags) = le_decode L file; diags = diags @ decodeDiags in
            if HasErrors decodeDiags then loadFiles L files su diags
            else (let (su, diags) = mergeSuite su decoded diags in loadFiles L files su diags)))"

definition LoadPath :: "loader_env \<Rightarrow> string \<Rightarrow> suite option \<times> diagnostic list" where
  "LoadPath L path = (case le_stat L path of
     Inl err \<Rightarrow> (None, [diagError ''Invalid path'' (Errorf ''Cannot open %q: %v'' [AStr path, AErr err])])
   | Inr isDir \<Rightarrow>
       (case collectFiles L path isDir of
          Inl err \<Rightarrow> (None, [diagError ''Read error'' err])
        | Inr unsorted \<Rightarrow>
            (let files = sort unsorted in
             if length files = 0
             then (None, [diagError ''No tales files'' (Errorf ''No .tales files found under %q'' [AStr path])])
             else (let (su, diags) = loadFiles L files (emptySuite files) [];
                       diags = diags @ validateSuite su
                   in if HasErrors diags then (None, diags) else (Some su, diags)))))"

section \<open>Reordering loses no step\<close>

definition unlined :: "step \<Rightarrow> step" where
  "unlined s = s\<lparr>st_Line := 0\<rparr>"

lemma keyOf_unlined [simp]: "keyOf (unlined s) = keyOf s"
  by (simp add: keyOf_def unlined_def)

lemma map_keyOf_unlined: "map unlined ss = map unlined ss' \<Longrightarrow> map keyOf ss = map keyOf ss'"
  by (metis (mono_tags, lifting) keyOf_unlined comp_apply list.map_comp map_eq_conv)

lemma stepIndex_Some: "stepIndex ss k = Some i \<Longrightarrow> i < length ss \<and> keyOf (ss ! i) = k"
  by (induction ss arbitrary: i) (auto split: if_splits)

lemma map_unlined_update:
  "i < length ss \<Longrightarrow> map unlined (ss[i := (ss ! i)\<lparr>st_Line := n\<rparr>]) = map unlined ss"
  by (rule nth_equalityI) (auto simp: nth_list_update unlined_def)

lemma reorderLoop_cases:
  "\<exists>steps'. map unlined steps' = map unlined steps \<and>
     (reorderLoop steps order acc = steps' \<or>
      (\<exists>is. reorderLoop steps order acc = map (\<lambda>i. steps' ! i) (acc @ is)
         \<and> map (\<lambda>i. keyOf (steps' ! i)) is = map ss_key order \<and> set is \<subseteq> {..<length steps'}))"
proof (induction steps order acc rule: reorderLoop.induct)
  case (1 steps acc)
  then show ?case by auto
next
  case (2 steps src order acc)
  show ?case
  proof (cases "stepIndex steps (ss_key src)")
    case (Some i)
    define u where "u = (if 0 < ss_line src then steps[i := (steps ! i)\<lparr>st_Line := ss_line src\<rparr>] else steps)"
    from stepIndex_Some [OF Some] have i: "i < length steps" "keyOf (steps ! i) = ss_key src" by auto
    then have u: "map unlined u = map unlined steps" by (simp add: u_def map_unlined_update)
    have e: "reorderLoop steps (src # order) acc = reorderLoop u order (acc @ [i])"
      using Some by (simp add: u_def Let_def)
    have key: "keyOf (s' ! i) = ss_key src \<and> i < length s'" if "map unlined s' = map unlined steps" for s'
      using map_keyOf_unlined [OF that] i that by (metis length_map nth_map)
    from "2.IH" [OF Some u_def] obtain s' where s': "map unlined s' = map unlined u"
      and c: "reorderLoop u order (acc @ [i]) = s' \<or>
        (\<exists>is. reorderLoop u order (acc @ [i]) = map (\<lambda>j. s' ! j) ((acc @ [i]) @ is)
          \<and> map (\<lambda>j. keyOf (s' ! j)) is = map ss_key order \<and> set is \<subseteq> {..<length s'})" by blast
    from s' u have m: "map unlined s' = map unlined steps" by simp
    from c show ?thesis
    proof
      assume "reorderLoop u order (acc @ [i]) = s'"
      with m e show ?thesis by auto
    next
      assume "\<exists>is. reorderLoop u order (acc @ [i]) = map (\<lambda>j. s' ! j) ((acc @ [i]) @ is)
          \<and> map (\<lambda>j. keyOf (s' ! j)) is = map ss_key order \<and> set is \<subseteq> {..<length s'}"
      then obtain js where j: "reorderLoop u order (acc @ [i]) = map (\<lambda>j. s' ! j) ((acc @ [i]) @ js)"
        "map (\<lambda>j. keyOf (s' ! j)) js = map ss_key order" "set js \<subseteq> {..<length s'}" by blast
      have "reorderLoop steps (src # order) acc = map (\<lambda>j. s' ! j) (acc @ i # js)" using e j(1) by simp
      moreover have "map (\<lambda>j. keyOf (s' ! j)) (i # js) = map ss_key (src # order)"
        using j(2) key [OF m] by simp
      moreover have "set (i # js) \<subseteq> {..<length s'}" using j(3) key [OF m] by simp
      ultimately show ?thesis using m by blast
    qed
  qed auto
qed

lemma distinct_indexes_mset:
  assumes "distinct is" and "set is \<subseteq> {..<n}" and "length is = n"
  shows "mset is = mset [0..<n]"
proof -
  have "card (set is) = card {..<n}" using assms by (simp add: distinct_card)
  then have "set is = {..<n}" using card_subset_eq [OF finite_lessThan assms(2)] by blast
  then have "set is = set [0..<n]" by (simp only: set_upt atLeast0LessThan)
  then show ?thesis using set_eq_iff_mset_eq_distinct [OF assms(1) distinct_upt] by blast
qed

lemma reorder_permutes:
  assumes "distinct (map ss_key order)"
  shows "mset (map unlined (reorderStepsBySource steps order)) = mset (map unlined steps)"
proof (cases "length order = length steps \<and> distinct (map keyOf steps)")
  case True
  then have r: "reorderStepsBySource steps order = reorderLoop steps order []"
    by (simp add: reorderStepsBySource_def)
  from reorderLoop_cases [of steps order "[]"] obtain steps' where
    u: "map unlined steps' = map unlined steps" and
    c: "reorderLoop steps order [] = steps' \<or> (\<exists>is. reorderLoop steps order [] = map (\<lambda>i. steps' ! i) is
         \<and> map (\<lambda>i. keyOf (steps' ! i)) is = map ss_key order \<and> set is \<subseteq> {..<length steps'})" by auto
  from c show ?thesis
  proof
    assume "reorderLoop steps order [] = steps'"
    with r u show ?thesis by simp
  next
    assume "\<exists>is. reorderLoop steps order [] = map (\<lambda>i. steps' ! i) is
         \<and> map (\<lambda>i. keyOf (steps' ! i)) is = map ss_key order \<and> set is \<subseteq> {..<length steps'}"
    then obtain "is" where i: "reorderLoop steps order [] = map (\<lambda>i. steps' ! i) is"
      "map (\<lambda>i. keyOf (steps' ! i)) is = map ss_key order" "set is \<subseteq> {..<length steps'}" by blast
    from i(2) assms have "distinct is" by (metis distinct_map)
    moreover have "length is = length steps'" using i(2) True u by (metis length_map)
    ultimately have "mset is = mset [0..<length steps']" using i(3) by (intro distinct_indexes_mset)
    then have "mset (map (\<lambda>i. unlined (steps' ! i)) is) = mset (map (\<lambda>i. unlined (steps' ! i)) [0..<length steps'])"
      by (simp add: mset_map)
    also have "map (\<lambda>i. unlined (steps' ! i)) [0..<length steps'] = map unlined steps'"
      by (rule nth_equalityI) auto
    finally show ?thesis using r i(1) u by (simp add: comp_def)
  qed
qed (auto simp: reorderStepsBySource_def)

section \<open>What validation accepts\<close>

lemma duplicateNames_names: "fst (duplicateNames msg ss names) = names @ map st_Name ss"
  by (induction ss arbitrary: names) (simp_all add: Let_def case_prod_beta)

lemma duplicateNames_ok:
  "\<not> HasErrors (snd (duplicateNames msg ss names)) \<longleftrightarrow>
     distinct (map st_Name ss) \<and> set names \<inter> set (map st_Name ss) = {}"
proof (induction ss arbitrary: names)
  case (Cons s ss)
  show ?case using Cons.IH [of "names @ [st_Name s]"]
    by (auto simp: Let_def case_prod_beta)
qed simp

lemma validateStepVarsIn_ok:
  "\<not> HasErrors (validateStepVarsIn steps owner) \<longleftrightarrow> (\<forall>s \<in> set steps. ValidateStepVars s = None)"
  by (induction steps) (auto simp: validateStepVarsIn_def split: option.splits)

definition scenario_ok :: "scenario \<Rightarrow> bool" where
  "scenario_ok sc \<longleftrightarrow> distinct (map st_Name (sn_Steps sc @ sn_Teardown sc))
     \<and> ValidateStepOrder (sn_Steps sc) (\<lambda>_. False) = None
     \<and> (\<forall>s \<in> set (sn_Steps sc @ sn_Teardown sc). ValidateStepVars s = None)"

definition keyword_ok :: "keyword_def \<Rightarrow> bool" where
  "keyword_ok kw \<longleftrightarrow> distinct (map st_Name (kw_Steps kw)) \<and> (\<forall>s \<in> set (kw_Steps kw). ValidateStepVars s = None)"

definition suite_ok :: "suite \<Rightarrow> bool" where
  "suite_ok su \<longleftrightarrow> distinct (map sn_Name (su_Scenarios su))
     \<and> (\<forall>sc \<in> set (su_Scenarios su). scenario_ok sc)
     \<and> (\<forall>name kw. map_of (su_Keywords su) name = Some kw \<longrightarrow> keyword_ok kw)
     \<and> distinct (map st_Name (su_Teardown su)) \<and> (\<forall>s \<in> set (su_Teardown su). ValidateStepVars s = None)"

lemma scenario_diags_ok:
  "\<not> HasErrors (snd (duplicateNames m1 (sn_Steps sc) [])
      @ snd (duplicateNames m2 (sn_Teardown sc) (map st_Name (sn_Steps sc)))
      @ validateScenarioStepOrder sc @ validateScenarioStepVars sc) \<longleftrightarrow> scenario_ok sc"
  by (auto simp: scenario_ok_def duplicateNames_ok validateScenarioStepVars_def validateStepVarsIn_ok
      validateScenarioStepOrder_def split: option.splits)

lemma validateScenarios_ok:
  "\<not> HasErrors (validateScenarios scs names) \<longleftrightarrow>
     distinct (map sn_Name scs) \<and> set names \<inter> set (map sn_Name scs) = {} \<and> (\<forall>sc \<in> set scs. scenario_ok sc)"
proof (induction scs arbitrary: names)
  case (Cons sc scs)
  let ?m1 = "\<lambda>s. Errorf ''Scenario %q has duplicate step %q'' [AStr (sn_Name sc), AStr (st_Name s)]"
  let ?m2 = "\<lambda>s. Errorf ''Scenario %q duplicates step/teardown name %q'' [AStr (sn_Name sc), AStr (st_Name s)]"
  obtain d1 where d1: "duplicateNames ?m1 (sn_Steps sc) [] = (map st_Name (sn_Steps sc), d1)"
    using duplicateNames_names [of ?m1 "sn_Steps sc" "[]"] by (metis append_Nil prod.collapse)
  obtain ns d2 where d2: "duplicateNames ?m2 (sn_Teardown sc) (map st_Name (sn_Steps sc)) = (ns, d2)"
    by (cases "duplicateNames ?m2 (sn_Teardown sc) (map st_Name (sn_Steps sc))")
  show ?case using Cons.IH [of "names @ [sn_Name sc]"] scenario_diags_ok [of ?m1 sc ?m2]
    by (auto simp: d1 d2)
qed simp

lemma HasErrors_concat: "HasErrors (concat dss) \<longleftrightarrow> (\<exists>ds \<in> set dss. HasErrors ds)"
  by (auto simp: HasErrors_def)

lemma map_of_names:
  "(\<forall>name \<in> fst ` set kvs. case map_of kvs name of None \<Rightarrow> True | Some d \<Rightarrow> P d) \<longleftrightarrow>
     (\<forall>name d. map_of kvs name = Some d \<longrightarrow> P d)"
proof
  assume l: "\<forall>name \<in> fst ` set kvs. case map_of kvs name of None \<Rightarrow> True | Some d \<Rightarrow> P d"
  show "\<forall>name d. map_of kvs name = Some d \<longrightarrow> P d"
  proof (intro allI impI)
    fix name d assume m: "map_of kvs name = Some d"
    then have "name \<in> fst ` set kvs" by (metis map_of_eq_None_iff option.distinct(1))
    with l have "case map_of kvs name of None \<Rightarrow> True | Some d \<Rightarrow> P d" by (rule bspec)
    with m show "P d" by simp
  qed
qed (auto split: option.splits)

lemma validateKeywordStepNames_ok:
  "\<not> HasErrors (validateKeywordStepNames su) \<longleftrightarrow>
     (\<forall>name kw. map_of (su_Keywords su) name = Some kw \<longrightarrow> distinct (map st_Name (kw_Steps kw)))"
  unfolding map_of_names [symmetric] validateKeywordStepNames_def HasErrors_concat
  by (simp only: set_map set_sort ball_simps bex_simps) (simp add: duplicateNames_ok split: option.splits)

lemma validateKeywordStepVars_ok:
  "\<not> HasErrors (validateKeywordStepVars su) \<longleftrightarrow>
     (\<forall>name kw. map_of (su_Keywords su) name = Some kw \<longrightarrow> (\<forall>s \<in> set (kw_Steps kw). ValidateStepVars s = None))"
  unfolding map_of_names [symmetric] validateKeywordStepVars_def HasErrors_concat
  by (simp only: set_map set_sort ball_simps bex_simps) (simp add: validateStepVarsIn_ok split: option.splits)

lemma validateKeywords_ok:
  "\<not> HasErrors (validateKeywordStepNames su @ validateKeywordStepVars su) \<longleftrightarrow>
     (\<forall>name kw. map_of (su_Keywords su) name = Some kw \<longrightarrow> keyword_ok kw)"
  using validateKeywordStepNames_ok [of su] validateKeywordStepVars_ok [of su]
  by (auto simp: keyword_ok_def)

lemma validateSuite_ok_iff: "\<not> HasErrors (validateSuite su) \<longleftrightarrow> suite_ok su"
  using validateScenarios_ok [of "su_Scenarios su" "[]"] validateKeywords_ok [of su]
  by (auto simp: validateSuite_def suite_ok_def validateSuiteTeardown_def duplicateNames_ok validateStepVarsIn_ok)

section \<open>Merging keeps the first definition\<close>

lemma map_of_Cons_upd: "map_of ((k, v) # kvs) = (map_of kvs)(k \<mapsto> v)"
  by (simp add: fun_eq_iff)

lemma if_upd: "(\<lambda>a. if a = k then Some v else f a) = f(k \<mapsto> v)"
  by (simp add: fun_eq_iff)

lemma mergeDefs_spec:
  "mergeDefs summary format dst src diags = (dst', diags') \<Longrightarrow>
     map_of dst' = map_of src ++ map_of dst \<and>
     (HasErrors diags' \<longleftrightarrow> HasErrors diags \<or> \<not> distinct (map fst src) \<or> fst ` set src \<inter> fst ` set dst \<noteq> {})"
proof (induction summary format dst src diags rule: mergeDefs.induct)
  case (2 summary format dst name d src diags)
  show ?case
  proof (cases "map_of dst name")
    case None
    then have n: "name \<notin> fst ` set dst" by (simp add: map_of_eq_None_iff)
    have IH: "map_of dst' = map_of src ++ map_of (dst @ [(name, d)])"
      "HasErrors diags' \<longleftrightarrow> HasErrors diags \<or> \<not> distinct (map fst src)
         \<or> fst ` set src \<inter> fst ` set (dst @ [(name, d)]) \<noteq> {}"
      using 2 None by auto
    have "map_of src ++ map_of (dst @ [(name, d)]) = map_of ((name, d) # src) ++ map_of dst"
      using n unfolding map_of_append map_of_Cons_upd
      by (simp add: map_add_upd_left dom_map_of_conv_image_fst if_upd)
    with IH(1) have "map_of dst' = map_of ((name, d) # src) ++ map_of dst" by (simp only:)
    moreover have "HasErrors diags' \<longleftrightarrow> HasErrors diags \<or> \<not> distinct (map fst ((name, d) # src))
         \<or> fst ` set ((name, d) # src) \<inter> fst ` set dst \<noteq> {}"
      using IH(2) n by auto
    ultimately show ?thesis by blast
  next
    case (Some d')
    then have n: "name \<in> fst ` set dst" by (metis map_of_eq_None_iff option.distinct(1))
    have IH: "map_of dst' = map_of src ++ map_of dst" "HasErrors diags'"
      using 2 Some by auto
    have "map_of src ++ map_of dst = map_of ((name, d) # src) ++ map_of dst"
      using Some by (auto simp: fun_eq_iff map_add_def split: option.splits)
    with IH(1) have "map_of dst' = map_of ((name, d) # src) ++ map_of dst" by (simp only:)
    moreover have "fst ` set ((name, d) # src) \<inter> fst ` set dst \<noteq> {}" using n by auto
    ultimately show ?thesis using IH(2) by blast
  qed
qed auto

lemma map_of_fold_update:
  "distinct (map fst kvs) \<Longrightarrow>
     map_of (fold (\<lambda>(k, v). AList.update k v) kvs al) = map_of al ++ map_of kvs"
proof (induction kvs arbitrary: al)
  case (Cons kv kvs)
  obtain k v where kv: "kv = (k, v)" by (cases kv)
  with Cons show ?case
    by (simp add: update_conv' map_add_upd_left dom_map_of_conv_image_fst if_upd)
qed simp

lemma mergeSuite_spec:
  assumes "mergeSuite dst src diags = (m, ds)" and "distinct (map fst (su_ConfigExpr src))"
  shows "map_of (su_ConfigExpr m) = map_of (su_ConfigExpr dst) ++ map_of (su_ConfigExpr src)
    \<and> map_of (su_Generators m) = map_of (su_Generators src) ++ map_of (su_Generators dst)
    \<and> map_of (su_Keywords m) = map_of (su_Keywords src) ++ map_of (su_Keywords dst)
    \<and> su_Scenarios m = su_Scenarios dst @ su_Scenarios src"
proof -
  obtain gens d1 where g: "mergeDefs ''Duplicate generator'' ''Generator %q is defined multiple times''
      (su_Generators dst) (su_Generators src) diags = (gens, d1)" by fastforce
  obtain kws d2 where k: "mergeDefs ''Duplicate keyword'' ''Keyword %q is defined multiple times''
      (su_Keywords dst) (su_Keywords src) d1 = (kws, d2)" by fastforce
  from assms(1) g k have "su_ConfigExpr m = fold (\<lambda>(k, v). AList.update k v) (su_ConfigExpr src) (su_ConfigExpr dst)"
    "su_Generators m = gens" "su_Keywords m = kws" "su_Scenarios m = su_Scenarios dst @ su_Scenarios src"
    by (auto simp: mergeSuite_def mergeSuiteTeardown_def Let_def split: if_splits)
  with mergeDefs_spec [OF g] mergeDefs_spec [OF k] map_of_fold_update [OF assms(2)] show ?thesis by simp
qed

lemma mergeSuite_errors:
  assumes "mergeSuite dst src diags = (m, ds)"
    and "distinct (map fst (su_Generators src))" and "distinct (map fst (su_Keywords src))"
  shows "HasErrors ds \<longleftrightarrow> HasErrors diags
    \<or> fst ` set (su_Generators src) \<inter> fst ` set (su_Generators dst) \<noteq> {}
    \<or> fst ` set (su_Keywords src) \<inter> fst ` set (su_Keywords dst) \<noteq> {}
    \<or> su_Teardown src \<noteq> [] \<and> su_TeardownFile dst \<noteq> []"
proof -
  obtain gens d1 where g: "mergeDefs ''Duplicate generator'' ''Generator %q is defined multiple times''
      (su_Generators dst) (su_Generators src) diags = (gens, d1)" by fastforce
  obtain kws d2 where k: "mergeDefs ''Duplicate keyword'' ''Keyword %q is defined multiple times''
      (su_Keywords dst) (su_Keywords src) d1 = (kws, d2)" by fastforce
  from assms(1) g k have "ds = d2 \<and> (su_Teardown src = [] \<or> su_TeardownFile dst = []) \<or>
      HasErrors ds \<and> su_Teardown src \<noteq> [] \<and> su_TeardownFile dst \<noteq> []"
    by (auto simp: mergeSuite_def mergeSuiteTeardown_def Let_def split: if_splits)
  with mergeDefs_spec [OF g] mergeDefs_spec [OF k] assms(2,3) show ?thesis by auto
qed

section \<open>Properties\<close>


definition one_file_env :: loader_env where
  "one_file_env = \<lparr>le_stat = \<lambda>_. Inr False, le_walk = \<lambda>_. Inr [], le_parse = \<lambda>_. [],
     le_decode = \<lambda>f. (emptySuite [f], [])\<rparr>"



text \<open>C21: when the source blocks have distinct (provider, name) labels, putting the decoded steps back in
  source order neither drops, duplicates nor alters a step (its line number apart).\<close>

theorem reorderStepsBySource_permutes:
  assumes "distinct (map ss_key order)"
  shows "mset (map unlined (reorderStepsBySource steps order)) = mset (map unlined steps)"
  using assms by (rule reorder_permutes)

theorem reorderStepsBySource_permutes_witness:
  "mset (map unlined (reorderStepsBySource [blank_step ''http'' ''b'', blank_step ''sql'' ''a'']
      [\<lparr>ss_key = (''sql'', ''a''), ss_line = 3\<rparr>, \<lparr>ss_key = (''http'', ''b''), ss_line = 9\<rparr>]))
   = mset (map unlined [blank_step ''http'' ''b'', blank_step ''sql'' ''a''])"
  by (rule reorderStepsBySource_permutes) simp



end
