(* ===== verification/Runtime.thy ===== *)
theory Runtime
  imports Model "HOL-Library.AList" "HOL-Library.Char_ord" "HOL-Library.List_Lexorder"
begin

text \<open>
  The state the runner threads through a scenario: the evaluator and its scope
  (\<^verbatim>\<open>internal/lang/eval.go\<close>), the results of the steps (\<^verbatim>\<open>internal/runtime/context.go\<close>), the
  dependency tracker (\<^verbatim>\<open>internal/runtime/tracker.go\<close>) and the results that are reported
  (\<^verbatim>\<open>internal/report/report.go\<close>). Go maps with string keys are HOL maps; times and durations of the
  report are left out. HCL evaluation, the host and the providers are arguments, gathered in
  \<open>rt_env\<close> over a type of worlds they may read and change.
\<close>

section \<open>Evaluation\<close>

record generate_meta =
  gm_Scenario :: string
  gm_Step :: string
  gm_ExprPath :: string

type_synonym value_map = "string \<Rightarrow> cval option"

record scope_data =
  sd_Config :: value_map
  sd_Result :: value_map
  sd_Request :: value_map
  sd_Response :: value_map
  sd_Input :: value_map
  sd_Vars :: value_map

record evaluator =
  ev_seedScope :: string
  ev_scopeVars :: value_map

text \<open>
  An object built from a Go map: cty keeps the attributes in the order of their names.
\<close>

definition objectVal :: "(string \<times> cval) list \<Rightarrow> cval" where
  "objectVal kvs = VObject (sort_key fst kvs)"

text \<open>
  The outcome of running code that may panic, or that recurses through keywords: \<open>OutOfFuel\<close> is only
  reached when the fuel of the model is too small.
\<close>

datatype 'a run = Ret 'a | Panicked | OutOfFuel

fun bind_run :: "'a run \<Rightarrow> ('a \<Rightarrow> 'b run) \<Rightarrow> 'b run" where
  "bind_run (Ret x) f = f x"
| "bind_run Panicked f = Panicked"
| "bind_run OutOfFuel f = OutOfFuel"

lemma bind_run_Ret_iff [simp]: "bind_run m f = Ret y \<longleftrightarrow> (\<exists>x. m = Ret x \<and> f x = Ret y)"
  by (cases m) auto

lemma bind_run_OutOfFuel_iff [simp]:
  "bind_run m f = OutOfFuel \<longleftrightarrow> m = OutOfFuel \<or> (\<exists>x. m = Ret x \<and> f x = OutOfFuel)"
  by (cases m) auto

text \<open>
  The arguments of the runner's model: HCL evaluation of a non-empty expression (with the functions
  and the generator the evaluator was built with), the operating system, and the sleep of a retry,
  false when the context is cancelled first.
\<close>

record 'w rt_env =
  rt_go :: go_env
  rt_value :: "'w \<Rightarrow> evaluator \<Rightarrow> hcl_expr \<Rightarrow> scope_data \<Rightarrow> generate_meta \<Rightarrow> goerr + cval"
  rt_goos :: string
  rt_goarch :: string
  rt_lookupEnv :: "'w \<Rightarrow> string \<Rightarrow> string option"
  rt_sleep :: "int \<Rightarrow> 'w \<Rightarrow> bool \<times> 'w"

definition SetScopeVars :: "evaluator \<Rightarrow> value_map \<Rightarrow> evaluator" where
  "SetScopeVars ev vars = ev\<lparr>ev_scopeVars := vars\<rparr>"

text \<open>The pushed scope; the function the source returns to restore the previous one is the caller
  going on with the evaluator it had.\<close>

definition PushSeedScope :: "evaluator \<Rightarrow> string \<Rightarrow> evaluator" where
  "PushSeedScope ev part =
     (if ev_seedScope ev = [] then ev\<lparr>ev_seedScope := part\<rparr>
      else ev\<lparr>ev_seedScope := ev_seedScope ev @ CHR 0x00 # part\<rparr>)"

definition Eval :: "'w rt_env \<Rightarrow> 'w \<Rightarrow> evaluator \<Rightarrow> expression \<Rightarrow> scope_data \<Rightarrow> generate_meta \<Rightarrow> goerr + cval" where
  "Eval R w ev expression scope meta = (case expression of
     None \<Rightarrow> Inr (VNull TDynamic)
   | Some e \<Rightarrow> rt_value R w ev e scope meta)"

section \<open>Scenario state (context.go)\<close>

record scenario_state =
  ss_results :: value_map
  ss_seed :: int
  ss_workdir :: string
  ss_artifactsDir :: string

definition NewScenarioState :: "string list \<Rightarrow> int \<Rightarrow> string \<Rightarrow> string \<Rightarrow> scenario_state" where
  "NewScenarioState stepNames seed workdir artifactsDir =
     \<lparr>ss_results = (\<lambda>name. if name \<in> set stepNames then Some (VObject []) else None),
      ss_seed = seed, ss_workdir = workdir, ss_artifactsDir = artifactsDir\<rparr>"

definition GetResultMap :: "scenario_state \<Rightarrow> value_map" where
  "GetResultMap s = ss_results s"

definition SetStepResult :: "scenario_state \<Rightarrow> string \<Rightarrow> cval \<Rightarrow> scenario_state" where
  "SetStepResult s stepName value = s\<lparr>ss_results := (ss_results s)(stepName \<mapsto> value)\<rparr>"

section \<open>Dependency tracker (tracker.go)\<close>

record dep_tracker =
  tr_failed :: "string list"
  tr_skipped :: "string list"

definition newDepTracker :: dep_tracker where
  "newDepTracker = \<lparr>tr_failed = [], tr_skipped = []\<rparr>"

definition markFailed :: "dep_tracker \<Rightarrow> string \<Rightarrow> dep_tracker" where
  "markFailed t name = t\<lparr>tr_failed := List.insert name (tr_failed t)\<rparr>"

definition markSkipped :: "dep_tracker \<Rightarrow> string \<Rightarrow> dep_tracker" where
  "markSkipped t name = t\<lparr>tr_skipped := List.insert name (tr_skipped t)\<rparr>"

text \<open>\<open>Some (blocker, failed)\<close> is the source's third result true.\<close>

fun dependencyBlocker :: "dep_tracker \<Rightarrow> string list \<Rightarrow> (string \<times> bool) option" where
  "dependencyBlocker t [] = None"
| "dependencyBlocker t (dep # deps) =
     (if dep \<in> set (tr_failed t) then Some (dep, True)
      else if dep \<in> set (tr_skipped t) then Some (dep, False)
      else dependencyBlocker t deps)"

lemma tracker_simps [simp]:
  "set (tr_failed (markFailed t n)) = Set.insert n (set (tr_failed t))"
  "tr_skipped (markFailed t n) = tr_skipped t"
  "set (tr_skipped (markSkipped t n)) = Set.insert n (set (tr_skipped t))"
  "tr_failed (markSkipped t n) = tr_failed t"
  "tr_failed newDepTracker = []" "tr_skipped newDepTracker = []"
  by (simp_all add: markFailed_def markSkipped_def newDepTracker_def)

lemma dependencyBlocker_None:
  "dependencyBlocker t deps = None \<longleftrightarrow> set deps \<inter> (set (tr_failed t) \<union> set (tr_skipped t)) = {}"
  by (induction deps) auto

lemma dependencyBlocker_Some:
  "dependencyBlocker t deps = Some (d, failed) \<Longrightarrow> d \<in> set deps \<and>
     (if failed then d \<in> set (tr_failed t) else d \<in> set (tr_skipped t) \<and> d \<notin> set (tr_failed t))"
  by (induction deps) (auto split: if_splits)

section \<open>Reported results (report.go)\<close>

datatype status = StatusPass | StatusFail | StatusSkip | StatusUnknown

record error_detail =
  ed_Kind :: string
  ed_Path :: string
  ed_Want :: "cval option"
  ed_Got :: "cval option"
  ed_Message :: gotext

definition detail :: "string \<Rightarrow> string \<Rightarrow> gotext \<Rightarrow> error_detail" where
  "detail kind path message =
     \<lparr>ed_Kind = kind, ed_Path = path, ed_Want = None, ed_Got = None, ed_Message = message\<rparr>"

text \<open>The request and response maps are kept as they are before \<^verbatim>\<open>diagnostic.FromCTYMap\<close> renders them.\<close>

record step_result =
  sr_File :: string
  sr_Scenario :: string
  sr_Name :: string
  sr_Provider :: string
  sr_Phase :: string
  sr_Status :: status
  sr_Request :: value_map
  sr_Response :: value_map
  sr_StatusCode :: int
  sr_Attempts :: int
  sr_Failure :: "error_detail option"
  sr_SkipReason :: "gotext option"

record artifact =
  ar_Type :: string
  ar_Path :: string

record scenario_result =
  cr_File :: string
  cr_Name :: string
  cr_Tags :: "string list"
  cr_Status :: status
  cr_Steps :: "step_result list"
  cr_Teardown :: "step_result list"
  cr_Failure :: "error_detail option"
  cr_TeardownFailures :: "error_detail option list"
  cr_SkipReason :: "gotext option"
  cr_Artifacts :: "artifact list"

record suite_result =
  ur_Seed :: int
  ur_InputPath :: string
  ur_Scenarios :: "scenario_result option list"
  ur_StalledScenarios :: "string list"
  ur_Teardown :: "step_result list"
  ur_TeardownFailures :: "error_detail option list"

text \<open>\<open>Failed\<close> dereferences every scenario result; the runner leaves a nil one only together with an
  error, which \<open>None\<close> (a panic) records here.\<close>

fun anyFailed :: "scenario_result option list \<Rightarrow> bool option" where
  "anyFailed [] = Some False"
| "anyFailed (None # rs) = None"
| "anyFailed (Some r # rs) = (if cr_Status r = StatusFail then Some True else anyFailed rs)"

definition Failed :: "suite_result \<Rightarrow> bool option" where
  "Failed r = (if 0 < length (ur_TeardownFailures r) then Some True else anyFailed (ur_Scenarios r))"

definition newStepResult :: "step \<Rightarrow> string \<Rightarrow> string \<Rightarrow> status \<Rightarrow> step_result" where
  "newStepResult s scenarioName phase st =
     \<lparr>sr_File = st_File s, sr_Scenario = scenarioName, sr_Name = st_Name s, sr_Provider = st_Provider s,
      sr_Phase = phase, sr_Status = st, sr_Request = Map.empty, sr_Response = Map.empty,
      sr_StatusCode = 0, sr_Attempts = 0, sr_Failure = None, sr_SkipReason = None\<rparr>"

definition failStep :: "step_result \<Rightarrow> error_detail \<Rightarrow> step_result" where
  "failStep r d = r\<lparr>sr_Status := StatusFail, sr_Failure := Some d\<rparr>"

lemma newStepResult_simps [simp]:
  "sr_Name (newStepResult s sc ph st) = st_Name s" "sr_Status (newStepResult s sc ph st) = st"
  "sr_Failure (newStepResult s sc ph st) = None" "sr_Phase (newStepResult s sc ph st) = ph"
  "sr_Attempts (newStepResult s sc ph st) = 0"
  by (simp_all add: newStepResult_def)

lemma failStep_simps [simp]:
  "sr_Name (failStep r d) = sr_Name r" "sr_Status (failStep r d) = StatusFail"
  "sr_Failure (failStep r d) = Some d" "sr_Phase (failStep r d) = sr_Phase r"
  by (simp_all add: failStep_def)

lemma anyFailed_Some:
  "None \<notin> set rs \<Longrightarrow> anyFailed rs = Some (\<exists>r. Some r \<in> set rs \<and> cr_Status r = StatusFail)"
proof (induction rs rule: anyFailed.induct)
  case (3 r rs)
  then show ?case by auto
qed auto

end
