(* ===== verification/Skip.thy ===== *)
theory Skip
  imports Runtime
begin

text \<open>
  Skip rules and \<^verbatim>\<open>when\<close> guards: \<^verbatim>\<open>internal/runtime/skip.go\<close> and \<open>evalWhen\<close> of
  \<^verbatim>\<open>internal/runtime/runner.go\<close>. A rule matches when every populated attribute holds; the first rule
  that triggers decides; an error in any evaluated rule is reported, never swallowed. A pair
  \<open>(holds, why)\<close> is an attribute's verdict with its automatic reason.
\<close>

definition skipScope :: "value_map \<Rightarrow> scenario_state \<Rightarrow> value_map \<Rightarrow> scope_data" where
  "skipScope config state input = \<lparr>sd_Config = config, sd_Result = GetResultMap state,
     sd_Request = Map.empty, sd_Response = Map.empty, sd_Input = input, sd_Vars = Map.empty\<rparr>"

section \<open>Attributes\<close>

fun stringItems :: "string \<Rightarrow> cval list \<Rightarrow> goerr + string list" where
  "stringItems attr [] = Inr []"
| "stringItems attr (v # vs) =
     (case v of
        VString s \<Rightarrow> bind_result (stringItems attr vs) (\<lambda>ss. Inr (s # ss))
      | _ \<Rightarrow> Inl (Errorf ''%s entries must be strings'' [AStr attr]))"

definition evalStringList ::
  "'w rt_env \<Rightarrow> 'w \<Rightarrow> evaluator \<Rightarrow> expression \<Rightarrow> scope_data \<Rightarrow> generate_meta \<Rightarrow> string \<Rightarrow> goerr + string list" where
  "evalStringList R w ev expr scope meta attr = (case Eval R w ev expr scope meta of
     Inl err \<Rightarrow> Inl (Errorf ''evaluate %s: %w'' [AStr attr, AErr err])
   | Inr value \<Rightarrow>
       if isNull value then Inl (Errorf ''%s must not be null'' [AStr attr])
       else if \<not> isListType (typeOf value) \<and> \<not> isTupleType (typeOf value) \<and> \<not> isSetType (typeOf value)
       then Inl (Errorf ''%s must be a list of strings, got %s'' [AStr attr, AVal value])
       else (case elements value of None \<Rightarrow> Inr [] | Some vs \<Rightarrow> stringItems attr vs))"

definition matchOS ::
  "'w rt_env \<Rightarrow> 'w \<Rightarrow> evaluator \<Rightarrow> expression \<Rightarrow> scope_data \<Rightarrow> generate_meta \<Rightarrow> goerr + bool \<times> gotext" where
  "matchOS R w ev expr scope meta =
     bind_result (evalStringList R w ev expr scope meta ''os'') (\<lambda>names.
       if rt_goos R \<in> set names
       then Inr (True, Sprintf ''host.os %q is in %v'' [AStr (rt_goos R), AStrs names])
       else Inr (False, Sprintf ''host.os %q is not in %v'' [AStr (rt_goos R), AStrs names]))"

definition matchArch ::
  "'w rt_env \<Rightarrow> 'w \<Rightarrow> evaluator \<Rightarrow> expression \<Rightarrow> scope_data \<Rightarrow> generate_meta \<Rightarrow> goerr + bool \<times> gotext" where
  "matchArch R w ev expr scope meta =
     bind_result (evalStringList R w ev expr scope meta ''arch'') (\<lambda>names.
       if rt_goarch R \<in> set names
       then Inr (True, Sprintf ''host.arch %q is in %v'' [AStr (rt_goarch R), AStrs names])
       else Inr (False, Sprintf ''host.arch %q is not in %v'' [AStr (rt_goarch R), AStrs names]))"

definition envMissing :: "'w rt_env \<Rightarrow> 'w \<Rightarrow> string \<Rightarrow> bool" where
  "envMissing R w name = (case rt_lookupEnv R w name of None \<Rightarrow> True | Some v \<Rightarrow> v = [])"

definition matchEnvSet ::
  "'w rt_env \<Rightarrow> 'w \<Rightarrow> evaluator \<Rightarrow> expression \<Rightarrow> scope_data \<Rightarrow> generate_meta \<Rightarrow> goerr + bool \<times> gotext" where
  "matchEnvSet R w ev expr scope meta =
     bind_result (evalStringList R w ev expr scope meta ''env_set'') (\<lambda>names.
       let missing = filter (envMissing R w) names in
       if missing = [] then Inr (True, Sprintf ''env vars %v are set'' [AStrs names])
       else Inr (False, Sprintf ''env vars not set: %s'' [AJoin '', '' (map (\<lambda>n. Sprintf ''%s'' [AStr n]) missing)]))"

fun envMismatches :: "'w rt_env \<Rightarrow> 'w \<Rightarrow> (string \<times> cval) list \<Rightarrow> goerr + gotext list" where
  "envMismatches R w [] = Inr []"
| "envMismatches R w ((name, expectedVal) # rest) =
     (case expectedVal of
        VString expected \<Rightarrow>
          bind_result (envMismatches R w rest) (\<lambda>more.
            case rt_lookupEnv R w name of
              None \<Rightarrow> Inr (Sprintf ''%s=<unset>(want %q)'' [AStr name, AStr expected] # more)
            | Some actual \<Rightarrow>
                if actual \<noteq> expected
                then Inr (Sprintf ''%s=%q(want %q)'' [AStr name, AStr actual, AStr expected] # more)
                else Inr more)
      | _ \<Rightarrow> Inl (Errorf ''env[%q] must be a string'' [AStr name]))"

definition matchEnv ::
  "'w rt_env \<Rightarrow> 'w \<Rightarrow> evaluator \<Rightarrow> expression \<Rightarrow> scope_data \<Rightarrow> generate_meta \<Rightarrow> goerr + bool \<times> gotext" where
  "matchEnv R w ev expr scope meta = (case Eval R w ev expr scope meta of
     Inl err \<Rightarrow> Inl (Errorf ''evaluate: %w'' [AErr err])
   | Inr value \<Rightarrow>
       if isNull value then Inr (False, Sprintf ''env map is null'' [])
       else if \<not> isObjectType (typeOf value) \<and> \<not> isMapType (typeOf value)
       then Inl (Errorf ''env must be an object/map of string to string'' [])
       else bind_result (envMismatches R w (attributes value)) (\<lambda>mismatches.
              if mismatches = [] then Inr (True, Sprintf ''env values match'' [])
              else Inr (False, Sprintf ''env mismatch: %s'' [AJoin '', '' mismatches])))"

definition matchCondition ::
  "'w rt_env \<Rightarrow> 'w \<Rightarrow> evaluator \<Rightarrow> expression \<Rightarrow> scope_data \<Rightarrow> generate_meta \<Rightarrow> goerr + bool \<times> gotext" where
  "matchCondition R w ev expr scope meta = (case Eval R w ev expr scope meta of
     Inl err \<Rightarrow> Inl (Errorf ''evaluate: %w'' [AErr err])
   | Inr value \<Rightarrow>
       if isNull value then Inr (False, Sprintf ''condition is null'' [])
       else (case value of
               VBool b \<Rightarrow> if b then Inr (True, Sprintf ''condition is true'' [])
                          else Inr (False, Sprintf ''condition is false'' [])
             | _ \<Rightarrow> Inl (Errorf ''condition must evaluate to bool, got %s'' [AVal value])))"

section \<open>Rules\<close>

text \<open>One \<open>if !rule.X.Empty()\<close> block of \<open>matchSkipAttributes\<close>.\<close>

definition attributeStep ::
  "string \<Rightarrow> expression \<Rightarrow> (goerr + bool \<times> gotext) \<Rightarrow> goerr + bool \<times> gotext list \<Rightarrow> goerr + bool \<times> gotext list" where
  "attributeStep format expr verdict acc = bind_result acc (\<lambda>(matched, reasons).
     if Empty expr then Inr (matched, reasons)
     else (case verdict of
             Inl err \<Rightarrow> Inl (Errorf format [AErr err])
           | Inr (ok, why) \<Rightarrow> Inr (matched \<and> ok, reasons @ [why])))"

definition matchSkipAttributes ::
  "'w rt_env \<Rightarrow> 'w \<Rightarrow> evaluator \<Rightarrow> skip_rule \<Rightarrow> scope_data \<Rightarrow> generate_meta \<Rightarrow> goerr + bool \<times> gotext list" where
  "matchSkipAttributes R w ev rule scope meta =
     attributeStep ''condition: %w'' (sk_Condition rule) (matchCondition R w ev (sk_Condition rule) scope meta)
     (attributeStep ''env: %w'' (sk_Env rule) (matchEnv R w ev (sk_Env rule) scope meta)
     (attributeStep ''env_set: %w'' (sk_EnvSet rule) (matchEnvSet R w ev (sk_EnvSet rule) scope meta)
     (attributeStep ''arch: %w'' (sk_Arch rule) (matchArch R w ev (sk_Arch rule) scope meta)
     (attributeStep ''os: %w'' (sk_OS rule) (matchOS R w ev (sk_OS rule) scope meta)
        (Inr (True, []))))))"

definition skipKindName :: "skip_kind \<Rightarrow> string" where
  "skipKindName k = (case k of SkipIf \<Rightarrow> ''skip_if'' | SkipUnless \<Rightarrow> ''skip_unless'')"

definition buildAutoReason :: "skip_kind \<Rightarrow> gotext list \<Rightarrow> gotext" where
  "buildAutoReason kind autoReasons =
     (if autoReasons = [] then Sprintf ''%s rule triggered'' [AStr (skipKindName kind)]
      else Sprintf ''%s: %s'' [AStr (skipKindName kind), AJoin ''; '' autoReasons])"

definition resolveSkipReason ::
  "'w rt_env \<Rightarrow> 'w \<Rightarrow> evaluator \<Rightarrow> skip_rule \<Rightarrow> scope_data \<Rightarrow> generate_meta \<Rightarrow> gotext list \<Rightarrow> goerr + gotext" where
  "resolveSkipReason R w ev rule scope meta autoReasons =
     (if Empty (sk_Reason rule) then Inr (buildAutoReason (sk_Kind rule) autoReasons)
      else (case Eval R w ev (sk_Reason rule) scope meta of
              Inl err \<Rightarrow> Inl (Errorf ''reason: %w'' [AErr err])
            | Inr value \<Rightarrow>
                if isNull value then Inr (buildAutoReason (sk_Kind rule) autoReasons)
                else (case value of
                        VString s \<Rightarrow> Inr (Sprintf ''%s'' [AStr s])
                      | _ \<Rightarrow> Inl (Errorf ''reason must evaluate to a string'' []))))"

text \<open>A decision is \<open>Some reason\<close> when the rule triggers.\<close>

definition evaluateSkipRule ::
  "'w rt_env \<Rightarrow> 'w \<Rightarrow> evaluator \<Rightarrow> skip_rule \<Rightarrow> scope_data \<Rightarrow> generate_meta \<Rightarrow> goerr + gotext option" where
  "evaluateSkipRule R w ev rule scope meta =
     bind_result (matchSkipAttributes R w ev rule scope meta) (\<lambda>(matched, reasons).
       let triggered = (case sk_Kind rule of SkipIf \<Rightarrow> matched | SkipUnless \<Rightarrow> \<not> matched) in
       if \<not> triggered then Inr None
       else bind_result (resolveSkipReason R w ev rule scope meta reasons) (\<lambda>reason. Inr (Some reason)))"

fun skipRulesLoop ::
  "'w rt_env \<Rightarrow> 'w \<Rightarrow> evaluator \<Rightarrow> nat \<Rightarrow> skip_rule list \<Rightarrow> scope_data \<Rightarrow> generate_meta \<Rightarrow> goerr + gotext option" where
  "skipRulesLoop R w ev i [] scope meta = Inr None"
| "skipRulesLoop R w ev i (rule # rules) scope meta =
     (case evaluateSkipRule R w ev rule scope meta of
        Inl err \<Rightarrow> Inl (Errorf ''rule[%d]: %w'' [AInt (int i), AErr err])
      | Inr (Some reason) \<Rightarrow> Inr (Some reason)
      | Inr None \<Rightarrow> skipRulesLoop R w ev (i + 1) rules scope meta)"

definition evaluateSkipRules ::
  "'w rt_env \<Rightarrow> 'w \<Rightarrow> evaluator \<Rightarrow> skip_rule list \<Rightarrow> scope_data \<Rightarrow> generate_meta \<Rightarrow> goerr + gotext option" where
  "evaluateSkipRules R w ev rules scope meta = skipRulesLoop R w ev 0 rules scope meta"

section \<open>Scenarios and steps\<close>

text \<open>The scenario result when the scenario is terminal, \<open>None\<close> when it must run.\<close>

definition applyScenarioSkip ::
  "'w rt_env \<Rightarrow> 'w \<Rightarrow> evaluator \<Rightarrow> scenario \<Rightarrow> scenario_result \<Rightarrow> scenario_state \<Rightarrow> value_map \<Rightarrow> scenario_result option" where
  "applyScenarioSkip R w ev sn sResult state config =
     (if length (sn_SkipRules sn) = 0 then None
      else (case evaluateSkipRules R w ev (sn_SkipRules sn) (skipScope config state Map.empty)
                   \<lparr>gm_Scenario = sn_Name sn, gm_Step = [], gm_ExprPath = ''scenario.skip''\<rparr> of
              Inl err \<Rightarrow> Some (sResult\<lparr>cr_Status := StatusFail, cr_Failure := Some (detail ''skip'' [] err)\<rparr>)
            | Inr (Some reason) \<Rightarrow> Some (sResult\<lparr>cr_Status := StatusSkip, cr_SkipReason := Some reason\<rparr>)
            | Inr None \<Rightarrow> None))"

definition evaluateStepSkip ::
  "'w rt_env \<Rightarrow> 'w \<Rightarrow> evaluator \<Rightarrow> step \<Rightarrow> string \<Rightarrow> scenario_state \<Rightarrow> value_map \<Rightarrow> step_result option" where
  "evaluateStepSkip R w ev s scenarioName state config =
     (if length (st_SkipRules s) = 0 then None
      else (case evaluateSkipRules R w ev (st_SkipRules s) (skipScope config state Map.empty)
                   \<lparr>gm_Scenario = scenarioName, gm_Step = st_Name s, gm_ExprPath = ''step.skip''\<rparr> of
              Inl err \<Rightarrow> Some ((newStepResult s scenarioName ''step'' StatusFail)
                                \<lparr>sr_Failure := Some (detail ''skip'' [] err)\<rparr>)
            | Inr None \<Rightarrow> None
            | Inr (Some reason) \<Rightarrow> Some ((newStepResult s scenarioName ''step'' StatusSkip)
                                \<lparr>sr_SkipReason := Some reason\<rparr>)))"

section \<open>When\<close>

text \<open>\<open>None\<close> is the unsupported call of \<^verbatim>\<open>value.True()\<close> on a null bool.\<close>

definition toBool :: "cval \<Rightarrow> (goerr + bool) option" where
  "toBool value =
     (if typeOf value \<noteq> TBool then Some (Inl (Errorf ''expected boolean value'' []))
      else (case value of VBool b \<Rightarrow> Some (Inr b) | _ \<Rightarrow> None))"

definition whenFalseReason :: gotext where
  "whenFalseReason = Sprintf ''when condition was false'' []"

text \<open>\<open>Inr None\<close> runs the step, \<open>Inr (Some reason)\<close> skips it; \<open>Inl ()\<close> stands for the call of
  \<^verbatim>\<open>value.True()\<close> on a null bool, which cty documents as unsupported.\<close>

definition evalWhen ::
  "'w rt_env \<Rightarrow> 'w \<Rightarrow> expression \<Rightarrow> evaluator \<Rightarrow> scope_data \<Rightarrow> string \<Rightarrow> string \<Rightarrow> string \<Rightarrow> unit + gotext option" where
  "evalWhen R w condition ev scope scenarioName stepName exprPath = (case condition of
     None \<Rightarrow> Inr None
   | Some e \<Rightarrow>
       (let meta = (\<lambda>path. \<lparr>gm_Scenario = scenarioName, gm_Step = stepName, gm_ExprPath = path\<rparr>) in
        case hx_call e of
          Some (''can'', [arg]) \<Rightarrow>
            (case Eval R w ev (Some arg) scope (meta (exprPath @ ''.can'')) of
               Inl err \<Rightarrow> Inr (Some whenFalseReason)
             | Inr v \<Rightarrow> Inr None)
        | _ \<Rightarrow>
            (case Eval R w ev condition scope (meta exprPath) of
               Inl err \<Rightarrow> Inr (Some (Sprintf ''when condition failed to evaluate: %s'' [AErr err]))
             | Inr value \<Rightarrow>
                 (case toBool value of
                    None \<Rightarrow> Inl ()
                  | Some (Inl err) \<Rightarrow> Inr (Some (Sprintf ''when condition failed to evaluate: %s'' [AErr err]))
                  | Some (Inr b) \<Rightarrow> if \<not> b then Inr (Some whenFalseReason) else Inr None))))"

end
