(* ===== verification/StepExec.thy ===== *)
theory StepExec
  imports Skip JsonMatch Loader
begin

text \<open>
  One step of \<^verbatim>\<open>internal/runtime/runner.go\<close>: its variables, its request, its assertions, its
  captures, the retries, and keyword steps, which run the steps of the keyword in a state of their
  own. A provider's \<^verbatim>\<open>Execute\<close> and the executors of the other files of the package
  (\<^verbatim>\<open>mobile.go\<close>, \<^verbatim>\<open>sql.go\<close>, \dots) are arguments: they may change the world and, on success, leave a
  result for the step. The runner's mutual recursion through keywords is cut by fuel, one unit per
  keyword call; \<open>keyword_depth_bounded\<close> shows that one more unit than there are keywords is enough.
\<close>

section \<open>Interfaces\<close>

record provider_output =
  po_StatusCode :: int
  po_Request :: "(string \<times> cval) list"
  po_Response :: "(string \<times> cval) list"
  po_RawBody :: "string option"

record provider_input =
  pi_Scenario :: string
  pi_Step :: step
  pi_Phase :: string
  pi_Attempt :: int
  pi_Config :: value_map
  pi_Request :: "(string \<times> cval) list"
  pi_Timeout :: int

text \<open>
  \<open>rn_special\<close> runs a step of a dedicated provider and returns the value it stores for the step, if
  any. \<open>rn_save\<close> resolves a path of a save block under the working directory, writes the bytes and
  returns the download object (\<^verbatim>\<open>save.go\<close>).
\<close>

record 'w runner_env =
  rn_rt :: "'w rt_env"
  rn_providers :: "string \<Rightarrow> (provider_input \<Rightarrow> 'w \<Rightarrow> (goerr + provider_output) \<times> 'w) option"
  rn_special :: "evaluator \<Rightarrow> string \<Rightarrow> value_map \<Rightarrow> scenario_state \<Rightarrow> value_map \<Rightarrow> step \<Rightarrow> string \<Rightarrow> int \<Rightarrow>
                 'w \<Rightarrow> step_result \<times> cval option \<times> 'w"
  rn_save :: "scenario_state \<Rightarrow> string \<Rightarrow> string \<Rightarrow> 'w \<Rightarrow> (goerr + cval) \<times> 'w"

text \<open>What is fixed while a scenario runs.\<close>

record 'w run_ctx =
  rc_env :: "'w runner_env"
  rc_suite :: suite
  rc_config :: value_map
  rc_scenario :: string

abbreviation eval_at :: "'w run_ctx \<Rightarrow> 'w \<Rightarrow> evaluator \<Rightarrow> expression \<Rightarrow> scope_data \<Rightarrow> string \<Rightarrow> string \<Rightarrow> goerr + cval" where
  "eval_at C w ev expr scope stepName path \<equiv> Eval (rn_rt (rc_env C)) w ev expr scope
     \<lparr>gm_Scenario = rc_scenario C, gm_Step = stepName, gm_ExprPath = path\<rparr>"

definition wrapErr :: "string \<Rightarrow> goerr + 'a \<Rightarrow> goerr + 'a" where
  "wrapErr format r = (case r of Inl err \<Rightarrow> Inl (Errorf format [AErr err]) | Inr x \<Rightarrow> Inr x)"

section \<open>Variables\<close>

text \<open>The failing variable's name with the error, or the scope with the variables mounted.\<close>

fun stepVarsLoop ::
  "'w run_ctx \<Rightarrow> 'w \<Rightarrow> evaluator \<Rightarrow> string \<Rightarrow> scope_data \<Rightarrow> value_map \<Rightarrow> step_var list \<Rightarrow> (string \<times> goerr) + value_map" where
  "stepVarsLoop C w ev stepName scope values [] = Inr values"
| "stepVarsLoop C w ev stepName scope values (v # vs) =
     (case eval_at C w ev (v_Expr v) (scope\<lparr>sd_Vars := values\<rparr>) stepName (''vars.'' @ v_Name v) of
        Inl err \<Rightarrow> Inl (v_Name v, Errorf ''evaluate vars.%s: %w'' [AStr (v_Name v), AErr err])
      | Inr val \<Rightarrow> stepVarsLoop C w ev stepName scope (values(v_Name v \<mapsto> val)) vs)"

definition evaluateStepVars ::
  "'w run_ctx \<Rightarrow> 'w \<Rightarrow> evaluator \<Rightarrow> scope_data \<Rightarrow> step \<Rightarrow> (string \<times> goerr) + scope_data" where
  "evaluateStepVars C w ev scope s =
     (if length (st_Vars s) = 0 then Inr scope
      else (case stepVarsLoop C w ev (st_Name s) scope Map.empty (st_Vars s) of
              Inl e \<Rightarrow> Inl e
            | Inr values \<Rightarrow> Inr (scope\<lparr>sd_Vars := values\<rparr>)))"

section \<open>Request\<close>

text \<open>\<open>setExpr\<close> and \<open>setBodyExpr\<close>: an unset expression leaves the values alone.\<close>

definition setExpr ::
  "'w run_ctx \<Rightarrow> 'w \<Rightarrow> evaluator \<Rightarrow> scope_data \<Rightarrow> step \<Rightarrow> string \<Rightarrow> string \<Rightarrow> string \<Rightarrow> expression \<Rightarrow>
   goerr + (string \<times> cval) list \<Rightarrow> goerr + (string \<times> cval) list" where
  "setExpr C w ev scope s pathPrefix format name expr acc = bind_result acc (\<lambda>values.
     if Empty expr then Inr values
     else (case eval_at C w ev expr scope (st_Name s) (pathPrefix @ name) of
             Inl err \<Rightarrow> Inl (Errorf format [AStr name, AErr err])
           | Inr value \<Rightarrow> Inr (AList.update name value values)))"

definition partExpr ::
  "'w run_ctx \<Rightarrow> 'w \<Rightarrow> evaluator \<Rightarrow> scope_data \<Rightarrow> step \<Rightarrow> nat \<Rightarrow> bool \<Rightarrow> string \<Rightarrow> expression \<Rightarrow>
   goerr + (string \<times> cval) list \<Rightarrow> goerr + (string \<times> cval) list" where
  "partExpr C w ev scope s index always name expr acc = bind_result acc (\<lambda>attrs.
     if \<not> always \<and> Empty expr then Inr attrs
     else (case eval_at C w ev expr scope (st_Name s)
                  (''request.body.multipart['' @ itoa index @ ''].'' @ name) of
             Inl err \<Rightarrow> Inl (Errorf ''part %d %s: %w'' [AInt (int index), AStr name, AErr err])
           | Inr val \<Rightarrow> Inr (AList.update name val attrs)))"

definition evaluateMultipartFilePart ::
  "'w run_ctx \<Rightarrow> 'w \<Rightarrow> evaluator \<Rightarrow> scope_data \<Rightarrow> step \<Rightarrow> nat \<Rightarrow> multipart_file_part \<Rightarrow> goerr + cval" where
  "evaluateMultipartFilePart C w ev scope s index file =
     bind_result
       (partExpr C w ev scope s index False ''content_type'' (mf_ContentType file)
       (partExpr C w ev scope s index False ''filename'' (mf_Filename file)
       (partExpr C w ev scope s index False ''content'' (mf_Content file)
       (partExpr C w ev scope s index False ''path'' (mf_Path file)
       (partExpr C w ev scope s index False ''field'' (mf_Field file)
          (Inr [(''kind'', VString ''file'')]))))))
       (\<lambda>attrs. Inr (objectVal attrs))"

definition evaluateMultipartFieldPart ::
  "'w run_ctx \<Rightarrow> 'w \<Rightarrow> evaluator \<Rightarrow> scope_data \<Rightarrow> step \<Rightarrow> nat \<Rightarrow> multipart_field_part \<Rightarrow> goerr + cval" where
  "evaluateMultipartFieldPart C w ev scope s index field =
     bind_result
       (partExpr C w ev scope s index True ''value'' (mp_Value field)
       (partExpr C w ev scope s index True ''name'' (mp_Name field)
          (Inr [(''kind'', VString ''field'')])))
       (\<lambda>attrs. Inr (objectVal attrs))"

fun multipartLoop ::
  "'w run_ctx \<Rightarrow> 'w \<Rightarrow> evaluator \<Rightarrow> scope_data \<Rightarrow> step \<Rightarrow> nat \<Rightarrow> multipart_part list \<Rightarrow> goerr + cval list" where
  "multipartLoop C w ev scope s i [] = Inr []"
| "multipartLoop C w ev scope s i (part # parts) =
     (case part_File part of
        Some file \<Rightarrow>
          bind_result (evaluateMultipartFilePart C w ev scope s i file) (\<lambda>v.
            bind_result (multipartLoop C w ev scope s (i + 1) parts) (\<lambda>vs. Inr (v # vs)))
      | None \<Rightarrow>
          (case part_Field part of
             Some field \<Rightarrow>
               bind_result (evaluateMultipartFieldPart C w ev scope s i field) (\<lambda>v.
                 bind_result (multipartLoop C w ev scope s (i + 1) parts) (\<lambda>vs. Inr (v # vs)))
           | None \<Rightarrow> multipartLoop C w ev scope s (i + 1) parts))"

definition evaluateMultipartParts ::
  "'w run_ctx \<Rightarrow> 'w \<Rightarrow> evaluator \<Rightarrow> scope_data \<Rightarrow> step \<Rightarrow> multipart_part list \<Rightarrow> goerr + cval" where
  "evaluateMultipartParts C w ev scope s parts =
     bind_result (multipartLoop C w ev scope s 0 parts) (\<lambda>vs. Inr (VTuple vs))"

definition evaluateRequestBody ::
  "'w run_ctx \<Rightarrow> 'w \<Rightarrow> evaluator \<Rightarrow> scope_data \<Rightarrow> step \<Rightarrow> request \<Rightarrow> (string \<times> cval) list \<Rightarrow> goerr + (string \<times> cval) list" where
  "evaluateRequestBody C w ev scope s rq values = (case rq_Body rq of
     None \<Rightarrow> Inr values
   | Some b \<Rightarrow>
       bind_result
         (setExpr C w ev scope s ''request.body.'' ''%s: %w'' ''raw'' (rb_Raw b)
         (setExpr C w ev scope s ''request.body.'' ''%s: %w'' ''form'' (rb_Form b)
         (setExpr C w ev scope s ''request.body.'' ''%s: %w'' ''json'' (rb_JSON b)
            (Inr []))))
         (\<lambda>body.
            bind_result
              (case rb_Multipart b of
                 None \<Rightarrow> Inr body
               | Some parts \<Rightarrow>
                   bind_result (wrapErr ''multipart: %w'' (evaluateMultipartParts C w ev scope s parts))
                     (\<lambda>v. Inr (AList.update ''multipart'' v body)))
              (\<lambda>body. if 0 < length body then Inr (AList.update ''body'' (objectVal body) values)
                      else Inr values)))"

definition validateBasicAuthString :: "string \<Rightarrow> cval \<Rightarrow> goerr option" where
  "validateBasicAuthString name value =
     (if isNull value then Some (Errorf ''basic.%s must not be null'' [AStr name])
      else if typeOf value \<noteq> TString
      then Some (Errorf ''basic.%s must be a string, got %s'' [AStr name, AVal value])
      else None)"

definition evaluateRequestAuth ::
  "'w run_ctx \<Rightarrow> 'w \<Rightarrow> evaluator \<Rightarrow> scope_data \<Rightarrow> step \<Rightarrow> request \<Rightarrow> (string \<times> cval) list \<Rightarrow> goerr + (string \<times> cval) list" where
  "evaluateRequestAuth C w ev scope s rq values = (case rq_Auth rq of
     None \<Rightarrow> Inr values
   | Some auth \<Rightarrow>
       (case ra_Basic auth of
          None \<Rightarrow> Inr values
        | Some basic \<Rightarrow>
            bind_result (wrapErr ''basic.username: %w''
                (eval_at C w ev (ba_Username basic) scope (st_Name s) ''request.auth.basic.username''))
              (\<lambda>username. case validateBasicAuthString ''username'' username of
                 Some err \<Rightarrow> Inl err
               | None \<Rightarrow>
                   bind_result (wrapErr ''basic.password: %w''
                       (eval_at C w ev (ba_Password basic) scope (st_Name s) ''request.auth.basic.password''))
                     (\<lambda>password. case validateBasicAuthString ''password'' password of
                        Some err \<Rightarrow> Inl err
                      | None \<Rightarrow> Inr (AList.update ''auth''
                          (objectVal [(''basic'', objectVal [(''username'', username), (''password'', password)])])
                          values)))))"

text \<open>\<^verbatim>\<open>big.Float.Int64\<close> truncates towards zero and clamps; the product by a millisecond wraps.\<close>

definition int64_clamp :: "int \<Rightarrow> int" where
  "int64_clamp n = max (- (2 ^ 63)) (min (2 ^ 63 - 1) n)"

definition int64_wrap :: "int \<Rightarrow> int" where
  "int64_wrap n = (n + 2 ^ 63) mod 2 ^ 64 - 2 ^ 63"

definition rat_trunc :: "rat \<Rightarrow> int" where
  "rat_trunc q = (if 0 \<le> q then \<lfloor>q\<rfloor> else \<lceil>q\<rceil>)"

text \<open>A non-null value, as both callers have checked.\<close>

definition toDuration :: "go_env \<Rightarrow> cval \<Rightarrow> goerr + int" where
  "toDuration E value = (case value of
     VNumber n \<Rightarrow> Inr (int64_wrap (int64_clamp (rat_trunc n) * 1000000))
   | VString s \<Rightarrow> (case parse_duration E s of
        None \<Rightarrow> Inl (Errorf ''invalid duration %q: %w'' [AStr s])
      | Some d \<Rightarrow> Inr d)
   | _ \<Rightarrow> Inl (Errorf ''timeout must be number(milliseconds) or duration string'' []))"

definition evaluateRequest ::
  "'w run_ctx \<Rightarrow> 'w \<Rightarrow> evaluator \<Rightarrow> scope_data \<Rightarrow> step \<Rightarrow> goerr + ((string \<times> cval) list \<times> int)" where
  "evaluateRequest C w ev scope s = (case st_Request s of
     None \<Rightarrow> Inl (Errorf ''step %q is missing request block'' [AStr (st_Name s)])
   | Some rq \<Rightarrow>
       (let set = (\<lambda>name expr acc. wrapErr (''request.'' @ name @ '': %w'')
                     (setExpr C w ev scope s ''request.'' ''evaluate %s: %w'' name expr (Inr acc))) in
        bind_result (set ''method'' (rq_Method rq) []) (\<lambda>values.
        bind_result (set ''url'' (rq_URL rq) values) (\<lambda>values.
        bind_result (set ''headers'' (rq_Headers rq) values) (\<lambda>values.
        bind_result (set ''query'' (rq_Query rq) values) (\<lambda>values.
        bind_result (wrapErr ''request.body: %w'' (evaluateRequestBody C w ev scope s rq values)) (\<lambda>values.
        bind_result (wrapErr ''request.auth: %w'' (evaluateRequestAuth C w ev scope s rq values)) (\<lambda>values.
          if Empty (rq_Timeout rq) then Inr (values, 0)
          else bind_result (wrapErr ''request.timeout: %w''
                  (eval_at C w ev (rq_Timeout rq) scope (st_Name s) ''request.timeout''))
               (\<lambda>value. if isNull value then Inr (values, 0)
                        else bind_result (toDuration (rt_go (rn_rt (rc_env C))) value)
                               (\<lambda>timeout. Inr (values, timeout)))))))))))"

section \<open>Assertions\<close>

text \<open>A failed expectation: an error of evaluation, or a mismatch wrapped in a message.\<close>

datatype expect_error = ExpectErr goerr | ExpectMismatch string mismatch

text \<open>\<open>Ret None\<close> is the nil error.\<close>

type_synonym verdict = "expect_error option run"

definition assertOutcome :: "string \<Rightarrow> outcome \<Rightarrow> verdict" where
  "assertOutcome format out = (case out of
     Pass \<Rightarrow> Ret None
   | Fail m \<Rightarrow> Ret (Some (ExpectMismatch format m))
   | Panic \<Rightarrow> Panicked)"

text \<open>A key the response lacks gives \<^verbatim>\<open>cty.NilVal\<close>, which reads as a null.\<close>

definition responseField :: "provider_output \<Rightarrow> string \<Rightarrow> cval" where
  "responseField out name = (case map_of (po_Response out) name of Some v \<Rightarrow> v | None \<Rightarrow> VNull TDynamic)"

definition assertExpectedStatus ::
  "'w run_ctx \<Rightarrow> 'w \<Rightarrow> evaluator \<Rightarrow> scope_data \<Rightarrow> step \<Rightarrow> expect_block \<Rightarrow> provider_output \<Rightarrow> verdict" where
  "assertExpectedStatus C w ev scope s ex out =
     (if Empty (ex_Status ex) then Ret None
      else (case eval_at C w ev (ex_Status ex) scope (st_Name s) ''expect.status'' of
              Inl err \<Rightarrow> Ret (Some (ExpectErr (Errorf ''expect.status: %w'' [AErr err])))
            | Inr expectedStatus \<Rightarrow>
                if isNull expectedStatus then Ret None
                else assertOutcome ''assert status: %w''
                       (matchJSON (rt_go (rn_rt (rc_env C))) expectedStatus
                          (VNumber (of_int (po_StatusCode out))) True ''status'')))"

text \<open>\<open>HasAttribute\<close> panics on a value that is not an object, \<open>GetAttr\<close> on a null one.\<close>

definition actualHeader :: "cval \<Rightarrow> string \<Rightarrow> cval option" where
  "actualHeader headers key = (case headers of
     VObject kvs \<Rightarrow> (case map_of kvs key of None \<Rightarrow> Some (VNull TString) | Some v \<Rightarrow> Some v)
   | VNull (TObject attrs) \<Rightarrow> if key \<in> fst ` set attrs then None else Some (VNull TString)
   | _ \<Rightarrow> None)"

fun headersLoop :: "go_env \<Rightarrow> (string \<times> cval) list \<Rightarrow> cval \<Rightarrow> verdict" where
  "headersLoop E [] actualHeaders = Ret None"
| "headersLoop E ((key, expected) # rest) actualHeaders =
     (case actualHeader actualHeaders key of
        None \<Rightarrow> Panicked
      | Some actual \<Rightarrow>
          (case matchJSON E expected actual True (''headers.'' @ key) of
             Pass \<Rightarrow> headersLoop E rest actualHeaders
           | out \<Rightarrow> assertOutcome (''assert header '' @ key @ '': %w'') out))"

definition assertExpectedHeaders ::
  "'w run_ctx \<Rightarrow> 'w \<Rightarrow> evaluator \<Rightarrow> scope_data \<Rightarrow> step \<Rightarrow> expect_block \<Rightarrow> provider_output \<Rightarrow> verdict" where
  "assertExpectedHeaders C w ev scope s ex out =
     (if Empty (ex_Headers ex) then Ret None
      else (case eval_at C w ev (ex_Headers ex) scope (st_Name s) ''expect.headers'' of
              Inl err \<Rightarrow> Ret (Some (ExpectErr (Errorf ''expect.headers: %w'' [AErr err])))
            | Inr expectedHeaders \<Rightarrow>
                if isNull expectedHeaders then Ret None
                else if \<not> isObjectType (typeOf expectedHeaders) \<and> \<not> isMapType (typeOf expectedHeaders)
                then Ret (Some (ExpectErr (Errorf ''expect.headers must be object'' [])))
                else headersLoop (rt_go (rn_rt (rc_env C))) (attributes expectedHeaders)
                       (responseField out ''headers'')))"

text \<open>The strict flag: an error, or the flag; \<open>Panicked\<close> on a null bool.\<close>

definition evalStrictExpect ::
  "'w run_ctx \<Rightarrow> 'w \<Rightarrow> evaluator \<Rightarrow> scope_data \<Rightarrow> step \<Rightarrow> expect_block \<Rightarrow> goerr + bool" where
  "evalStrictExpect C w ev scope s ex =
     (if Empty (ex_Strict ex) then Inr False
      else (case eval_at C w ev (ex_Strict ex) scope (st_Name s) ''expect.strict'' of
              Inl err \<Rightarrow> Inl (Errorf ''expect.strict: %w'' [AErr err])
            | Inr strictValue \<Rightarrow>
                if isNull strictValue then Inr False
                else (case toBool strictValue of
                        Some (Inr b) \<Rightarrow> Inr b
                      | Some (Inl err) \<Rightarrow> Inl (Errorf ''expect.strict value: %w'' [AErr err])
                      | None \<Rightarrow> Inr False)))"

definition assertExpectedJSON ::
  "'w run_ctx \<Rightarrow> 'w \<Rightarrow> evaluator \<Rightarrow> scope_data \<Rightarrow> step \<Rightarrow> expect_block \<Rightarrow> provider_output \<Rightarrow> verdict" where
  "assertExpectedJSON C w ev scope s ex out =
     (if Empty (ex_JSON ex) then Ret None
      else (case eval_at C w ev (ex_JSON ex) scope (st_Name s) ''expect.json'' of
              Inl err \<Rightarrow> Ret (Some (ExpectErr (Errorf ''expect.json: %w'' [AErr err])))
            | Inr expectedJSON \<Rightarrow>
                if isNull expectedJSON then Ret None
                else (case evalStrictExpect C w ev scope s ex of
                        Inl err \<Rightarrow> Ret (Some (ExpectErr err))
                      | Inr strict \<Rightarrow> assertOutcome ''assert json body: %w''
                          (matchJSON (rt_go (rn_rt (rc_env C))) expectedJSON
                             (responseField out ''json'') strict ''$''))))"

definition assertExpectedBody ::
  "'w run_ctx \<Rightarrow> 'w \<Rightarrow> evaluator \<Rightarrow> scope_data \<Rightarrow> step \<Rightarrow> expect_block \<Rightarrow> provider_output \<Rightarrow> verdict" where
  "assertExpectedBody C w ev scope s ex out =
     (if Empty (ex_Body ex) then Ret None
      else (case eval_at C w ev (ex_Body ex) scope (st_Name s) ''expect.body'' of
              Inl err \<Rightarrow> Ret (Some (ExpectErr (Errorf ''expect.body: %w'' [AErr err])))
            | Inr expectedBody \<Rightarrow>
                if isNull expectedBody then Ret None
                else assertOutcome ''assert body: %w''
                       (matchJSON (rt_go (rn_rt (rc_env C))) expectedBody
                          (responseField out ''body'') True ''body'')))"

fun shortcutsLoop ::
  "'w run_ctx \<Rightarrow> 'w \<Rightarrow> evaluator \<Rightarrow> scope_data \<Rightarrow> step \<Rightarrow> expect_shortcut list \<Rightarrow> provider_output \<Rightarrow> verdict" where
  "shortcutsLoop C w ev scope s [] out = Ret None"
| "shortcutsLoop C w ev scope s (sc # scs) out =
     (case eval_at C w ev (sc_Expected sc) scope (st_Name s) (''expect.'' @ sc_Name sc) of
        Inl err \<Rightarrow> Ret (Some (ExpectErr (Errorf ''expect.%s: %w'' [AStr (sc_Name sc), AErr err])))
      | Inr expected \<Rightarrow>
          if isNull expected then shortcutsLoop C w ev scope s scs out
          else (let actual = (case map_of (po_Response out) (sc_Name sc) of
                                None \<Rightarrow> VNull TNumber | Some v \<Rightarrow> v) in
                case matchJSON (rt_go (rn_rt (rc_env C))) expected actual False (sc_Name sc) of
                  Pass \<Rightarrow> shortcutsLoop C w ev scope s scs out
                | out' \<Rightarrow> assertOutcome (''assert '' @ sc_Name sc @ '': %w'') out'))"

definition assertExpectedShortcuts ::
  "'w run_ctx \<Rightarrow> 'w \<Rightarrow> evaluator \<Rightarrow> scope_data \<Rightarrow> step \<Rightarrow> expect_block \<Rightarrow> provider_output \<Rightarrow> verdict" where
  "assertExpectedShortcuts C w ev scope s ex out = shortcutsLoop C w ev scope s (ex_Shortcuts ex) out"

text \<open>Run the next check when the previous one returned nil.\<close>

definition and_then :: "verdict \<Rightarrow> verdict \<Rightarrow> verdict" where
  "and_then v next_check = bind_run v (\<lambda>e. case e of None \<Rightarrow> next_check | Some err \<Rightarrow> Ret (Some err))"

definition evaluateExpect ::
  "'w run_ctx \<Rightarrow> 'w \<Rightarrow> evaluator \<Rightarrow> scope_data \<Rightarrow> step \<Rightarrow> provider_output \<Rightarrow> verdict" where
  "evaluateExpect C w ev scope s out = (case st_Expect s of
     None \<Rightarrow> Ret None
   | Some ex \<Rightarrow>
       and_then (assertExpectedStatus C w ev scope s ex out)
      (and_then (assertExpectedHeaders C w ev scope s ex out)
      (and_then (assertExpectedJSON C w ev scope s ex out)
      (and_then (assertExpectedBody C w ev scope s ex out)
         (assertExpectedShortcuts C w ev scope s ex out)))))"

definition toErrorDetail :: "expect_error \<Rightarrow> error_detail" where
  "toErrorDetail e = (case e of
     ExpectErr err \<Rightarrow> detail ''assertion'' [] err
   | ExpectMismatch format m \<Rightarrow>
       (case m_message m of
          WantGot want got \<Rightarrow>
            \<lparr>ed_Kind = ''assertion'', ed_Path = m_path m, ed_Want = Some want, ed_Got = Some got,
             ed_Message = Sprintf ''assertion failed at %s'' [AStr (m_path m)]\<rparr>
        | Msg text args \<Rightarrow> detail ''assertion'' (m_path m) (Sprintf text (map (\<lambda>a. case a of
            FStr x \<Rightarrow> AStr x | FVal v \<Rightarrow> AVal v | FFloat q \<Rightarrow> AVal (VNumber q) | FInt n \<Rightarrow> AInt (int n)) args))))"

section \<open>Save\<close>

definition evalSaveBodyPath ::
  "'w run_ctx \<Rightarrow> 'w \<Rightarrow> evaluator \<Rightarrow> scope_data \<Rightarrow> step \<Rightarrow> save_block \<Rightarrow> error_detail + string" where
  "evalSaveBodyPath C w ev scope s sv = (case eval_at C w ev (sv_Body sv) scope (st_Name s) ''save.body'' of
     Inl err \<Rightarrow> Inl (detail ''save'' ''save.body'' err)
   | Inr value \<Rightarrow>
       (case value of
          VString path \<Rightarrow> Inr path
        | _ \<Rightarrow> Inl (detail ''save'' ''save.body'' (Errorf ''save.body must evaluate to a string path'' []))))"

text \<open>The output with its download object, or the failure detail.\<close>

definition applySaveAndDownload ::
  "'w run_ctx \<Rightarrow> 'w \<Rightarrow> evaluator \<Rightarrow> scope_data \<Rightarrow> scenario_state \<Rightarrow> step \<Rightarrow> save_block \<Rightarrow> provider_output \<Rightarrow>
   (error_detail + provider_output) \<times> 'w" where
  "applySaveAndDownload C w ev scope state s sv out =
     (case (case po_RawBody out of
              Some raw \<Rightarrow> Some raw
            | None \<Rightarrow> (case map_of (po_Response out) ''body'' of
                Some (VString b) \<Rightarrow> Some b
              | _ \<Rightarrow> None)) of
        None \<Rightarrow> (Inl (detail ''save'' ''save.body'' (Errorf ''save requires an HTTP response body'' [])), w)
      | Some data \<Rightarrow>
          (case evalSaveBodyPath C w ev scope s sv of
             Inl d \<Rightarrow> (Inl d, w)
           | Inr rawPath \<Rightarrow>
               (case rn_save (rc_env C) state rawPath data w of
                  (Inl err, w') \<Rightarrow> (Inl (detail ''save'' ''save.body'' err), w')
                | (Inr download, w') \<Rightarrow>
                    (Inr (out\<lparr>po_Response := AList.update ''download'' download (po_Response out)\<rparr>), w'))))"

section \<open>The generic step\<close>

fun captureLoop ::
  "'w run_ctx \<Rightarrow> 'w \<Rightarrow> evaluator \<Rightarrow> scope_data \<Rightarrow> step \<Rightarrow> (string \<times> expression) list \<Rightarrow> (string \<times> cval) list \<Rightarrow>
   error_detail + (string \<times> cval) list" where
  "captureLoop C w ev scope s [] resultValue = Inr resultValue"
| "captureLoop C w ev scope s ((key, expr) # rest) resultValue =
     (case eval_at C w ev expr scope (st_Name s) (''capture.'' @ key) of
        Inl err \<Rightarrow> Inl (detail ''capture'' key err)
      | Inr v \<Rightarrow> captureLoop C w ev scope s rest (AList.update key v resultValue))"

definition stepScope :: "value_map \<Rightarrow> scenario_state \<Rightarrow> value_map \<Rightarrow> scope_data" where
  "stepScope config state input = \<lparr>sd_Config = config, sd_Result = GetResultMap state,
     sd_Request = Map.empty, sd_Response = Map.empty, sd_Input = input, sd_Vars = Map.empty\<rparr>"

type_synonym 'w step_run = "(step_result \<times> scenario_state \<times> 'w) run"

text \<open>From the provider's output on: save, expect, capture, and the step's result.\<close>

definition finishGenericStep ::
  "'w run_ctx \<Rightarrow> evaluator \<Rightarrow> scope_data \<Rightarrow> step \<Rightarrow> step_result \<Rightarrow> scenario_state \<Rightarrow> provider_output \<Rightarrow> 'w \<Rightarrow> 'w step_run" where
  "finishGenericStep C ev scope s report state out w =
     (let report = report\<lparr>sr_StatusCode := po_StatusCode out, sr_Request := map_of (po_Request out),
                          sr_Response := map_of (po_Response out)\<rparr>;
          scope = scope\<lparr>sd_Request := map_of (po_Request out), sd_Response := map_of (po_Response out)\<rparr>;
          (saved, w) = (case st_Save s of
             None \<Rightarrow> (Inr out, w)
           | Some sv \<Rightarrow> applySaveAndDownload C w ev scope state s sv out)
      in case saved of
           Inl d \<Rightarrow> Ret (failStep report d, state, w)
         | Inr out \<Rightarrow>
             (let report = report\<lparr>sr_Response := map_of (po_Response out)\<rparr>;
                  scope = scope\<lparr>sd_Response := map_of (po_Response out)\<rparr>
              in bind_run (evaluateExpect C w ev scope s out) (\<lambda>e. case e of
                   Some err \<Rightarrow> Ret (failStep report (toErrorDetail err), state, w)
                 | None \<Rightarrow>
                     (case captureLoop C w ev scope s (st_Capture s)
                             [(''request'', objectVal (po_Request out)), (''response'', objectVal (po_Response out))] of
                        Inl d \<Rightarrow> Ret (failStep report d, state, w)
                      | Inr resultValue \<Rightarrow>
                          Ret (report, SetStepResult state (st_Name s) (objectVal resultValue), w)))))"

definition runGenericStep ::
  "'w run_ctx \<Rightarrow> evaluator \<Rightarrow> value_map \<Rightarrow> step \<Rightarrow> string \<Rightarrow> int \<Rightarrow> step_result \<Rightarrow> scenario_state \<Rightarrow> 'w \<Rightarrow> 'w step_run" where
  "runGenericStep C ev input s phase attempt report state w =
     (case evaluateStepVars C w ev (stepScope (rc_config C) state input) s of
        Inl (failedVar, err) \<Rightarrow> Ret (failStep report (detail ''vars'' failedVar err), state, w)
      | Inr scope \<Rightarrow>
          (case evaluateRequest C w ev scope s of
             Inl err \<Rightarrow> Ret (failStep report (detail ''eval'' [] err), state, w)
           | Inr (requestValues, timeout) \<Rightarrow>
               (case rn_providers (rc_env C) (st_Provider s) of
                  None \<Rightarrow> Ret (failStep report (detail ''provider'' []
                            (Errorf ''unknown provider %q'' [AStr (st_Provider s)])), state, w)
                | Some execute \<Rightarrow>
                    (case execute \<lparr>pi_Scenario = rc_scenario C, pi_Step = s, pi_Phase = phase,
                             pi_Attempt = attempt, pi_Config = rc_config C, pi_Request = requestValues,
                             pi_Timeout = timeout\<rparr> w of
                       (Inl err, w') \<Rightarrow> Ret (failStep report (detail ''provider'' [] err), state, w')
                     | (Inr out, w') \<Rightarrow> finishGenericStep C ev scope s report state out w'))))"

section \<open>Keyword steps\<close>

definition toValueMap :: "cval \<Rightarrow> string \<Rightarrow> goerr + (string \<times> cval) list" where
  "toValueMap value field =
     (if isNull value then Inr []
      else if \<not> isMapType (typeOf value) \<and> \<not> isObjectType (typeOf value)
      then Inl (Errorf ''%s must be an object'' [AStr field])
      else Inr (attributes value))"

text \<open>The keyword's name and inputs; \<open>Panicked\<close> where the name is a null string.\<close>

definition evaluateKeywordCall ::
  "'w run_ctx \<Rightarrow> 'w \<Rightarrow> evaluator \<Rightarrow> scope_data \<Rightarrow> step \<Rightarrow> keyword_call \<Rightarrow> (goerr + string \<times> (string \<times> cval) list) run" where
  "evaluateKeywordCall C w ev scope s call =
     (case eval_at C w ev (kc_Name call) scope (st_Name s) ''keyword.name'' of
        Inl err \<Rightarrow> Ret (Inl (Errorf ''keyword.name: %w'' [AErr err]))
      | Inr nameValue \<Rightarrow>
          if typeOf nameValue \<noteq> TString then Ret (Inl (Errorf ''keyword.name must be a string'' []))
          else (case asString nameValue of
                  None \<Rightarrow> Panicked
                | Some keywordName \<Rightarrow>
                    if Empty (kc_Inputs call) then Ret (Inr (keywordName, []))
                    else (case eval_at C w ev (kc_Inputs call) scope (st_Name s) ''keyword.inputs'' of
                            Inl err \<Rightarrow> Ret (Inl (Errorf ''keyword.inputs: %w'' [AErr err]))
                          | Inr v \<Rightarrow> (case toValueMap v ''keyword.inputs'' of
                              Inl err \<Rightarrow> Ret (Inl err)
                            | Inr inputs \<Rightarrow> Ret (Inr (keywordName, inputs))))))"

definition validateKeywordInputs :: "keyword_def \<Rightarrow> (string \<times> cval) list \<Rightarrow> goerr option" where
  "validateKeywordInputs kw inputs =
     (case List.find (\<lambda>name. map_of inputs name = None) (map fst (kw_Inputs kw)) of
        None \<Rightarrow> None
      | Some name \<Rightarrow> Some (Errorf ''keyword %q missing required input %q'' [AStr (kw_Name kw), AStr name]))"

text \<open>The first keyword step whose name the caller already uses.\<close>

definition newKeywordState :: "value_map \<Rightarrow> step list \<Rightarrow> scenario_state \<Rightarrow> goerr + scenario_state" where
  "newKeywordState outerResults steps parent =
     (case List.find (\<lambda>s. outerResults (st_Name s) \<noteq> None) steps of
        Some s \<Rightarrow> Inl (Errorf ''keyword step %q collides with existing scenario step name'' [AStr (st_Name s)])
      | None \<Rightarrow>
          (let fresh = NewScenarioState (map st_Name steps) (ss_seed parent) (ss_workdir parent) (ss_artifactsDir parent)
           in Inr (fresh\<lparr>ss_results := ss_results fresh ++ outerResults\<rparr>)))"

text \<open>Runs the steps of a keyword with \<open>sub\<close>; the failure that stops it, if any.\<close>

fun executeKeywordSteps ::
  "'w run_ctx \<Rightarrow> (step \<Rightarrow> scenario_state \<Rightarrow> 'w \<Rightarrow> 'w step_run) \<Rightarrow> evaluator \<Rightarrow> value_map \<Rightarrow> keyword_def \<Rightarrow>
   step list \<Rightarrow> scenario_state \<Rightarrow> 'w \<Rightarrow> (error_detail option \<times> scenario_state \<times> 'w) run" where
  "executeKeywordSteps C sub ev input kw [] state w = Ret (None, state, w)"
| "executeKeywordSteps C sub ev input kw (s # ss) state w =
     (case evalWhen (rn_rt (rc_env C)) w (st_When s) ev (skipScope (rc_config C) state input)
             (rc_scenario C) (st_Name s) ''step.when'' of
        Inl _ \<Rightarrow> Panicked
      | Inr (Some reason) \<Rightarrow> executeKeywordSteps C sub ev input kw ss state w
      | Inr None \<Rightarrow>
          bind_run (sub s state w) (\<lambda>(r, state, w).
            if sr_Status r = StatusFail
            then (let message = (case sr_Failure r of
                                   None \<Rightarrow> Sprintf ''keyword step failed'' []
                                 | Some d \<Rightarrow> ed_Message d) in
                  Ret (Some (detail ''keyword'' (st_Name s) (Sprintf ''keyword %q step %q failed: %s''
                         [AStr (kw_Name kw), AStr (st_Name s), AErr message])), state, w))
            else executeKeywordSteps C sub ev input kw ss state w))"

fun outputsLoop ::
  "'w run_ctx \<Rightarrow> 'w \<Rightarrow> evaluator \<Rightarrow> scope_data \<Rightarrow> string \<Rightarrow> keyword_def \<Rightarrow> string list \<Rightarrow> goerr + (string \<times> cval) list" where
  "outputsLoop C w ev scope callingStepName kw [] = Inr []"
| "outputsLoop C w ev scope callingStepName kw (key # keys) =
     (case eval_at C w ev (case map_of (kw_Outputs kw) key of None \<Rightarrow> None | Some e \<Rightarrow> e) scope callingStepName
             (''keyword.'' @ kw_Name kw @ ''.outputs.'' @ key) of
        Inl err \<Rightarrow> Inl (Errorf ''keyword %q outputs.%s: %w'' [AStr (kw_Name kw), AStr key, AErr err])
      | Inr v \<Rightarrow> bind_result (outputsLoop C w ev scope callingStepName kw keys) (\<lambda>vs. Inr ((key, v) # vs)))"

definition evaluateKeywordOutputs ::
  "'w run_ctx \<Rightarrow> 'w \<Rightarrow> evaluator \<Rightarrow> string \<Rightarrow> scenario_state \<Rightarrow> value_map \<Rightarrow> keyword_def \<Rightarrow> goerr + (string \<times> cval) list" where
  "evaluateKeywordOutputs C w ev callingStepName state input kw =
     (if length (kw_Outputs kw) = 0 then Inr []
      else outputsLoop C w ev (stepScope (rc_config C) state input) callingStepName kw
             (sort (map fst (kw_Outputs kw))))"

text \<open>The end of a keyword step: the failure of its steps, or its outputs stored for the calling step.\<close>

definition finishKeyword ::
  "'w run_ctx \<Rightarrow> evaluator \<Rightarrow> value_map \<Rightarrow> step \<Rightarrow> keyword_def \<Rightarrow> step_result \<Rightarrow> scenario_state \<Rightarrow>
   error_detail option \<Rightarrow> scenario_state \<Rightarrow> 'w \<Rightarrow> step_result \<times> scenario_state \<times> 'w" where
  "finishKeyword C ev inputs s kw report state failure keywordState w = (case failure of
     Some d \<Rightarrow> (failStep report d, state, w)
   | None \<Rightarrow>
       (case evaluateKeywordOutputs C w ev (st_Name s) keywordState inputs kw of
          Inl err \<Rightarrow> (failStep report (detail ''keyword'' [] err), state, w)
        | Inr outputs \<Rightarrow>
            (report\<lparr>sr_Response := map_of [(''outputs'', objectVal outputs)]\<rparr>,
             SetStepResult state (st_Name s) (objectVal outputs), w)))"

text \<open>From the validated inputs on; \<open>report\<close> already holds the request summary.\<close>

definition runKeyword ::
  "'w run_ctx \<Rightarrow> (evaluator \<Rightarrow> value_map \<Rightarrow> step \<Rightarrow> scenario_state \<Rightarrow> 'w \<Rightarrow> 'w step_run) \<Rightarrow>
   evaluator \<Rightarrow> value_map \<Rightarrow> step \<Rightarrow> keyword_def \<Rightarrow> step_result \<Rightarrow> scenario_state \<Rightarrow> 'w \<Rightarrow> 'w step_run" where
  "runKeyword C sub ev inputs s kw report state w =
     (case newKeywordState (GetResultMap state) (kw_Steps kw) state of
        Inl err \<Rightarrow> Ret (failStep report (detail ''keyword'' [] err), state, w)
      | Inr keywordState \<Rightarrow>
          (let ev' = PushSeedScope ev (st_Name s) in
           case ValidateStepOrder (kw_Steps kw) (\<lambda>n. GetResultMap state n \<noteq> None) of
             Some err \<Rightarrow> Ret (failStep report (detail ''keyword'' []
               (Errorf ''keyword %q graph error: %v'' [AStr (kw_Name kw), AErr (order_message err)])), state, w)
           | None \<Rightarrow>
               bind_run (executeKeywordSteps C (sub ev' inputs) ev' inputs kw (kw_Steps kw) keywordState w)
                 (\<lambda>(failure, keywordState, w).
                    Ret (finishKeyword C ev' inputs s kw report state failure keywordState w))))"

text \<open>Lookup of the keyword and validation of its inputs; the reports that follow carry the summary.\<close>

definition callKeyword ::
  "'w run_ctx \<Rightarrow> (evaluator \<Rightarrow> value_map \<Rightarrow> step \<Rightarrow> scenario_state \<Rightarrow> 'w \<Rightarrow> 'w step_run) \<Rightarrow>
   evaluator \<Rightarrow> string \<Rightarrow> (string \<times> cval) list \<Rightarrow> step \<Rightarrow> step_result \<Rightarrow> scenario_state \<Rightarrow> 'w \<Rightarrow> 'w step_run" where
  "callKeyword C sub ev callName callInputs s report state w =
     (let report = report\<lparr>sr_Request := map_of [(''name'', VString callName), (''inputs'', objectVal callInputs)]\<rparr> in
      case map_of (su_Keywords (rc_suite C)) callName of
        None \<Rightarrow> Ret (failStep report (detail ''keyword'' [] (Errorf ''unknown keyword %q'' [AStr callName])), state, w)
      | Some kw \<Rightarrow>
          (case validateKeywordInputs kw callInputs of
             Some err \<Rightarrow> Ret (failStep report (detail ''keyword'' [] err), state, w)
           | None \<Rightarrow> runKeyword C sub ev (map_of callInputs) s kw report state w))"

definition executeKeywordStep ::
  "'w run_ctx \<Rightarrow> (evaluator \<Rightarrow> value_map \<Rightarrow> step \<Rightarrow> scenario_state \<Rightarrow> 'w \<Rightarrow> 'w step_run) \<Rightarrow>
   evaluator \<Rightarrow> value_map \<Rightarrow> step \<Rightarrow> step_result \<Rightarrow> scenario_state \<Rightarrow> 'w \<Rightarrow> 'w step_run" where
  "executeKeywordStep C sub ev input s report state w = (case st_Keyword s of
     None \<Rightarrow> Ret (failStep report (detail ''keyword'' []
               (Errorf ''keyword step is missing keyword call configuration'' [])), state, w)
   | Some call \<Rightarrow>
       (case evaluateStepVars C w ev (stepScope (rc_config C) state input) s of
          Inl (failedVar, err) \<Rightarrow> Ret (failStep report (detail ''vars'' failedVar err), state, w)
        | Inr scope \<Rightarrow>
            bind_run (evaluateKeywordCall C w ev scope s call) (\<lambda>c. case c of
              Inl err \<Rightarrow> Ret (failStep report (detail ''eval'' [] err), state, w)
            | Inr (callName, callInputs) \<Rightarrow> callKeyword C sub ev callName callInputs s report state w)))"

section \<open>Attempts and retries\<close>

definition specialProviders :: "string list" where
  "specialProviders = [''mobile'', ''sql'', ''mail'', ''browser'', ''load'', ''webhook'', ''file'', ''exec'', ''rpc'']"

text \<open>\<open>executeStepAttempt\<close> with \<open>dispatchProviderStep\<close>: \<open>sub\<close> runs the steps of a keyword.\<close>

definition attemptStep ::
  "'w run_ctx \<Rightarrow> (evaluator \<Rightarrow> value_map \<Rightarrow> step \<Rightarrow> scenario_state \<Rightarrow> 'w \<Rightarrow> 'w step_run) \<Rightarrow>
   evaluator \<Rightarrow> value_map \<Rightarrow> step \<Rightarrow> string \<Rightarrow> int \<Rightarrow> scenario_state \<Rightarrow> 'w \<Rightarrow> 'w step_run" where
  "attemptStep C sub ev input s phase attempt state w =
     (let report = newStepResult s (rc_scenario C) phase StatusPass in
      if st_Provider s = ''keyword'' then executeKeywordStep C sub ev input s report state w
      else if st_Provider s \<in> set specialProviders
      then (case rn_special (rc_env C) ev (rc_scenario C) (rc_config C) state input s phase attempt w of
              (r, stored, w') \<Rightarrow>
                Ret (r, (case stored of None \<Rightarrow> state | Some v \<Rightarrow> SetStepResult state (st_Name s) v), w'))
      else runGenericStep C ev input s phase attempt report state w)"

definition retryOptions :: "step \<Rightarrow> retry" where
  "retryOptions s = (case st_Retry s of
     None \<Rightarrow> \<lparr>rt_Attempts = 1, rt_Interval = 0\<rparr>
   | Some r \<Rightarrow> if rt_Attempts r < 1 then r\<lparr>rt_Attempts := 1\<rparr> else r)"

text \<open>The loop of \<open>executeStepInPhase\<close> from \<open>attempt\<close> on; it never falls through, because the last
  attempt returns.\<close>

function retryLoop ::
  "('w rt_env) \<Rightarrow> (int \<Rightarrow> scenario_state \<Rightarrow> 'w \<Rightarrow> 'w step_run) \<Rightarrow> retry \<Rightarrow> step_result \<Rightarrow> int \<Rightarrow> scenario_state \<Rightarrow> 'w \<Rightarrow> 'w step_run" where
  "retryLoop R run_attempt retry fallback attempt state w =
     (if attempt \<le> rt_Attempts retry
      then bind_run (run_attempt attempt state w) (\<lambda>(r, state, w).
             let r = r\<lparr>sr_Attempts := attempt\<rparr> in
             if sr_Status r = StatusPass \<or> attempt = rt_Attempts retry then Ret (r, state, w)
             else if 0 < rt_Interval retry
             then (case rt_sleep R (rt_Interval retry) w of
                     (slept, w) \<Rightarrow>
                       if \<not> slept
                       then Ret (failStep r (detail ''runtime'' []
                              (Sprintf ''step retry interrupted by context cancellation'' [])), state, w)
                       else retryLoop R run_attempt retry r (attempt + 1) state w)
             else retryLoop R run_attempt retry r (attempt + 1) state w)
      else Ret (fallback, state, w))"
  by pat_completeness auto
termination
  by (relation "measure (\<lambda>(R, run_attempt, retry, fallback, attempt, state, w). nat (rt_Attempts retry + 1 - attempt))")
    auto

declare retryLoop.simps [simp del]

definition retryStep ::
  "'w run_ctx \<Rightarrow> (int \<Rightarrow> scenario_state \<Rightarrow> 'w \<Rightarrow> 'w step_run) \<Rightarrow> step \<Rightarrow> string \<Rightarrow> scenario_state \<Rightarrow> 'w \<Rightarrow> 'w step_run" where
  "retryStep C run_attempt s phase state w =
     (let retry = retryOptions s in
      retryLoop (rn_rt (rc_env C)) run_attempt retry
        ((failStep (newStepResult s (rc_scenario C) phase StatusFail)
            (detail ''runtime'' [] (Sprintf ''step was not executed'' [])))\<lparr>sr_Attempts := rt_Attempts retry\<rparr>)
        1 state w)"

text \<open>\<open>executeStepInPhase\<close> with \<open>n\<close> levels of keyword calls.\<close>

primrec executeStepFuel ::
  "nat \<Rightarrow> 'w run_ctx \<Rightarrow> string \<Rightarrow> evaluator \<Rightarrow> value_map \<Rightarrow> step \<Rightarrow> scenario_state \<Rightarrow> 'w \<Rightarrow> 'w step_run" where
  "executeStepFuel 0 C phase ev input s state w = OutOfFuel"
| "executeStepFuel (Suc n) C phase ev input s state w =
     retryStep C (attemptStep C (executeStepFuel n C ''step'') ev input s phase) s phase state w"

definition executeStepInPhase ::
  "'w run_ctx \<Rightarrow> string \<Rightarrow> evaluator \<Rightarrow> value_map \<Rightarrow> step \<Rightarrow> scenario_state \<Rightarrow> 'w \<Rightarrow> 'w step_run" where
  "executeStepInPhase C phase ev input s state w =
     executeStepFuel (length (su_Keywords (rc_suite C)) + 1) C phase ev input s state w"

section \<open>A concrete runner\<close>

text \<open>
  For examples: the world counts provider calls, expressions evaluate to their text, and the http
  provider answers 200 with an empty body.
\<close>

definition demo_rt :: "nat rt_env" where
  "demo_rt = \<lparr>rt_go = exact_env, rt_value = \<lambda>w ev e scope meta. Inr (VString (hx_text e)),
     rt_goos = ''linux'', rt_goarch = ''amd64'', rt_lookupEnv = \<lambda>w name. None, rt_sleep = \<lambda>d w. (True, w)\<rparr>"

definition demo_output :: provider_output where
  "demo_output = \<lparr>po_StatusCode = 200, po_Request = [], po_Response = [(''body'', VString [])], po_RawBody = None\<rparr>"

definition demo_runner :: "nat runner_env" where
  "demo_runner = \<lparr>rn_rt = demo_rt,
     rn_providers = \<lambda>p. if p = ''http'' then Some (\<lambda>i w. (Inr demo_output, w + 1)) else None,
     rn_special = \<lambda>ev sc config st input s phase a w. (newStepResult s sc phase StatusPass, None, w + 1),
     rn_save = \<lambda>st path data w. (Inr (VString path), w)\<rparr>"

definition demo_suite :: suite where
  "demo_suite = emptySuite [''demo.tales'']"

definition demo_ctx :: "nat run_ctx" where
  "demo_ctx = \<lparr>rc_env = demo_runner, rc_suite = demo_suite, rc_config = Map.empty, rc_scenario = ''demo''\<rparr>"

definition demo_evaluator :: evaluator where
  "demo_evaluator = \<lparr>ev_seedScope = [], ev_scopeVars = Map.empty\<rparr>"

definition demo_state :: scenario_state where
  "demo_state = NewScenarioState [''login''] 1 ''/w'' ''/w/artifacts''"

definition demo_step :: step where
  "demo_step = (blank_step ''http'' ''login'')\<lparr>st_Request := Some blank_request\<rparr>"

lemmas demo_defs = demo_rt_def demo_output_def demo_runner_def demo_suite_def demo_ctx_def
  demo_evaluator_def demo_state_def demo_step_def blank_step_def blank_request_def emptySuite_def

end
