(* ===== verification/StepProps.thy ===== *)
theory StepProps
  imports StepExec
begin

text \<open>
  What holds of a single step: the trace of its retries, what it leaves in the scenario state, the
  bound on nested keyword calls, and the panic of a header assertion.
\<close>

section \<open>States only gain results\<close>

lemma dom_SetStepResult [simp]: "dom (ss_results (SetStepResult st n v)) = Set.insert n (dom (ss_results st))"
  by (auto simp: SetStepResult_def)

text \<open>What a step of the generic path or a keyword step leaves: its result when it passes, nothing when it
  fails.\<close>

definition step_leaves :: "step \<Rightarrow> scenario_state \<Rightarrow> step_result \<Rightarrow> scenario_state \<Rightarrow> bool" where
  "step_leaves s st r st' \<longleftrightarrow>
     (sr_Status r = StatusPass \<and> (\<exists>v. st' = SetStepResult st (st_Name s) v))
     \<or> (sr_Status r = StatusFail \<and> sr_Failure r \<noteq> None \<and> st' = st)"

lemma step_leaves_fail [simp]: "step_leaves s st (failStep r d) st"
  by (simp add: step_leaves_def)

lemma step_leaves_pass: "sr_Status r = StatusPass \<Longrightarrow> step_leaves s st r (SetStepResult st (st_Name s) v)"
  by (auto simp: step_leaves_def)

lemma finishGenericStep_cases:
  assumes "finishGenericStep C ev scope s report st out w = Ret (r, st', w')" "sr_Status report = StatusPass"
  shows "step_leaves s st r st'"
  using assms
  by (auto simp: finishGenericStep_def Let_def step_leaves_pass split: prod.splits sum.splits option.splits)

lemma runGenericStep_cases:
  assumes "runGenericStep C ev input s phase attempt report st w = Ret (r, st', w')" "sr_Status report = StatusPass"
  shows "step_leaves s st r st'"
  using assms
  by (auto simp: runGenericStep_def split: prod.splits sum.splits option.splits
      dest: finishGenericStep_cases)

lemma finishKeyword_cases:
  "finishKeyword C ev inputs s kw report st failure ks w = (r, st', w') \<Longrightarrow> sr_Status report = StatusPass \<Longrightarrow>
     step_leaves s st r st'"
  by (auto simp: finishKeyword_def step_leaves_pass split: sum.splits option.splits)

lemma runKeyword_cases:
  "runKeyword C sub ev inputs s kw report st w = Ret (r, st', w') \<Longrightarrow> sr_Status report = StatusPass \<Longrightarrow>
     step_leaves s st r st'"
  by (auto simp: runKeyword_def Let_def split: sum.splits option.splits prod.splits dest: finishKeyword_cases)

lemma callKeyword_cases:
  "callKeyword C sub ev name inputs s report st w = Ret (r, st', w') \<Longrightarrow> sr_Status report = StatusPass \<Longrightarrow>
     step_leaves s st r st'"
  by (auto simp: callKeyword_def Let_def split: option.splits dest: runKeyword_cases)

lemma executeKeywordStep_cases:
  "executeKeywordStep C sub ev input s report st w = Ret (r, st', w') \<Longrightarrow> sr_Status report = StatusPass \<Longrightarrow>
     step_leaves s st r st'"
proof (cases "st_Keyword s")
  case (Some call)
  assume l: "executeKeywordStep C sub ev input s report st w = Ret (r, st', w')" "sr_Status report = StatusPass"
  show ?thesis
  proof (cases "evaluateStepVars C w ev (stepScope (rc_config C) st input) s")
    case (Inl e)
    with l Some show ?thesis by (cases e) (auto simp: executeKeywordStep_def)
  next
    case (Inr scope)
    with l Some obtain c where c: "evaluateKeywordCall C w ev scope s call = Ret c"
      by (auto simp: executeKeywordStep_def)
    with l Some Inr show ?thesis
      by (cases c) (auto simp: executeKeywordStep_def dest: callKeyword_cases)
  qed
qed (auto simp: executeKeywordStep_def)

lemma step_leaves_grows: "step_leaves s st r st' \<Longrightarrow> dom (ss_results st) \<subseteq> dom (ss_results st')"
  unfolding step_leaves_def by (metis dom_SetStepResult order_refl subset_insertI)

definition attempt_grows :: "(int \<Rightarrow> scenario_state \<Rightarrow> 'w \<Rightarrow> 'w step_run) \<Rightarrow> bool" where
  "attempt_grows f \<longleftrightarrow> (\<forall>a st w r st' w'. f a st w = Ret (r, st', w') \<longrightarrow> dom (ss_results st) \<subseteq> dom (ss_results st'))"

lemma attempt_growsD:
  "attempt_grows f \<Longrightarrow> f a st w = Ret (r, st', w') \<Longrightarrow> dom (ss_results st) \<subseteq> dom (ss_results st')"
  unfolding attempt_grows_def by blast

lemma attemptStep_grows: "attempt_grows (attemptStep C sub ev input s phase)"
  unfolding attempt_grows_def
proof (intro allI impI)
  fix a st w r st' w'
  assume "attemptStep C sub ev input s phase a st w = Ret (r, st', w')"
  then have "step_leaves s st r st' \<or> st' = st \<or> (\<exists>v. st' = SetStepResult st (st_Name s) v)"
    by (auto simp: attemptStep_def Let_def split: if_splits prod.splits option.splits
        dest: runGenericStep_cases executeKeywordStep_cases)
  then show "dom (ss_results st) \<subseteq> dom (ss_results st')"
    using step_leaves_grows by (metis dom_SetStepResult order_refl subset_insertI)
qed

text \<open>One round of the retry loop.\<close>

lemma retryLoop_round:
  assumes "retryLoop R f retry fb a st w = Ret (r, st', w')" and "a \<le> rt_Attempts retry"
  obtains (stop) r0 where "f a st w = Ret (r0, st', w')" "r = r0\<lparr>sr_Attempts := a\<rparr>"
      "sr_Status r0 = StatusPass \<or> a = rt_Attempts retry"
  | (interrupted) r0 w0 where "f a st w = Ret (r0, st', w0)" "sr_Status r0 \<noteq> StatusPass" "a < rt_Attempts retry"
      "0 < rt_Interval retry" "rt_sleep R (rt_Interval retry) w0 = (False, w')"
      "r = failStep (r0\<lparr>sr_Attempts := a\<rparr>)
             (detail ''runtime'' [] (Sprintf ''step retry interrupted by context cancellation'' []))"
  | (again) r0 st0 w0 w1 where "f a st w = Ret (r0, st0, w0)" "sr_Status r0 \<noteq> StatusPass" "a < rt_Attempts retry"
      "w1 = (if 0 < rt_Interval retry then snd (rt_sleep R (rt_Interval retry) w0) else w0)"
      "0 < rt_Interval retry \<longrightarrow> fst (rt_sleep R (rt_Interval retry) w0)"
      "retryLoop R f retry (r0\<lparr>sr_Attempts := a\<rparr>) (a + 1) st0 w1 = Ret (r, st', w')"
proof -
  from assms obtain r0 st0 w0 where f: "f a st w = Ret (r0, st0, w0)"
    by (subst (asm) retryLoop.simps) auto
  obtain slept w1 where sl: "rt_sleep R (rt_Interval retry) w0 = (slept, w1)" by fastforce
  have e: "(if sr_Status r0 = StatusPass \<or> a = rt_Attempts retry then Ret (r0\<lparr>sr_Attempts := a\<rparr>, st0, w0)
     else if 0 < rt_Interval retry
     then (if \<not> slept then Ret (failStep (r0\<lparr>sr_Attempts := a\<rparr>) (detail ''runtime'' []
              (Sprintf ''step retry interrupted by context cancellation'' [])), st0, w1)
           else retryLoop R f retry (r0\<lparr>sr_Attempts := a\<rparr>) (a + 1) st0 w1)
     else retryLoop R f retry (r0\<lparr>sr_Attempts := a\<rparr>) (a + 1) st0 w0) = Ret (r, st', w')"
    using assms f sl by (subst (asm) retryLoop.simps) (auto simp: Let_def)
  show thesis
  proof (cases "sr_Status r0 = StatusPass \<or> a = rt_Attempts retry")
    case True
    with e f stop show thesis by auto
  next
    case False
    with assms(2) have a: "a < rt_Attempts retry" "sr_Status r0 \<noteq> StatusPass" by auto
    show thesis
    proof (cases "0 < rt_Interval retry \<and> \<not> slept")
      case True
      with e a f sl interrupted show thesis by auto
    next
      case False
      with e a f sl show thesis
        by (intro again [of r0 st0 w0 "if 0 < rt_Interval retry then w1 else w0"]) (auto split: if_splits)
    qed
  qed
qed

lemma retryLoop_grows:
  "attempt_grows f \<Longrightarrow> retryLoop R f retry fb a st w = Ret (r, st', w') \<Longrightarrow>
     dom (ss_results st) \<subseteq> dom (ss_results st')"
proof (induction "nat (rt_Attempts retry + 1 - a)" arbitrary: fb a st w rule: less_induct)
  case less
  show ?case
  proof (cases "a \<le> rt_Attempts retry")
    case False
    with less.prems show ?thesis by (subst (asm) retryLoop.simps) auto
  next
    case True
    from less.prems(2) True show ?thesis
    proof (cases rule: retryLoop_round)
      case (stop r0)
      with attempt_growsD [OF less.prems(1)] show ?thesis by blast
    next
      case (interrupted r0 w0)
      with attempt_growsD [OF less.prems(1)] show ?thesis by blast
    next
      case (again r0 st0 w0 w1)
      then have "dom (ss_results st0) \<subseteq> dom (ss_results st')"
        using less.hyps [of "a + 1"] less.prems(1) by simp
      with attempt_growsD [OF less.prems(1) again(1)] show ?thesis by blast
    qed
  qed
qed

lemma executeStepFuel_grows:
  "executeStepFuel n C phase ev input s st w = Ret (r, st', w') \<Longrightarrow> dom (ss_results st) \<subseteq> dom (ss_results st')"
proof (cases n)
  case (Suc k)
  assume "executeStepFuel n C phase ev input s st w = Ret (r, st', w')"
  with Suc show ?thesis
    by (simp add: retryStep_def Let_def) (rule retryLoop_grows [OF attemptStep_grows])
qed simp

section \<open>Nested keyword calls\<close>

text \<open>
  A keyword whose steps are not all fresh cannot be called, and inside a call its names are taken: the
  keywords that can still be called, and that have steps, get fewer at every level.
\<close>

definition callable :: "suite \<Rightarrow> scenario_state \<Rightarrow> keyword_def set" where
  "callable su st = {kw \<in> snd ` set (su_Keywords su).
     kw_Steps kw \<noteq> [] \<and> (\<forall>s \<in> set (kw_Steps kw). ss_results st (st_Name s) = None)}"

lemma finite_callable [simp]: "finite (callable su st)"
  by (simp add: callable_def)

lemma callable_antimono: "dom (ss_results st) \<subseteq> dom (ss_results st') \<Longrightarrow> callable su st' \<subseteq> callable su st"
  by (auto simp: callable_def domIff subset_iff)

lemma card_callable_le: "card (callable su st) \<le> length (su_Keywords su)"
proof -
  have "card (callable su st) \<le> card (snd ` set (su_Keywords su))"
    by (rule card_mono) (auto simp: callable_def)
  also have "\<dots> \<le> card (set (su_Keywords su))" by (rule card_image_le) simp
  also have "\<dots> \<le> length (su_Keywords su)" by (rule card_length)
  finally show ?thesis .
qed

lemma newKeywordState_Inr:
  assumes "newKeywordState (ss_results st) steps st = Inr ks"
  shows "\<forall>s \<in> set steps. ss_results st (st_Name s) = None"
    and "dom (ss_results ks) = dom (ss_results st) \<union> st_Name ` set steps"
proof -
  from assms have f: "List.find (\<lambda>s. ss_results st (st_Name s) \<noteq> None) steps = None"
    and ks: "ss_results ks = ss_results (NewScenarioState (map st_Name steps) (ss_seed st) (ss_workdir st) (ss_artifactsDir st)) ++ ss_results st"
    by (auto simp: newKeywordState_def Let_def split: option.splits)
  from f show "\<forall>s \<in> set steps. ss_results st (st_Name s) = None" by (auto simp: find_None_iff)
  have "dom (ss_results (NewScenarioState (map st_Name steps) a b c)) = st_Name ` set steps" for a b c
    by (auto simp: NewScenarioState_def dom_def)
  with ks show "dom (ss_results ks) = dom (ss_results st) \<union> st_Name ` set steps" by auto
qed

lemma callable_shrinks:
  assumes "newKeywordState (ss_results st) (kw_Steps kw) st = Inr ks"
    and "kw \<in> snd ` set (su_Keywords su)" and "kw_Steps kw \<noteq> []"
  shows "card (callable su ks) < card (callable su st)"
proof (rule psubset_card_mono)
  have "kw \<in> callable su st" using assms newKeywordState_Inr(1) [OF assms(1)] by (simp add: callable_def)
  moreover have "kw \<notin> callable su ks"
  proof
    assume "kw \<in> callable su ks"
    then have "ss_results ks (st_Name (hd (kw_Steps kw))) = None"
      using assms(3) by (simp add: callable_def)
    moreover have "st_Name (hd (kw_Steps kw)) \<in> dom (ss_results ks)"
      using newKeywordState_Inr(2) [OF assms(1)] assms(3) by simp
    ultimately show False by (simp add: domIff)
  qed
  moreover have "callable su ks \<subseteq> callable su st"
    using newKeywordState_Inr(2) [OF assms(1)] by (intro callable_antimono) simp
  ultimately show "callable su ks \<subset> callable su st" by blast
qed simp

lemma assertOutcome_fuel [simp]: "assertOutcome f out \<noteq> OutOfFuel"
  by (cases out) (auto simp: assertOutcome_def)

lemma headersLoop_fuel [simp]: "headersLoop E kvs a \<noteq> OutOfFuel"
  by (induction E kvs a rule: headersLoop.induct) (auto split: option.splits outcome.splits)

lemma shortcutsLoop_fuel [simp]: "shortcutsLoop C w ev scope s scs out \<noteq> OutOfFuel"
  by (induction scs) (auto simp: Let_def split: sum.splits option.splits outcome.splits)

lemma and_then_fuel: "a \<noteq> OutOfFuel \<Longrightarrow> b \<noteq> OutOfFuel \<Longrightarrow> and_then a b \<noteq> OutOfFuel"
  by (auto simp: and_then_def split: option.splits)

lemma evaluateExpect_fuel [simp]: "evaluateExpect C w ev scope s out \<noteq> OutOfFuel"
proof -
  have "assertExpectedStatus C w ev scope s ex out \<noteq> OutOfFuel"
    "assertExpectedHeaders C w ev scope s ex out \<noteq> OutOfFuel"
    "assertExpectedJSON C w ev scope s ex out \<noteq> OutOfFuel"
    "assertExpectedBody C w ev scope s ex out \<noteq> OutOfFuel"
    "assertExpectedShortcuts C w ev scope s ex out \<noteq> OutOfFuel" for ex
    by (auto simp: assertExpectedStatus_def assertExpectedHeaders_def assertExpectedJSON_def
        assertExpectedBody_def assertExpectedShortcuts_def split: sum.splits)
  then show ?thesis
    by (cases "st_Expect s") (simp_all add: evaluateExpect_def and_then_fuel)
qed

lemma finishGenericStep_fuel [simp]: "finishGenericStep C ev scope s report st out w \<noteq> OutOfFuel"
  by (auto simp: finishGenericStep_def Let_def split: prod.splits sum.splits option.splits)

lemma runGenericStep_fuel [simp]: "runGenericStep C ev input s phase a report st w \<noteq> OutOfFuel"
  by (auto simp: runGenericStep_def split: prod.splits sum.splits option.splits)

lemma evaluateKeywordCall_fuel [simp]: "evaluateKeywordCall C w ev scope s call \<noteq> OutOfFuel"
  by (auto simp: evaluateKeywordCall_def split: sum.splits option.splits)

lemma executeKeywordSteps_fuel:
  assumes "\<And>s st w. dom (ss_results ks) \<subseteq> dom (ss_results st) \<Longrightarrow> sub s st w \<noteq> OutOfFuel"
    and "\<And>s st w r st' w'. sub s st w = Ret (r, st', w') \<Longrightarrow> dom (ss_results st) \<subseteq> dom (ss_results st')"
    and "dom (ss_results ks) \<subseteq> dom (ss_results st)"
  shows "executeKeywordSteps C sub ev input kw ss st w \<noteq> OutOfFuel"
  using assms(3)
proof (induction ss arbitrary: st w)
  case (Cons s ss)
  show ?case
  proof (cases "evalWhen (rn_rt (rc_env C)) w (st_When s) ev (skipScope (rc_config C) st input)
             (rc_scenario C) (st_Name s) ''step.when''")
    case (Inr reason)
    show ?thesis
    proof (cases reason)
      case None
      have "executeKeywordSteps C sub ev input kw ss st1 w1 \<noteq> OutOfFuel"
        if "sub s st w = Ret (r1, st1, w1)" for r1 st1 w1
        using Cons.IH [of st1 w1] Cons.prems assms(2) [OF that] by blast
      with Inr None assms(1) [OF Cons.prems] show ?thesis by (auto simp: Let_def split: if_splits)
    qed (use Inr Cons in simp)
  qed simp
qed simp

lemma retryLoop_fuel:
  assumes "attempt_grows f"
  shows "(\<And>a' st' w'. dom (ss_results st) \<subseteq> dom (ss_results st') \<Longrightarrow> f a' st' w' \<noteq> OutOfFuel) \<Longrightarrow>
     retryLoop R f retry fb a st w \<noteq> OutOfFuel"
proof (induction "nat (rt_Attempts retry + 1 - a)" arbitrary: fb a st w rule: less_induct)
  case less
  show ?case
  proof (cases "a \<le> rt_Attempts retry")
    case True
    have "retryLoop R f retry fb' (a + 1) st1 w2 \<noteq> OutOfFuel"
      if "f a st w = Ret (r1, st1, w1)" for fb' r1 st1 w1 w2
      using less.hyps [of "a + 1" st1 fb' w2] True less.prems attempt_growsD [OF assms that] by auto
    with less.prems [of st a w] True show ?thesis
      by (subst retryLoop.simps) (auto simp: Let_def split: if_splits prod.splits)
  qed (subst retryLoop.simps, simp)
qed

lemma attemptStep_fuel:
  assumes "\<And>ev input s st' w. card (callable (rc_suite C) st') < card (callable (rc_suite C) st) \<Longrightarrow>
             sub ev input s st' w \<noteq> OutOfFuel"
    and "\<And>ev input s st w r st' w'. sub ev input s st w = Ret (r, st', w') \<Longrightarrow> dom (ss_results st) \<subseteq> dom (ss_results st')"
  shows "attemptStep C sub ev input s phase a st w \<noteq> OutOfFuel"
proof -
  have "runKeyword C sub ev inputs s kw report st w \<noteq> OutOfFuel"
    if kw: "kw \<in> snd ` set (su_Keywords (rc_suite C))" for inputs kw report
  proof (cases "newKeywordState (GetResultMap st) (kw_Steps kw) st")
    case (Inr ks)
    then have ks: "newKeywordState (ss_results st) (kw_Steps kw) st = Inr ks" by (simp add: GetResultMap_def)
    have "executeKeywordSteps C (sub ev' inputs) ev' inputs kw (kw_Steps kw) ks w \<noteq> OutOfFuel" for ev'
    proof (cases "kw_Steps kw = []")
      case False
      have "sub ev' inputs s st' w \<noteq> OutOfFuel" if "dom (ss_results ks) \<subseteq> dom (ss_results st')" for s st' w
        using assms(1) callable_shrinks [OF ks kw False] callable_antimono [OF that, of "rc_suite C"]
        by (meson card_mono finite_callable order_le_less_trans)
      then show ?thesis using assms(2) by (intro executeKeywordSteps_fuel [where ks = ks]) auto
    qed simp
    then show ?thesis using Inr by (auto simp: runKeyword_def Let_def split: option.splits)
  qed (simp add: runKeyword_def)
  then have "callKeyword C sub ev name inputs s report st w \<noteq> OutOfFuel" for name inputs report
    using map_of_SomeD by (fastforce simp: callKeyword_def Let_def rev_image_eqI split: option.splits)
  then have "executeKeywordStep C sub ev input s report st w \<noteq> OutOfFuel" for report
    by (auto simp: executeKeywordStep_def split: option.splits sum.splits)
  then show ?thesis by (auto simp: attemptStep_def Let_def split: prod.splits)
qed

lemma executeStepFuel_enough:
  "card (callable (rc_suite C) st) < n \<Longrightarrow> executeStepFuel n C phase ev input s st w \<noteq> OutOfFuel"
proof (induction n arbitrary: phase ev input s st w)
  case (Suc k)
  have "attemptStep C (executeStepFuel k C ''step'') ev input s phase a st' w' \<noteq> OutOfFuel"
    if "dom (ss_results st) \<subseteq> dom (ss_results st')" for a st' w'
  proof (rule attemptStep_fuel)
    fix ev input s st'' w
    assume "card (callable (rc_suite C) st'') < card (callable (rc_suite C) st')"
    moreover have "card (callable (rc_suite C) st') \<le> card (callable (rc_suite C) st)"
      by (intro card_mono finite_callable callable_antimono that)
    ultimately show "executeStepFuel k C ''step'' ev input s st'' w \<noteq> OutOfFuel" using Suc by auto
  qed (rule executeStepFuel_grows)
  then show ?case
    by (simp add: retryStep_def Let_def retryLoop_fuel attemptStep_grows)
qed simp

section \<open>The trace of the retries\<close>

text \<open>From attempt \<open>a\<close> to attempt \<open>b\<close> every attempt ran, did not pass, and was followed by its sleep.\<close>

inductive failed_attempts ::
  "'w rt_env \<Rightarrow> (int \<Rightarrow> scenario_state \<Rightarrow> 'w \<Rightarrow> 'w step_run) \<Rightarrow> retry \<Rightarrow>
   int \<Rightarrow> scenario_state \<Rightarrow> 'w \<Rightarrow> int \<Rightarrow> scenario_state \<Rightarrow> 'w \<Rightarrow> bool"
  for R :: "'w rt_env" and f :: "int \<Rightarrow> scenario_state \<Rightarrow> 'w \<Rightarrow> 'w step_run" and retry :: retry where
  refl: "failed_attempts R f retry a st w a st w"
| step: "f a st w = Ret (r, st1, w1) \<Longrightarrow> sr_Status r \<noteq> StatusPass \<Longrightarrow>
    0 < rt_Interval retry \<longrightarrow> fst (rt_sleep R (rt_Interval retry) w1) \<Longrightarrow>
    w2 = (if 0 < rt_Interval retry then snd (rt_sleep R (rt_Interval retry) w1) else w1) \<Longrightarrow>
    failed_attempts R f retry (a + 1) st1 w2 b st' w' \<Longrightarrow> failed_attempts R f retry a st w b st' w'"

definition retry_outcome ::
  "'w rt_env \<Rightarrow> (int \<Rightarrow> scenario_state \<Rightarrow> 'w \<Rightarrow> 'w step_run) \<Rightarrow> retry \<Rightarrow> int \<Rightarrow> scenario_state \<Rightarrow> 'w \<Rightarrow>
   step_result \<Rightarrow> scenario_state \<Rightarrow> 'w \<Rightarrow> bool" where
  "retry_outcome R f retry a st w r st' w' \<longleftrightarrow>
     (\<exists>b st0 w0 r0 w1. a \<le> b \<and> b \<le> rt_Attempts retry \<and> failed_attempts R f retry a st w b st0 w0
        \<and> f b st0 w0 = Ret (r0, st', w1) \<and> sr_Attempts r = b
        \<and> (if sr_Status r0 = StatusPass \<or> b = rt_Attempts retry
           then r = r0\<lparr>sr_Attempts := b\<rparr> \<and> w' = w1
           else rt_sleep R (rt_Interval retry) w1 = (False, w') \<and> sr_Status r = StatusFail))"

lemma retry_outcome_stop:
  "a \<le> b \<Longrightarrow> b \<le> rt_Attempts retry \<Longrightarrow> failed_attempts R f retry a st w b sb wb \<Longrightarrow>
   f b sb wb = Ret (rb, st', wc) \<Longrightarrow> sr_Attempts r = b \<Longrightarrow>
   (if sr_Status rb = StatusPass \<or> b = rt_Attempts retry then r = rb\<lparr>sr_Attempts := b\<rparr> \<and> w' = wc
    else rt_sleep R (rt_Interval retry) wc = (False, w') \<and> sr_Status r = StatusFail) \<Longrightarrow>
   retry_outcome R f retry a st w r st' w'"
  unfolding retry_outcome_def by blast

lemma retryLoop_outcome:
  "a \<le> rt_Attempts retry \<Longrightarrow> retryLoop R f retry fb a st w = Ret (r, st', w') \<Longrightarrow>
     retry_outcome R f retry a st w r st' w'"
proof (induction "nat (rt_Attempts retry + 1 - a)" arbitrary: fb a st w rule: less_induct)
  case less
  from less.prems(2,1) show ?case
  proof (cases rule: retryLoop_round)
    case (stop r0)
    then show ?thesis
      by (intro retry_outcome_stop [OF order_refl less.prems(1) refl [of R f retry a st w] stop(1)]) simp_all
  next
    case (interrupted r0 w0)
    have "sr_Attempts r = a" using interrupted(6) by (simp add: failStep_def)
    moreover have "sr_Status r = StatusFail" using interrupted(6) by simp
    ultimately show ?thesis using interrupted(2,3,5)
      by (intro retry_outcome_stop [OF order_refl less.prems(1) refl [of R f retry a st w] interrupted(1)]) simp_all
  next
    case (again r0 st0 w0 w1)
    then have "retry_outcome R f retry (a + 1) st0 w1 r st' w'"
      using less.hyps [of "a + 1"] by simp
    then obtain b st2 w2 r2 w3 where b: "a + 1 \<le> b" "failed_attempts R f retry (a + 1) st0 w1 b st2 w2"
      and rest: "b \<le> rt_Attempts retry" "f b st2 w2 = Ret (r2, st', w3)" "sr_Attempts r = b"
        "if sr_Status r2 = StatusPass \<or> b = rt_Attempts retry then r = r2\<lparr>sr_Attempts := b\<rparr> \<and> w' = w3
         else rt_sleep R (rt_Interval retry) w3 = (False, w') \<and> sr_Status r = StatusFail"
      unfolding retry_outcome_def by blast
    have "failed_attempts R f retry a st w b st2 w2"
      by (rule step [OF again(1,2) again(5) again(4) b(2)])
    moreover have "a \<le> b" using b(1) by simp
    ultimately show ?thesis using rest by (intro retry_outcome_stop)
  qed
qed

lemma retryOptions_pos: "1 \<le> rt_Attempts (retryOptions s)"
  by (auto simp: retryOptions_def split: option.splits)

lemma attemptStep_leaves:
  assumes "st_Provider s \<notin> set specialProviders"
    and "attemptStep C sub ev input s phase a st w = Ret (r, st', w')"
  shows "step_leaves s st r st'"
proof (cases "st_Provider s = ''keyword''")
  case True
  with assms(2) have "executeKeywordStep C sub ev input s (newStepResult s (rc_scenario C) phase StatusPass) st w
      = Ret (r, st', w')" by (simp add: attemptStep_def Let_def)
  then show ?thesis by (rule executeKeywordStep_cases) simp
next
  case False
  with assms have "runGenericStep C ev input s phase a (newStepResult s (rc_scenario C) phase StatusPass) st w
      = Ret (r, st', w')" by (simp add: attemptStep_def Let_def)
  then show ?thesis by (rule runGenericStep_cases) simp
qed

lemma match_contains_null:
  "matchJSON E (VObject [(matcherKey, VString ''contains''), (''value'', VString needle)]) (VNull TString) strict path = Panic"
proof -
  have "isMatcher (VObject [(matcherKey, VString ''contains''), (''value'', VString needle)])
      = Matcher ''contains'' [(''value'', VString needle)]"
    by (simp add: isMatcher_def matcherKey_def)
  then show ?thesis
    by (simp add: matchJSON_matcher [of _ "''contains''"] fieldWrapper_def) (simp add: applyMatcher_def matchContains_def)
qed

lemma match_matches_null:
  assumes "re_compile E pattern = Inr p"
  shows "matchJSON E (VObject [(matcherKey, VString ''matches''), (''value'', VString pattern)]) (VNull TString) strict path = Panic"
proof -
  have "isMatcher (VObject [(matcherKey, VString ''matches''), (''value'', VString pattern)])
      = Matcher ''matches'' [(''value'', VString pattern)]"
    by (simp add: isMatcher_def matcherKey_def)
  then show ?thesis using assms
    by (simp add: matchJSON_matcher [of _ "''matches''"] fieldWrapper_def) (simp add: applyMatcher_def matchRegex_def)
qed

section \<open>Properties\<close>


text \<open>C11: a step with retries returns the result of an attempt \<open>b\<close> between 1 and the configured number
  such that all attempts before it ran and failed; \<open>b\<close> passed or was the last one, unless the sleep
  after it was cancelled, and then the step fails.\<close>

theorem retryStep_returns_first_pass_or_last:
  assumes "retryStep C f s phase st w = Ret (r, st', w')"
  shows "retry_outcome (rn_rt (rc_env C)) f (retryOptions s) 1 st w r st' w'"
  using assms by (intro retryLoop_outcome retryOptions_pos) (simp add: retryStep_def Let_def)

theorem retryStep_returns_first_pass_or_last_witness:
  "retry_outcome demo_rt (\<lambda>a st w. Ret (newStepResult demo_step ''demo'' ''step'' StatusPass, st, w + 1))
     (retryOptions demo_step) 1 demo_state 0
     ((newStepResult demo_step ''demo'' ''step'' StatusPass)\<lparr>sr_Attempts := 1\<rparr>) demo_state 1"
proof -
  let ?f = "\<lambda>a st w :: nat. Ret (newStepResult demo_step ''demo'' ''step'' StatusPass, st, w + 1)"
  have "retryStep demo_ctx ?f demo_step ''step'' demo_state 0
      = Ret ((newStepResult demo_step ''demo'' ''step'' StatusPass)\<lparr>sr_Attempts := 1\<rparr>, demo_state, 1)"
    by (simp add: retryStep_def retryLoop.simps [of _ _ _ _ 1] retryOptions_def demo_step_def blank_step_def)
  from retryStep_returns_first_pass_or_last [OF this] show ?thesis
    by (simp add: demo_ctx_def demo_runner_def)
qed

text \<open>C14: an attempt of a generic or keyword step that passes stores exactly one result, its own; one
  that fails carries a failure and leaves the scenario's results untouched.\<close>

theorem attemptStep_stores_result_iff_pass:
  assumes "st_Provider s \<notin> set specialProviders"
    and "attemptStep C sub ev input s phase a st w = Ret (r, st', w')"
  shows "(sr_Status r = StatusPass \<and> (\<exists>v. st' = SetStepResult st (st_Name s) v))
    \<or> (sr_Status r = StatusFail \<and> sr_Failure r \<noteq> None \<and> st' = st)"
  using attemptStep_leaves [OF assms] by (simp add: step_leaves_def)

lemma demo_attempt:
  "\<exists>r st'. attemptStep demo_ctx sub demo_evaluator Map.empty demo_step ''step'' 1 demo_state 0 = Ret (r, st', 1)
     \<and> sr_Status r = StatusPass"
  by (simp add: attemptStep_def specialProviders_def runGenericStep_def evaluateStepVars_def evaluateRequest_def
      setExpr_def wrapErr_def Empty_def evaluateRequestBody_def evaluateRequestAuth_def finishGenericStep_def
      evaluateExpect_def demo_defs)

theorem attemptStep_stores_result_iff_pass_witness:
  "\<exists>r st' v. attemptStep demo_ctx (\<lambda>ev input s st w. Panicked) demo_evaluator Map.empty demo_step ''step'' 1
       demo_state 0 = Ret (r, st', 1) \<and> st' = SetStepResult demo_state ''login'' v"
proof -
  obtain r st' where a: "attemptStep demo_ctx (\<lambda>ev input s st w. Panicked) demo_evaluator Map.empty demo_step
      ''step'' 1 demo_state 0 = Ret (r, st', 1)" "sr_Status r = StatusPass"
    using demo_attempt by blast
  have p: "st_Provider demo_step \<notin> set specialProviders" "st_Name demo_step = ''login''"
    by (simp_all add: specialProviders_def demo_step_def blank_step_def)
  from attemptStep_stores_result_iff_pass [OF p(1) a(1)] a(2) obtain v where "st' = SetStepResult demo_state ''login'' v"
    by (auto simp: p(2))
  with a(1) show ?thesis by blast
qed

text \<open>C28: a \<open>contains\<close> or \<open>matches\<close> matcher expected on a response header that is absent makes the
  assertion panic instead of reporting a mismatch: the missing header is passed on as a null string,
  which both handlers read with AsString.\<close>

theorem missing_header_panics:
  assumes "map_of kvs key = None" and "re_compile E pattern = Inr p"
  shows "headersLoop E [(key, VObject [(matcherKey, VString ''contains''), (''value'', VString needle)])]
           (VObject kvs) = Panicked
    \<and> headersLoop E [(key, VObject [(matcherKey, VString ''matches''), (''value'', VString pattern)])]
           (VObject kvs) = Panicked"
  using assms by (simp add: actualHeader_def assertOutcome_def match_contains_null match_matches_null)

theorem missing_header_panics_witness:
  "headersLoop exact_env [(''X-Id'', VObject [(matcherKey, VString ''contains''), (''value'', VString ''a'')])]
     (VObject [(''Date'', VString ''now'')]) = Panicked"
  using missing_header_panics [of "[(''Date'', VString ''now'')]" "''X-Id''" exact_env "''a''" "\<lambda>s. s = ''a''" "''a''"]
  by (simp add: exact_env_def)

end
