(* ===== verification/ScenarioRun.thy ===== *)
theory ScenarioRun
  imports StepProps
begin

text \<open>
  A whole scenario and the suite teardown: \<open>runScenario\<close>, \<open>runScenarioSteps\<close>, \<open>runOneStep\<close> and the
  teardown blocks of \<^verbatim>\<open>internal/runtime/runner.go\<close> and \<^verbatim>\<open>suite_teardown.go\<close>. The pieces of state the
  source passes to \<open>runOneStep\<close> by pointer are one record. Scenario hooks, the creation of the
  workspace directory and the switch to the cleanup context are arguments that act on the world.
\<close>

record 'w scenario_run =
  sx_result :: scenario_result
  sx_tracker :: dep_tracker
  sx_state :: scenario_state
  sx_world :: 'w

record 'w hook =
  hk_Begin :: "scenario \<Rightarrow> 'w \<Rightarrow> goerr option \<times> 'w"
  hk_End :: "scenario \<Rightarrow> 'w \<Rightarrow> artifact list \<times> 'w"

record 'w suite_env =
  se_runner :: "'w runner_env"
  se_hooks :: "'w hook list"
  se_workspace :: "scenario \<Rightarrow> 'w \<Rightarrow> (goerr + string \<times> string \<times> value_map) \<times> 'w"
  se_teardownWorkspace :: "string \<Rightarrow> 'w \<Rightarrow> (goerr + string \<times> string \<times> value_map) \<times> 'w"
  se_cleanup :: "'w \<Rightarrow> 'w"
  se_seed :: int

section \<open>One step\<close>

definition addStep :: "scenario_result \<Rightarrow> step_result \<Rightarrow> scenario_result" where
  "addStep r s = r\<lparr>cr_Steps := cr_Steps r @ [s]\<rparr>"

definition recordDepCascadeSkip :: "'w scenario_run \<Rightarrow> step \<Rightarrow> string \<Rightarrow> string \<Rightarrow> bool \<Rightarrow> 'w scenario_run" where
  "recordDepCascadeSkip x s scenarioName blocker blockerFailed =
     (let reason = (if blockerFailed then Sprintf ''depends on failed step %q'' [AStr blocker]
                    else Sprintf ''depends on skipped step %q'' [AStr blocker])
      in x\<lparr>sx_result := addStep (sx_result x)
             ((newStepResult s scenarioName ''step'' StatusSkip)\<lparr>sr_SkipReason := Some reason\<rparr>),
           sx_tracker := markSkipped (sx_tracker x) (st_Name s)\<rparr>)"

definition recordHaltedSkip :: "'w scenario_run \<Rightarrow> step \<Rightarrow> string \<Rightarrow> 'w scenario_run" where
  "recordHaltedSkip x s scenarioName =
     x\<lparr>sx_result := addStep (sx_result x)
         ((newStepResult s scenarioName ''step'' StatusSkip)
            \<lparr>sr_SkipReason := Some (Sprintf ''not run: an earlier step in the scenario failed'' [])\<rparr>),
       sx_tracker := markSkipped (sx_tracker x) (st_Name s)\<rparr>"

text \<open>The failure bookkeeping shared by a failed step and a failed skip rule.\<close>

definition failScenario :: "scenario_result \<Rightarrow> step_result \<Rightarrow> scenario_result" where
  "failScenario r s = r\<lparr>cr_Failure := (if cr_Failure r = None then sr_Failure s else cr_Failure r),
     cr_Status := StatusFail\<rparr>"

definition recordStepSkipResult :: "'w scenario_run \<Rightarrow> step_result \<Rightarrow> string \<Rightarrow> 'w scenario_run" where
  "recordStepSkipResult x stepSkip stepName =
     (let r = addStep (sx_result x) stepSkip in
      if sr_Status stepSkip = StatusFail
      then x\<lparr>sx_result := failScenario r stepSkip, sx_tracker := markFailed (sx_tracker x) stepName\<rparr>
      else x\<lparr>sx_result := r, sx_tracker := markSkipped (sx_tracker x) stepName\<rparr>)"

definition whenSkipResult :: "step \<Rightarrow> string \<Rightarrow> string \<Rightarrow> gotext \<Rightarrow> step_result" where
  "whenSkipResult s scenarioName phase reason =
     (newStepResult s scenarioName phase StatusSkip)\<lparr>sr_SkipReason := Some reason\<rparr>"

definition runOneStep ::
  "'w run_ctx \<Rightarrow> evaluator \<Rightarrow> (string \<Rightarrow> string list) \<Rightarrow> step \<Rightarrow> 'w scenario_run \<Rightarrow> 'w scenario_run run" where
  "runOneStep C ev depsByStep s x =
     (case dependencyBlocker (sx_tracker x) (depsByStep (st_Name s)) of
        Some (blocker, failedDep) \<Rightarrow> Ret (recordDepCascadeSkip x s (rc_scenario C) blocker failedDep)
      | None \<Rightarrow>
        if cr_Status (sx_result x) = StatusFail then Ret (recordHaltedSkip x s (rc_scenario C))
        else (case evaluateStepSkip (rn_rt (rc_env C)) (sx_world x) ev s (rc_scenario C) (sx_state x) (rc_config C) of
           Some stepSkip \<Rightarrow> Ret (recordStepSkipResult x stepSkip (st_Name s))
         | None \<Rightarrow>
           (case evalWhen (rn_rt (rc_env C)) (sx_world x) (st_When s) ev
                   (skipScope (rc_config C) (sx_state x) Map.empty) (rc_scenario C) (st_Name s) ''step.when'' of
              Inl _ \<Rightarrow> Panicked
            | Inr (Some reason) \<Rightarrow>
                Ret (recordStepSkipResult x (whenSkipResult s (rc_scenario C) ''step'' reason) (st_Name s))
            | Inr None \<Rightarrow>
                bind_run (executeStepInPhase C ''step'' ev Map.empty s (sx_state x) (sx_world x))
                  (\<lambda>(stepResult, state, w).
                     let r = addStep (sx_result x) stepResult;
                         x = x\<lparr>sx_state := state, sx_world := w\<rparr>
                     in if sr_Status stepResult = StatusFail
                        then Ret (x\<lparr>sx_result := failScenario r stepResult,
                                    sx_tracker := markFailed (sx_tracker x) (st_Name s)\<rparr>)
                        else Ret (x\<lparr>sx_result := r\<rparr>)))))"

fun runScenarioSteps ::
  "'w run_ctx \<Rightarrow> evaluator \<Rightarrow> (string \<Rightarrow> string list) \<Rightarrow> step list \<Rightarrow> 'w scenario_run \<Rightarrow> 'w scenario_run run" where
  "runScenarioSteps C ev depsByStep [] x = Ret x"
| "runScenarioSteps C ev depsByStep (s # ss) x =
     bind_run (runOneStep C ev depsByStep s x) (runScenarioSteps C ev depsByStep ss)"

section \<open>Teardown\<close>

definition executeTeardownStepInPhase ::
  "'w run_ctx \<Rightarrow> evaluator \<Rightarrow> value_map \<Rightarrow> step \<Rightarrow> string \<Rightarrow> scenario_state \<Rightarrow> 'w \<Rightarrow> 'w step_run" where
  "executeTeardownStepInPhase C ev input s phase state w =
     (case evalWhen (rn_rt (rc_env C)) w (st_When s) ev (stepScope (rc_config C) state input)
             (rc_scenario C) (st_Name s) ''teardown.when'' of
        Inl _ \<Rightarrow> Panicked
      | Inr (Some reason) \<Rightarrow> Ret (whenSkipResult s (rc_scenario C) phase reason, state, w)
      | Inr None \<Rightarrow> executeStepInPhase C phase ev input s state w)"

text \<open>The lazily built cleanup context: built at the first use, then reused.\<close>

definition cleanupCtx :: "'w suite_env \<Rightarrow> bool \<times> 'w \<Rightarrow> bool \<times> 'w" where
  "cleanupCtx S bw = (case bw of (built, w) \<Rightarrow> if built then (True, w) else (True, se_cleanup S w))"

definition addTeardown :: "scenario_result \<Rightarrow> step_result \<Rightarrow> scenario_result" where
  "addTeardown r s =
     (let r = r\<lparr>cr_Teardown := cr_Teardown r @ [s]\<rparr> in
      if sr_Status s = StatusFail
      then (let r = r\<lparr>cr_TeardownFailures := cr_TeardownFailures r @ [sr_Failure s]\<rparr> in
            if cr_Status r = StatusPass then r\<lparr>cr_Status := StatusFail, cr_Failure := sr_Failure s\<rparr> else r)
      else r)"

fun runTeardown ::
  "'w suite_env \<Rightarrow> 'w run_ctx \<Rightarrow> evaluator \<Rightarrow> step list \<Rightarrow> scenario_result \<Rightarrow> scenario_state \<Rightarrow> bool \<times> 'w \<Rightarrow>
   (scenario_result \<times> 'w) run" where
  "runTeardown S C ev [] r state bw = Ret (r, snd bw)"
| "runTeardown S C ev (s # ss) r state bw =
     (case cleanupCtx S bw of (built, w) \<Rightarrow>
        bind_run (executeTeardownStepInPhase C ev Map.empty s ''teardown'' state w)
          (\<lambda>(stepResult, state, w). runTeardown S C ev ss (addTeardown r stepResult) state (built, w)))"

section \<open>Hooks\<close>

text \<open>The number of hooks begun, and the error of the one that failed.\<close>

fun beginHooks :: "scenario \<Rightarrow> 'w hook list \<Rightarrow> nat \<Rightarrow> 'w \<Rightarrow> goerr option \<times> nat \<times> 'w" where
  "beginHooks sn [] began w = (None, began, w)"
| "beginHooks sn (h # hs) began w =
     (case hk_Begin h sn w of
        (Some err, w) \<Rightarrow> (Some err, began, w)
      | (None, w) \<Rightarrow> beginHooks sn hs (began + 1) w)"

text \<open>The loop of \<open>endHooks\<close>, from index \<open>n - 1\<close> down to 0.\<close>

fun endHooks ::
  "'w suite_env \<Rightarrow> scenario \<Rightarrow> nat \<Rightarrow> artifact list \<Rightarrow> bool \<times> 'w \<Rightarrow> artifact list \<times> bool \<times> 'w" where
  "endHooks S sn 0 arts bw = (arts, bw)"
| "endHooks S sn (Suc i) arts bw =
     (case cleanupCtx S bw of (built, w) \<Rightarrow>
        (case hk_End (se_hooks S ! i) sn w of
           (extra, w) \<Rightarrow> endHooks S sn i (arts @ extra) (built, w)))"

section \<open>A scenario\<close>

fun allDependencies :: "step list \<Rightarrow> (string \<Rightarrow> string list) \<Rightarrow> (string \<times> order_error) + (string \<Rightarrow> string list)" where
  "allDependencies [] deps = Inr deps"
| "allDependencies (s # ss) deps = (case StepDependencies s of
     Inl err \<Rightarrow> Inl (st_Name s, err)
   | Inr d \<Rightarrow> allDependencies ss (deps(st_Name s := d)))"

definition newScenarioResult :: "scenario \<Rightarrow> scenario_result" where
  "newScenarioResult sn = \<lparr>cr_File = sn_File sn, cr_Name = sn_Name sn, cr_Tags = sn_Tags sn,
     cr_Status = StatusPass, cr_Steps = [], cr_Teardown = [], cr_Failure = None,
     cr_TeardownFailures = [], cr_SkipReason = None, cr_Artifacts = []\<rparr>"

definition scenarioCtx :: "'w suite_env \<Rightarrow> suite \<Rightarrow> value_map \<Rightarrow> string \<Rightarrow> 'w run_ctx" where
  "scenarioCtx S su config scenarioName =
     \<lparr>rc_env = se_runner S, rc_suite = su, rc_config = config, rc_scenario = scenarioName\<rparr>"

text \<open>From the begun hooks on: the steps, the end of the hooks, the teardown.\<close>

definition runScenarioBody ::
  "'w suite_env \<Rightarrow> 'w run_ctx \<Rightarrow> evaluator \<Rightarrow> scenario \<Rightarrow> scenario_result \<Rightarrow> scenario_state \<Rightarrow>
   (string \<Rightarrow> string list) \<Rightarrow> nat \<Rightarrow> 'w \<Rightarrow> (scenario_result \<times> 'w) run" where
  "runScenarioBody S C ev sn r state deps began w =
     bind_run (runScenarioSteps C ev deps (sn_Steps sn)
                 \<lparr>sx_result = r, sx_tracker = newDepTracker, sx_state = state, sx_world = w\<rparr>)
       (\<lambda>x. case endHooks S sn began (cr_Artifacts (sx_result x)) (False, sx_world x) of
          (arts, bw) \<Rightarrow>
            runTeardown S C ev (sn_Teardown sn) ((sx_result x)\<lparr>cr_Artifacts := arts\<rparr>) (sx_state x) bw)"

text \<open>
  The result is the scenario result, nil with an error, or a panic. On the early error return the
  named result is already nil when the deferred \<open>endHooks\<close> appends artifacts to it, which panics.
\<close>

definition runScenario ::
  "'w suite_env \<Rightarrow> suite \<Rightarrow> scenario \<Rightarrow> value_map \<Rightarrow> 'w \<Rightarrow> ((scenario_result option \<times> goerr option) \<times> 'w) run" where
  "runScenario S su sn config w =
     (case se_workspace S sn w of
        (Inl err, w) \<Rightarrow> Ret ((None, Some err), w)
      | (Inr (workdir, artifactsDir, scopeVars), w) \<Rightarrow>
        (let C = scenarioCtx S su config (sn_Name sn);
             state = NewScenarioState (map st_Name (sn_Steps sn) @ map st_Name (sn_Teardown sn))
                       (se_seed S) workdir artifactsDir;
             ev = SetScopeVars \<lparr>ev_seedScope = [], ev_scopeVars = Map.empty\<rparr> scopeVars;
             r = newScenarioResult sn
         in case applyScenarioSkip (rn_rt (se_runner S)) w ev sn r state config of
              Some r \<Rightarrow> Ret ((Some r, None), w)
            | None \<Rightarrow>
                (case beginHooks sn (se_hooks S) 0 w of
                   (Some err, began, w) \<Rightarrow>
                     (case endHooks S sn began [] (False, w) of
                        (arts, bw) \<Rightarrow> Ret ((Some (r\<lparr>cr_Status := StatusFail, cr_Artifacts := arts,
                          cr_Failure := Some (detail ''hook'' []
                            (Sprintf ''scenario hook BeginScenario failed: %s'' [AErr err]))\<rparr>), None), snd bw))
                 | (None, began, w) \<Rightarrow>
                     (case allDependencies (sn_Steps sn) (\<lambda>_. []) of
                        Inl (name, err) \<Rightarrow>
                          (case endHooks S sn began [] (False, w) of
                             (arts, bw) \<Rightarrow>
                               if arts \<noteq> [] then Panicked
                               else Ret ((None, Some (Errorf ''resolve dependencies for step %q: %w''
                                      [AStr name, AErr (order_message err)])), snd bw))
                      | Inr deps \<Rightarrow>
                          bind_run (runScenarioBody S C ev sn r state deps began w)
                            (\<lambda>(r, w). Ret ((Some r, None), w))))))"

section \<open>Suite teardown\<close>

fun suiteTeardownLoop ::
  "'w run_ctx \<Rightarrow> evaluator \<Rightarrow> step list \<Rightarrow> step_result list \<Rightarrow> error_detail option list \<Rightarrow> scenario_state \<Rightarrow> 'w \<Rightarrow>
   ((step_result list \<times> error_detail option list) \<times> 'w) run" where
  "suiteTeardownLoop C ev [] results failures state w = Ret ((results, failures), w)"
| "suiteTeardownLoop C ev (s # ss) results failures state w =
     bind_run (executeTeardownStepInPhase C ev Map.empty s ''suite_teardown'' state w)
       (\<lambda>(stepResult, state, w).
          suiteTeardownLoop C ev ss (results @ [stepResult])
            (if sr_Status stepResult = StatusFail then failures @ [sr_Failure stepResult] else failures) state w)"

definition suiteTeardownSetupFailure :: "string \<Rightarrow> goerr \<Rightarrow> step_result list \<times> error_detail option list" where
  "suiteTeardownSetupFailure file err =
     (let failure = detail ''runtime'' [] (Sprintf ''suite teardown setup failed: %s'' [AErr err]) in
      ([\<lparr>sr_File = file, sr_Scenario = ''tales:suite-teardown'', sr_Name = ''workspace'', sr_Provider = [],
         sr_Phase = ''suite_teardown'', sr_Status = StatusFail, sr_Request = Map.empty,
         sr_Response = Map.empty, sr_StatusCode = 0, sr_Attempts = 0, sr_Failure = Some failure,
         sr_SkipReason = None\<rparr>], [Some failure]))"

definition runSuiteTeardown ::
  "'w suite_env \<Rightarrow> suite \<Rightarrow> value_map \<Rightarrow> 'w \<Rightarrow> ((step_result list \<times> error_detail option list) \<times> 'w) run" where
  "runSuiteTeardown S su config w =
     (if length (su_Teardown su) = 0 then Ret (([], []), w)
      else (case se_teardownWorkspace S (su_TeardownFile su) w of
              (Inl err, w) \<Rightarrow> Ret (suiteTeardownSetupFailure (su_TeardownFile su) err, w)
            | (Inr (workdir, artifactsDir, scopeVars), w) \<Rightarrow>
                suiteTeardownLoop (scenarioCtx S su config ''tales:suite-teardown'')
                  (SetScopeVars \<lparr>ev_seedScope = [], ev_scopeVars = Map.empty\<rparr> scopeVars)
                  (su_Teardown su) [] []
                  (NewScenarioState (map st_Name (su_Teardown su)) (se_seed S) workdir artifactsDir)
                  (se_cleanup S w)))"

section \<open>Selection and configuration\<close>

definition filterScenarios :: "scenario list \<Rightarrow> string list \<Rightarrow> string \<Rightarrow> scenario list" where
  "filterScenarios scenarios tags scenarioName =
     (if length tags = 0 \<and> scenarioName = [] then scenarios
      else filter (\<lambda>sn.
        if scenarioName \<noteq> [] \<and> sn_Name sn \<noteq> scenarioName then False
        else if 0 < length tags then list_ex (\<lambda>tag. tag \<in> set tags) (sn_Tags sn)
        else True) scenarios)"

fun configLoop ::
  "'w rt_env \<Rightarrow> 'w \<Rightarrow> (string \<times> expression) list \<Rightarrow> string list \<Rightarrow> value_map \<Rightarrow> goerr + value_map" where
  "configLoop R w exprs [] result = Inr result"
| "configLoop R w exprs (key # keys) result =
     (case Eval R w \<lparr>ev_seedScope = [], ev_scopeVars = Map.empty\<rparr>
             (case map_of exprs key of None \<Rightarrow> None | Some e \<Rightarrow> e)
             \<lparr>sd_Config = result, sd_Result = Map.empty, sd_Request = Map.empty, sd_Response = Map.empty,
              sd_Input = Map.empty, sd_Vars = Map.empty\<rparr>
             \<lparr>gm_Scenario = [], gm_Step = [], gm_ExprPath = ''config.'' @ key\<rparr> of
        Inl err \<Rightarrow> Inl (Errorf ''config.%s: %w'' [AStr key, AErr err])
      | Inr value \<Rightarrow> configLoop R w exprs keys (result(key \<mapsto> value)))"

text \<open>\<open>R\<close> is an environment whose generate() is an error, as for the evaluator the source builds here.\<close>

definition evalConfig :: "'w rt_env \<Rightarrow> 'w \<Rightarrow> suite \<Rightarrow> goerr + value_map" where
  "evalConfig R w su = configLoop R w (su_ConfigExpr su) (sort (map fst (su_ConfigExpr su))) Map.empty"

end
