(* ===== verification/ScenarioProps.thy ===== *)
theory ScenarioProps
  imports ScenarioRun
begin

text \<open>
  What holds of a scenario's run: one result per step, in order; nothing runs after the first
  failure; the status and the failure of the scenario are those of its first failed step; steps whose
  dependency did not pass are skipped; every teardown step runs; hooks end in reverse order.
\<close>

section \<open>The tracker as an interface\<close>

text \<open>
  The runner relies on three laws of its tracker: nothing blocks at first, and a marked step blocks
  exactly the steps that depend on it.
\<close>

locale step_tracker =
  fixes empty :: 't
    and mark_failed :: "'t \<Rightarrow> string \<Rightarrow> 't"
    and mark_skipped :: "'t \<Rightarrow> string \<Rightarrow> 't"
    and blocker :: "'t \<Rightarrow> string list \<Rightarrow> (string \<times> bool) option"
  assumes blocker_empty: "blocker empty deps = None"
    and blocker_failed: "blocker (mark_failed t n) deps = None \<longleftrightarrow> n \<notin> set deps \<and> blocker t deps = None"
    and blocker_skipped: "blocker (mark_skipped t n) deps = None \<longleftrightarrow> n \<notin> set deps \<and> blocker t deps = None"
begin

definition mark :: "'t \<Rightarrow> string \<times> status \<Rightarrow> 't" where
  "mark t ns = (if snd ns = StatusFail then mark_failed t (fst ns)
     else if snd ns = StatusSkip then mark_skipped t (fst ns) else t)"

lemma blocker_mark:
  "blocker (mark t ns) deps = None \<longleftrightarrow> (snd ns \<in> {StatusFail, StatusSkip} \<longrightarrow> fst ns \<notin> set deps) \<and> blocker t deps = None"
  by (auto simp: mark_def blocker_failed blocker_skipped)

lemma blocker_marks:
  "blocker (foldl mark t nss) deps = None \<longleftrightarrow>
     (\<forall>ns \<in> set nss. snd ns \<in> {StatusFail, StatusSkip} \<longrightarrow> fst ns \<notin> set deps) \<and> blocker t deps = None"
  by (induction nss arbitrary: t) (auto simp: blocker_mark)

lemma blocked_iff:
  "blocker (foldl mark empty nss) deps \<noteq> None \<longleftrightarrow>
     (\<exists>n st. (n, st) \<in> set nss \<and> st \<in> {StatusFail, StatusSkip} \<and> n \<in> set deps)"
  using blocker_marks [of empty nss deps] blocker_empty [of deps] by fastforce

end

interpretation dep: step_tracker newDepTracker markFailed markSkipped dependencyBlocker
proof unfold_locales
  fix t n deps
  show "dependencyBlocker newDepTracker deps = None" by (simp add: dependencyBlocker_None)
  show "dependencyBlocker (markFailed t n) deps = None \<longleftrightarrow> n \<notin> set deps \<and> dependencyBlocker t deps = None"
    by (auto simp: dependencyBlocker_None)
  show "dependencyBlocker (markSkipped t n) deps = None \<longleftrightarrow> n \<notin> set deps \<and> dependencyBlocker t deps = None"
    by (auto simp: dependencyBlocker_None)
qed

section \<open>Results of executed steps\<close>

definition result_ok :: "step \<Rightarrow> step_result \<Rightarrow> bool" where
  "result_ok s r \<longleftrightarrow> sr_Name r = st_Name s \<and> (sr_Status r = StatusPass \<or> sr_Status r = StatusFail)"

text \<open>The dedicated executors name their step and end in pass or fail.\<close>

definition executors_ok :: "'w runner_env \<Rightarrow> bool" where
  "executors_ok R \<longleftrightarrow> (\<forall>ev sc config st input s phase a w.
     result_ok s (fst (rn_special R ev sc config st input s phase a w)))"

lemma report_names [simp]:
  "sr_Name (r\<lparr>sr_StatusCode := c\<rparr>) = sr_Name r" "sr_Name (r\<lparr>sr_Request := q\<rparr>) = sr_Name r"
  "sr_Name (r\<lparr>sr_Response := p\<rparr>) = sr_Name r" "sr_Name (r\<lparr>sr_Attempts := n\<rparr>) = sr_Name r"
  by simp_all

lemma finishGenericStep_name:
  "finishGenericStep C ev scope s report st out w = Ret (r, st', w') \<Longrightarrow> sr_Name r = sr_Name report"
  by (auto simp: finishGenericStep_def Let_def split: prod.splits sum.splits option.splits)

lemma runGenericStep_name:
  "runGenericStep C ev input s phase a report st w = Ret (r, st', w') \<Longrightarrow> sr_Name r = sr_Name report"
  by (auto simp: runGenericStep_def dest: finishGenericStep_name split: prod.splits sum.splits option.splits)

lemma finishKeyword_name:
  "finishKeyword C ev inputs s kw report st failure ks w = (r, st', w') \<Longrightarrow> sr_Name r = sr_Name report"
  by (auto simp: finishKeyword_def split: sum.splits option.splits)

lemma runKeyword_name:
  "runKeyword C sub ev inputs s kw report st w = Ret (r, st', w') \<Longrightarrow> sr_Name r = sr_Name report"
  by (auto simp: runKeyword_def Let_def split: sum.splits option.splits prod.splits dest: finishKeyword_name)

lemma callKeyword_name:
  "callKeyword C sub ev name inputs s report st w = Ret (r, st', w') \<Longrightarrow> sr_Name r = sr_Name report"
  by (auto simp: callKeyword_def Let_def split: option.splits dest: runKeyword_name)

lemma executeKeywordStep_name:
  assumes "executeKeywordStep C sub ev input s report st w = Ret (r, st', w')"
  shows "sr_Name r = sr_Name report"
proof (cases "st_Keyword s")
  case (Some call)
  show ?thesis
  proof (cases "evaluateStepVars C w ev (stepScope (rc_config C) st input) s")
    case (Inl e)
    with assms Some show ?thesis by (cases e) (auto simp: executeKeywordStep_def)
  next
    case (Inr scope)
    with assms Some obtain c where "evaluateKeywordCall C w ev scope s call = Ret c"
      by (auto simp: executeKeywordStep_def)
    with assms Some Inr show ?thesis
      by (cases c) (auto simp: executeKeywordStep_def dest: callKeyword_name)
  qed
qed (use assms in \<open>auto simp: executeKeywordStep_def\<close>)

lemma attemptStep_result_ok:
  assumes "executors_ok (rc_env C)" and "attemptStep C sub ev input s phase a st w = Ret (r, st', w')"
  shows "result_ok s r"
proof (cases "st_Provider s \<in> set specialProviders")
  case True
  obtain r0 stored w0 where sp: "rn_special (rc_env C) ev (rc_scenario C) (rc_config C) st input s phase a w = (r0, stored, w0)"
    by (rule prod_cases3)
  have "result_ok s r0" using assms(1) sp unfolding executors_ok_def by (metis fst_conv)
  moreover have "st_Provider s \<noteq> ''keyword''" using True by (auto simp: specialProviders_def)
  ultimately show ?thesis using assms(2) True sp by (simp add: attemptStep_def Let_def)
next
  case False
  from assms(2) False have "sr_Name r = st_Name s"
    by (auto simp: attemptStep_def Let_def split: if_splits dest: executeKeywordStep_name runGenericStep_name)
  with attemptStep_leaves [OF False assms(2)] show ?thesis by (auto simp: result_ok_def step_leaves_def)
qed

lemma retryLoop_result_ok:
  assumes "\<And>a st w r st' w'. f a st w = Ret (r, st', w') \<Longrightarrow> result_ok s r"
  shows "a \<le> rt_Attempts retry \<Longrightarrow> retryLoop R f retry fb a st w = Ret (r, st', w') \<Longrightarrow> result_ok s r"
proof (induction "nat (rt_Attempts retry + 1 - a)" arbitrary: fb a st w rule: less_induct)
  case less
  from less.prems(2,1) show ?case
  proof (cases rule: retryLoop_round)
    case (stop r0)
    from assms [OF stop(1)] stop(2) show ?thesis by (simp add: result_ok_def)
  next
    case (interrupted r0 w0)
    from assms [OF interrupted(1)] interrupted(6) show ?thesis by (simp add: result_ok_def)
  next
    case (again r0 st0 w0 w1)
    then show ?thesis using less.hyps [of "a + 1"] by simp
  qed
qed

lemma executeStepInPhase_result_ok:
  assumes "executors_ok (rc_env C)" and "executeStepInPhase C phase ev input s st w = Ret (r, st', w')"
  shows "result_ok s r"
proof -
  have f: "attemptStep C (executeStepFuel n C ''step'') ev input s phase a st w = Ret (r, st', w') \<Longrightarrow> result_ok s r"
    for n a st w r st' w' by (rule attemptStep_result_ok [OF assms(1)])
  from assms(2) show ?thesis
    by (simp add: executeStepInPhase_def retryStep_def Let_def)
      (rule retryLoop_result_ok [OF f retryOptions_pos])
qed

section \<open>One step of the scenario\<close>

definition one_step ::
  "(string \<Rightarrow> string list) \<Rightarrow> step \<Rightarrow> 'w scenario_run \<Rightarrow> step_result \<Rightarrow> 'w scenario_run \<Rightarrow> bool" where
  "one_step deps s x r x' \<longleftrightarrow>
     cr_Steps (sx_result x') = cr_Steps (sx_result x) @ [r] \<and> sr_Name r = st_Name s \<and>
     cr_Teardown (sx_result x') = cr_Teardown (sx_result x) \<and>
     cr_TeardownFailures (sx_result x') = cr_TeardownFailures (sx_result x) \<and>
     (dependencyBlocker (sx_tracker x) (deps (st_Name s)) \<noteq> None \<or> cr_Status (sx_result x) = StatusFail \<longrightarrow>
        sr_Status r = StatusSkip \<and> sx_state x' = sx_state x \<and> sx_world x' = sx_world x) \<and>
     sx_tracker x' = dep.mark (sx_tracker x) (st_Name s, sr_Status r) \<and>
     (if sr_Status r = StatusFail
      then cr_Status (sx_result x') = StatusFail \<and>
           cr_Failure (sx_result x') = (if cr_Failure (sx_result x) = None then sr_Failure r else cr_Failure (sx_result x))
      else cr_Status (sx_result x') = cr_Status (sx_result x) \<and> cr_Failure (sx_result x') = cr_Failure (sx_result x))"

lemma one_step_skip:
  "sr_Status r = StatusSkip \<Longrightarrow> sr_Name r = st_Name s \<Longrightarrow>
     one_step deps s x r (x\<lparr>sx_result := addStep (sx_result x) r, sx_tracker := markSkipped (sx_tracker x) (st_Name s)\<rparr>)"
  by (simp add: one_step_def addStep_def dep.mark_def)

lemma one_step_recordStepSkipResult:
  "sr_Status r \<in> {StatusSkip, StatusFail} \<Longrightarrow> sr_Name r = st_Name s \<Longrightarrow>
   dependencyBlocker (sx_tracker x) (deps (st_Name s)) = None \<Longrightarrow> cr_Status (sx_result x) \<noteq> StatusFail \<Longrightarrow>
     one_step deps s x r (recordStepSkipResult x r (st_Name s))"
  by (auto simp: one_step_def recordStepSkipResult_def addStep_def failScenario_def Let_def dep.mark_def)

lemma skip_reason_simps [simp]:
  "sr_Name (r\<lparr>sr_SkipReason := z\<rparr>) = sr_Name r" "sr_Status (r\<lparr>sr_SkipReason := z\<rparr>) = sr_Status r"
  "sr_Name (r\<lparr>sr_Failure := d\<rparr>) = sr_Name r" "sr_Status (r\<lparr>sr_Failure := d\<rparr>) = sr_Status r"
  by simp_all

lemma evaluateStepSkip_result:
  "evaluateStepSkip R w ev s sc st config = Some r \<Longrightarrow> sr_Status r \<in> {StatusSkip, StatusFail} \<and> sr_Name r = st_Name s"
  by (auto simp: evaluateStepSkip_def split: if_splits sum.splits option.splits)

lemma runOneStep_spec:
  assumes "executors_ok (rc_env C)" and "runOneStep C ev deps s x = Ret x'"
  shows "\<exists>r. one_step deps s x r x'"
proof (cases "dependencyBlocker (sx_tracker x) (deps (st_Name s))")
  case (Some b)
  obtain blocker failed where b: "b = (blocker, failed)" by fastforce
  with assms(2) Some have "x' = recordDepCascadeSkip x s (rc_scenario C) blocker failed"
    by (simp add: runOneStep_def)
  then show ?thesis unfolding recordDepCascadeSkip_def Let_def by (auto intro!: exI one_step_skip)
next
  case unblocked: None
  show ?thesis
  proof (cases "cr_Status (sx_result x) = StatusFail")
    case True
    with assms(2) unblocked have "x' = recordHaltedSkip x s (rc_scenario C)" by (simp add: runOneStep_def)
    then show ?thesis unfolding recordHaltedSkip_def by (auto intro!: exI one_step_skip)
  next
    case running: False
    show ?thesis
    proof (cases "evaluateStepSkip (rn_rt (rc_env C)) (sx_world x) ev s (rc_scenario C) (sx_state x) (rc_config C)")
      case (Some r)
      with assms(2) unblocked running have "x' = recordStepSkipResult x r (st_Name s)" by (simp add: runOneStep_def)
      with evaluateStepSkip_result [OF Some] unblocked running show ?thesis
        by (auto intro!: one_step_recordStepSkipResult)
    next
      case noskip: None
      show ?thesis
      proof (cases "evalWhen (rn_rt (rc_env C)) (sx_world x) (st_When s) ev
                   (skipScope (rc_config C) (sx_state x) Map.empty) (rc_scenario C) (st_Name s) ''step.when''")
        case (Inl u)
        with assms(2) unblocked running noskip show ?thesis by (simp add: runOneStep_def)
      next
        case (Inr guard)
        show ?thesis
        proof (cases guard)
          case (Some reason)
          with assms(2) unblocked running noskip Inr
          have "x' = recordStepSkipResult x (whenSkipResult s (rc_scenario C) ''step'' reason) (st_Name s)"
            by (simp add: runOneStep_def)
          moreover have "sr_Status (whenSkipResult s (rc_scenario C) ''step'' reason) \<in> {StatusSkip, StatusFail}"
            "sr_Name (whenSkipResult s (rc_scenario C) ''step'' reason) = st_Name s"
            by (simp_all add: whenSkipResult_def)
          ultimately show ?thesis using one_step_recordStepSkipResult [of _ s x deps] unblocked running by blast
        next
          case None
          with assms(2) unblocked running noskip Inr obtain r st w where
            e: "executeStepInPhase C ''step'' ev Map.empty s (sx_state x) (sx_world x) = Ret (r, st, w)"
            by (auto simp: runOneStep_def)
          from executeStepInPhase_result_ok [OF assms(1) e] have ok: "result_ok s r" .
          from assms(2) unblocked running noskip Inr None e have "x' =
            (if sr_Status r = StatusFail
             then x\<lparr>sx_state := st, sx_world := w, sx_result := failScenario (addStep (sx_result x) r) r,
                    sx_tracker := markFailed (sx_tracker x) (st_Name s)\<rparr>
             else x\<lparr>sx_state := st, sx_world := w, sx_result := addStep (sx_result x) r\<rparr>)"
            by (cases "sr_Status r = StatusFail") (auto simp: runOneStep_def Let_def)
          with ok unblocked running show ?thesis
            by (intro exI [of _ r])
              (auto simp: one_step_def result_ok_def addStep_def failScenario_def dep.mark_def)
        qed
      qed
    qed
  qed
qed

section \<open>All steps of the scenario\<close>

text \<open>The results the steps \<open>ss\<close> add, in order.\<close>

inductive steps_run ::
  "(string \<Rightarrow> string list) \<Rightarrow> step list \<Rightarrow> 'w scenario_run \<Rightarrow> step_result list \<Rightarrow> 'w scenario_run \<Rightarrow> bool"
  for deps :: "string \<Rightarrow> string list" where
  nil: "steps_run deps [] x [] x"
| more: "one_step deps s x r x1 \<Longrightarrow> steps_run deps ss x1 rs x' \<Longrightarrow> steps_run deps (s # ss) x (r # rs) x'"

inductive_cases steps_run_NilE [elim!]: "steps_run deps [] x rs x'"
inductive_cases steps_run_ConsE [elim!]: "steps_run deps (s # ss) x rs x'"

lemma runScenarioSteps_steps_run:
  "executors_ok (rc_env C) \<Longrightarrow> runScenarioSteps C ev deps ss x = Ret x' \<Longrightarrow> \<exists>rs. steps_run deps ss x rs x'"
proof (induction ss arbitrary: x)
  case (Cons s ss)
  then obtain x1 where "runOneStep C ev deps s x = Ret x1" "runScenarioSteps C ev deps ss x1 = Ret x'" by auto
  with Cons runOneStep_spec [OF Cons.prems(1)] show ?case by (meson steps_run.more)
qed (auto intro: steps_run.nil)

lemma steps_run_results:
  "steps_run deps ss x rs x' \<Longrightarrow> cr_Steps (sx_result x') = cr_Steps (sx_result x) @ rs \<and> map sr_Name rs = map st_Name ss"
  by (induction rule: steps_run.induct) (auto simp: one_step_def)

lemma steps_run_teardown:
  "steps_run deps ss x rs x' \<Longrightarrow> cr_Teardown (sx_result x') = cr_Teardown (sx_result x)
     \<and> cr_TeardownFailures (sx_result x') = cr_TeardownFailures (sx_result x)"
  by (induction rule: steps_run.induct) (auto simp: one_step_def)

lemma steps_run_tracker:
  "steps_run deps ss x rs x' \<Longrightarrow>
     sx_tracker x' = foldl dep.mark (sx_tracker x) (zip (map st_Name ss) (map sr_Status rs))"
  by (induction rule: steps_run.induct) (auto simp: one_step_def)

lemma steps_run_halted:
  "steps_run deps ss x rs x' \<Longrightarrow> cr_Status (sx_result x) = StatusFail \<Longrightarrow>
     (\<forall>r \<in> set rs. sr_Status r = StatusSkip) \<and> sx_state x' = sx_state x \<and> sx_world x' = sx_world x
     \<and> cr_Status (sx_result x') = StatusFail \<and> cr_Failure (sx_result x') = cr_Failure (sx_result x)"
  by (induction rule: steps_run.induct) (auto simp: one_step_def)

lemma steps_run_status:
  "steps_run deps ss x rs x' \<Longrightarrow> cr_Status (sx_result x) = StatusPass \<Longrightarrow> cr_Failure (sx_result x) = None \<Longrightarrow>
     (case List.find (\<lambda>r. sr_Status r = StatusFail) rs of
        None \<Rightarrow> cr_Status (sx_result x') = StatusPass \<and> cr_Failure (sx_result x') = None
      | Some r \<Rightarrow> cr_Status (sx_result x') = StatusFail \<and> cr_Failure (sx_result x') = sr_Failure r)"
proof (induction rule: steps_run.induct)
  case (more s x r x1 ss rs x')
  show ?case
  proof (cases "sr_Status r = StatusFail")
    case True
    with more have "cr_Status (sx_result x1) = StatusFail" "cr_Failure (sx_result x1) = sr_Failure r"
      by (auto simp: one_step_def)
    with steps_run_halted [OF more(2)] True show ?thesis by simp
  next
    case False
    with more show ?thesis by (auto simp: one_step_def)
  qed
qed simp

text \<open>After a failure every later result is a skip.\<close>

lemma steps_run_stop:
  "steps_run deps ss x rs x' \<Longrightarrow> i < j \<Longrightarrow> j < length rs \<Longrightarrow> sr_Status (rs ! i) = StatusFail \<Longrightarrow>
     sr_Status (rs ! j) = StatusSkip"
proof (induction arbitrary: i j rule: steps_run.induct)
  case (more s x r x1 ss rs x')
  then obtain k where j: "j = Suc k" "k < length rs" by (cases j) auto
  show ?case
  proof (cases i)
    case 0
    with more have "cr_Status (sx_result x1) = StatusFail" by (auto simp: one_step_def)
    with steps_run_halted [OF more(2)] j show ?thesis by simp
  next
    case (Suc m)
    with more j show ?thesis by simp
  qed
qed simp

text \<open>A step one of whose dependencies failed or was skipped is skipped.\<close>

lemma steps_run_blocked:
  "steps_run deps ss x rs x' \<Longrightarrow> j < length rs \<Longrightarrow>
   dependencyBlocker (foldl dep.mark (sx_tracker x) (zip (map st_Name (take j ss)) (map sr_Status (take j rs))))
     (deps (st_Name (ss ! j))) \<noteq> None \<Longrightarrow> sr_Status (rs ! j) = StatusSkip"
proof (induction arbitrary: j rule: steps_run.induct)
  case (more s x r x1 ss rs x')
  show ?case
  proof (cases j)
    case 0
    with more(1,5) show ?thesis by (auto simp: one_step_def)
  next
    case (Suc k)
    have "sx_tracker x1 = dep.mark (sx_tracker x) (st_Name s, sr_Status r)"
      using more(1) by (simp add: one_step_def)
    with more Suc show ?thesis by simp
  qed
qed simp

lemma steps_run_length: "steps_run deps ss x rs x' \<Longrightarrow> length rs = length ss"
  by (induction rule: steps_run.induct) auto

lemma steps_run_cascade:
  assumes "steps_run deps ss x rs x'" and "sx_tracker x = newDepTracker"
    and "i < j" and "j < length rs" and "st_Name (ss ! i) \<in> set (deps (st_Name (ss ! j)))"
    and "sr_Status (rs ! i) = StatusFail \<or> sr_Status (rs ! i) = StatusSkip"
  shows "sr_Status (rs ! j) = StatusSkip"
proof (rule steps_run_blocked [OF assms(1,4)])
  have "length rs = length ss" by (rule steps_run_length [OF assms(1)])
  then have "(st_Name (ss ! i), sr_Status (rs ! i))
      \<in> set (zip (map st_Name (take j ss)) (map sr_Status (take j rs)))"
    using assms(3,4) unfolding set_zip by (auto intro!: exI [of _ i])
  then show "dependencyBlocker (foldl dep.mark (sx_tracker x)
      (zip (map st_Name (take j ss)) (map sr_Status (take j rs)))) (deps (st_Name (ss ! j))) \<noteq> None"
    unfolding assms(2) dep.blocked_iff using assms(5,6) by blast
qed

section \<open>Hooks and teardown\<close>

text \<open>Ending hooks \<open>hs\<close> one after the other, each once.\<close>

definition end_all :: "scenario \<Rightarrow> 'w hook list \<Rightarrow> artifact list \<times> 'w \<Rightarrow> artifact list \<times> 'w" where
  "end_all sn hs aw = foldl (\<lambda>(arts, w) h. case hk_End h sn w of (extra, w) \<Rightarrow> (arts @ extra, w)) aw hs"

lemma end_all_simps [simp]:
  "end_all sn [] aw = aw"
  "end_all sn (h # hs) (arts, w) = (case hk_End h sn w of (extra, w) \<Rightarrow> end_all sn hs (arts @ extra, w))"
  by (simp_all add: end_all_def split: prod.split)

lemma endHooks_built:
  "n \<le> length (se_hooks S) \<Longrightarrow> endHooks S sn n arts (True, w) =
     (case end_all sn (rev (take n (se_hooks S))) (arts, w) of (arts, w) \<Rightarrow> (arts, True, w))"
proof (induction n arbitrary: arts w)
  case (Suc n)
  then have "rev (take (Suc n) (se_hooks S)) = se_hooks S ! n # rev (take n (se_hooks S))"
    by (simp add: take_Suc_conv_app_nth)
  with Suc show ?case by (simp add: cleanupCtx_def split: prod.split)
qed simp

lemma endHooks_reverse:
  assumes "n \<le> length (se_hooks S)"
  shows "endHooks S sn n arts (False, w) =
     (case end_all sn (rev (take n (se_hooks S))) (arts, if n = 0 then w else se_cleanup S w) of
        (arts, w) \<Rightarrow> (arts, 0 < n, w))"
proof (cases n)
  case (Suc m)
  have "endHooks S sn n arts (False, w) = endHooks S sn n arts (True, se_cleanup S w)"
    unfolding Suc by (simp add: cleanupCtx_def)
  with endHooks_built [OF assms] Suc show ?thesis by simp
qed simp

lemma beginHooks_count:
  "beginHooks sn hs k w = (err, n, w') \<Longrightarrow>
     k \<le> n \<and> n \<le> k + length hs \<and> (err = None \<longleftrightarrow> n = k + length hs)"
proof (induction hs arbitrary: k w)
  case (Cons h hs)
  show ?case
  proof (cases "hk_Begin h sn w")
    case (Pair e w1)
    show ?thesis
    proof (cases e)
      case None
      with Cons.prems Pair have "beginHooks sn hs (k + 1) w1 = (err, n, w')" by simp
      from Cons.IH [OF this] show ?thesis by auto
    qed (use Cons.prems Pair in auto)
  qed
qed auto

lemma addTeardown_simps [simp]:
  "cr_Steps (addTeardown r s) = cr_Steps r"
  "cr_Teardown (addTeardown r s) = cr_Teardown r @ [s]"
  "cr_TeardownFailures (addTeardown r s) =
     cr_TeardownFailures r @ (if sr_Status s = StatusFail then [sr_Failure s] else [])"
  "cr_Status (addTeardown r s) =
     (if sr_Status s = StatusFail \<and> cr_Status r = StatusPass then StatusFail else cr_Status r)"
  "cr_Failure (addTeardown r s) =
     (if sr_Status s = StatusFail \<and> cr_Status r = StatusPass then sr_Failure s else cr_Failure r)"
  by (simp_all add: addTeardown_def Let_def)

lemma executeTeardownStepInPhase_name:
  assumes "executors_ok (rc_env C)" and "executeTeardownStepInPhase C ev inp s phase st w = Ret (r, st', w')"
  shows "sr_Name r = st_Name s"
proof (cases "evalWhen (rn_rt (rc_env C)) w (st_When s) ev (stepScope (rc_config C) st inp)
             (rc_scenario C) (st_Name s) ''teardown.when''")
  case (Inr g)
  then show ?thesis
  proof (cases g)
    case None
    with assms(2) Inr have "executeStepInPhase C phase ev inp s st w = Ret (r, st', w')"
      by (simp add: executeTeardownStepInPhase_def)
    from executeStepInPhase_result_ok [OF assms(1) this] show ?thesis by (simp add: result_ok_def)
  qed (use assms(2) Inr in \<open>auto simp: executeTeardownStepInPhase_def whenSkipResult_def\<close>)
qed (use assms(2) in \<open>simp add: executeTeardownStepInPhase_def\<close>)

lemma runTeardown_fold:
  "executors_ok (rc_env C) \<Longrightarrow> runTeardown S C ev ss r st bw = Ret (r', w') \<Longrightarrow>
     \<exists>ts. r' = foldl addTeardown r ts \<and> map sr_Name ts = map st_Name ss"
proof (induction ss arbitrary: r st bw)
  case (Cons s ss)
  obtain b w where bw: "cleanupCtx S bw = (b, w)" by fastforce
  with Cons.prems(2) obtain t st1 w1 where
    t: "executeTeardownStepInPhase C ev Map.empty s ''teardown'' st w = Ret (t, st1, w1)"
    "runTeardown S C ev ss (addTeardown r t) st1 (b, w1) = Ret (r', w')"
    by auto
  from Cons.IH [OF Cons.prems(1) t(2)] obtain ts where
    "r' = foldl addTeardown (addTeardown r t) ts" "map sr_Name ts = map st_Name ss" by blast
  moreover have "sr_Name t = st_Name s" by (rule executeTeardownStepInPhase_name [OF Cons.prems(1) t(1)])
  ultimately show ?case by (intro exI [of _ "t # ts"]) simp
qed (auto intro: exI [of _ "[]"])

lemma foldl_addTeardown:
  "cr_Steps (foldl addTeardown r ts) = cr_Steps r"
  "cr_Teardown (foldl addTeardown r ts) = cr_Teardown r @ ts"
  "cr_TeardownFailures (foldl addTeardown r ts) =
     cr_TeardownFailures r @ map sr_Failure (filter (\<lambda>t. sr_Status t = StatusFail) ts)"
  by (induction ts arbitrary: r) auto

lemma foldl_addTeardown_status:
  "cr_Status r = StatusFail \<Longrightarrow> cr_Status (foldl addTeardown r ts) = StatusFail
     \<and> cr_Failure (foldl addTeardown r ts) = cr_Failure r"
  "cr_Status r = StatusPass \<Longrightarrow> (case List.find (\<lambda>t. sr_Status t = StatusFail) ts of
       None \<Rightarrow> cr_Status (foldl addTeardown r ts) = StatusPass \<and> cr_Failure (foldl addTeardown r ts) = cr_Failure r
     | Some t \<Rightarrow> cr_Status (foldl addTeardown r ts) = StatusFail
         \<and> cr_Failure (foldl addTeardown r ts) = sr_Failure t)"
proof -
  show fail: "cr_Status r = StatusFail \<Longrightarrow> cr_Status (foldl addTeardown r ts) = StatusFail
     \<and> cr_Failure (foldl addTeardown r ts) = cr_Failure r" for r ts
    by (induction ts arbitrary: r) auto
  show "cr_Status r = StatusPass \<Longrightarrow> (case List.find (\<lambda>t. sr_Status t = StatusFail) ts of
       None \<Rightarrow> cr_Status (foldl addTeardown r ts) = StatusPass \<and> cr_Failure (foldl addTeardown r ts) = cr_Failure r
     | Some t \<Rightarrow> cr_Status (foldl addTeardown r ts) = StatusFail
         \<and> cr_Failure (foldl addTeardown r ts) = sr_Failure t)"
    by (induction ts arbitrary: r) (auto simp: fail split: option.splits)
qed

section \<open>A scenario that ran\<close>

definition not_run :: "scenario_result \<Rightarrow> bool" where
  "not_run r \<longleftrightarrow> cr_Steps r = [] \<and> cr_Teardown r = [] \<and> cr_TeardownFailures r = []
     \<and> (cr_Status r = StatusSkip \<or> cr_Status r = StatusFail \<and> cr_Failure r \<noteq> None)"

lemma applyScenarioSkip_not_run:
  "applyScenarioSkip R w ev sn (newScenarioResult sn) st config = Some r \<Longrightarrow> not_run r"
  by (auto simp: applyScenarioSkip_def not_run_def newScenarioResult_def split: if_splits sum.splits option.splits)

definition scenario_ran ::
  "scenario \<Rightarrow> scenario_result \<Rightarrow> (string \<Rightarrow> string list) \<Rightarrow> 'w scenario_run \<Rightarrow> step_result list \<Rightarrow> 'w scenario_run \<Rightarrow>
   step_result list \<Rightarrow> bool" where
  "scenario_ran sn r deps x rs x' ts \<longleftrightarrow>
     allDependencies (sn_Steps sn) (\<lambda>_. []) = Inr deps
     \<and> sx_result x = newScenarioResult sn \<and> sx_tracker x = newDepTracker
     \<and> steps_run deps (sn_Steps sn) x rs x'
     \<and> (\<exists>arts. r = foldl addTeardown ((sx_result x')\<lparr>cr_Artifacts := arts\<rparr>) ts)
     \<and> map sr_Name ts = map st_Name (sn_Teardown sn)"

lemma runScenarioBody_ran:
  fixes S :: "'w suite_env"
  assumes "executors_ok (rc_env C)" and "allDependencies (sn_Steps sn) (\<lambda>_. []) = Inr deps"
    and "runScenarioBody S C ev sn (newScenarioResult sn) st deps n w = Ret (r, w')"
  shows "\<exists>x rs x' ts. scenario_ran sn r deps (x :: 'w scenario_run) rs x' ts"
proof -
  define x where "x = \<lparr>sx_result = newScenarioResult sn, sx_tracker = newDepTracker, sx_state = st, sx_world = w\<rparr>"
  from assms(3) obtain x' where x': "runScenarioSteps C ev deps (sn_Steps sn) x = Ret x'"
    and b: "(case endHooks S sn n (cr_Artifacts (sx_result x')) (False, sx_world x') of (arts, bw) \<Rightarrow>
        runTeardown S C ev (sn_Teardown sn) ((sx_result x')\<lparr>cr_Artifacts := arts\<rparr>) (sx_state x') bw) = Ret (r, w')"
    unfolding runScenarioBody_def x_def by auto
  obtain arts bw where e: "endHooks S sn n (cr_Artifacts (sx_result x')) (False, sx_world x') = (arts, bw)" by (rule prod.exhaust)
  from b e have "runTeardown S C ev (sn_Teardown sn) ((sx_result x')\<lparr>cr_Artifacts := arts\<rparr>) (sx_state x') bw = Ret (r, w')"
    by simp
  from runTeardown_fold [OF assms(1) this] obtain ts where
    "r = foldl addTeardown ((sx_result x')\<lparr>cr_Artifacts := arts\<rparr>) ts" "map sr_Name ts = map st_Name (sn_Teardown sn)" by blast
  moreover obtain rs where "steps_run deps (sn_Steps sn) x rs x'"
    using runScenarioSteps_steps_run [OF assms(1) x'] by blast
  moreover have "sx_result x = newScenarioResult sn" "sx_tracker x = newDepTracker" by (simp_all add: x_def)
  ultimately show ?thesis using assms(2) unfolding scenario_ran_def by blast
qed

lemma runScenario_ran:
  fixes S :: "'w suite_env"
  assumes "executors_ok (se_runner S)" and "runScenario S su sn config w = Ret ((Some r, None), w')"
  shows "not_run r \<or> (\<exists>deps x rs x' ts. scenario_ran sn r deps (x :: 'w scenario_run) rs x' ts)"
proof -
  obtain ws w1 where sw: "se_workspace S sn w = (ws, w1)" by fastforce
  with assms(2) obtain wd ad sv where ws: "ws = Inr (wd, ad, sv)" by (cases ws) (auto simp: runScenario_def)
  define C where "C = scenarioCtx S su config (sn_Name sn)"
  define st where "st = NewScenarioState (map st_Name (sn_Steps sn) @ map st_Name (sn_Teardown sn)) (se_seed S) wd ad"
  define ev where "ev = SetScopeVars \<lparr>ev_seedScope = [], ev_scopeVars = Map.empty\<rparr> sv"
  have C: "executors_ok (rc_env C)" using assms(1) by (simp add: C_def scenarioCtx_def)
  show ?thesis
  proof (cases "applyScenarioSkip (rn_rt (se_runner S)) w1 ev sn (newScenarioResult sn) st config")
    case (Some r0)
    with assms(2) sw ws have "r = r0" by (simp add: runScenario_def Let_def ev_def st_def)
    with applyScenarioSkip_not_run [OF Some] show ?thesis by simp
  next
    case noskip: None
    obtain err n w2 where b: "beginHooks sn (se_hooks S) 0 w1 = (err, n, w2)" by (rule prod_cases3)
    show ?thesis
    proof (cases err)
      case (Some e)
      obtain arts bw where "endHooks S sn n [] (False, w2) = (arts, bw)" by (rule prod.exhaust)
      with assms(2) sw ws noskip b Some have "not_run r"
        by (auto simp: runScenario_def Let_def ev_def st_def not_run_def newScenarioResult_def)
      then show ?thesis by simp
    next
      case None
      show ?thesis
      proof (cases "allDependencies (sn_Steps sn) (\<lambda>_. [])")
        case (Inl e)
        with assms(2) sw ws noskip b None show ?thesis
          by (cases e) (auto simp: runScenario_def Let_def ev_def st_def split: prod.splits if_splits)
      next
        case (Inr deps)
        with assms(2) sw ws noskip b None have
          "runScenarioBody S C ev sn (newScenarioResult sn) st deps n w2 = Ret (r, w')"
          by (auto simp: runScenario_def Let_def ev_def st_def C_def)
        from runScenarioBody_ran [OF C Inr this] show ?thesis by blast
      qed
    qed
  qed
qed

lemma scenario_ran_steps:
  assumes "scenario_ran sn r deps x rs x' ts"
  shows "cr_Steps r = rs \<and> cr_Teardown r = ts
     \<and> map sr_Name rs = map st_Name (sn_Steps sn) \<and> map sr_Name ts = map st_Name (sn_Teardown sn)
     \<and> cr_TeardownFailures r = map sr_Failure (filter (\<lambda>t. sr_Status t = StatusFail) ts)"
proof -
  from assms obtain arts where run: "steps_run deps (sn_Steps sn) x rs x'" and start: "sx_result x = newScenarioResult sn"
    and r: "r = foldl addTeardown ((sx_result x')\<lparr>cr_Artifacts := arts\<rparr>) ts"
    and names: "map sr_Name ts = map st_Name (sn_Teardown sn)"
    by (auto simp: scenario_ran_def)
  show ?thesis
    using steps_run_results [OF run] steps_run_teardown [OF run] names
    by (simp add: r start foldl_addTeardown newScenarioResult_def)
qed

lemma scenario_ran_status:
  assumes "scenario_ran sn r deps x rs x' ts"
  shows "case List.find (\<lambda>t. sr_Status t = StatusFail) (rs @ ts) of
      None \<Rightarrow> cr_Status r = StatusPass \<and> cr_Failure r = None
    | Some t \<Rightarrow> cr_Status r = StatusFail \<and> cr_Failure r = sr_Failure t"
proof -
  from assms obtain arts where run: "steps_run deps (sn_Steps sn) x rs x'" and start: "sx_result x = newScenarioResult sn"
    and r: "r = foldl addTeardown ((sx_result x')\<lparr>cr_Artifacts := arts\<rparr>) ts"
    by (auto simp: scenario_ran_def)
  have find: "List.find P (xs @ ys) = (case List.find P xs of None \<Rightarrow> List.find P ys | Some z \<Rightarrow> Some z)"
    for P and xs ys :: "step_result list" by (induction xs) auto
  show ?thesis
  proof (cases "List.find (\<lambda>t. sr_Status t = StatusFail) rs")
    case None
    with steps_run_status [OF run] have "cr_Status (sx_result x') = StatusPass" "cr_Failure (sx_result x') = None"
      by (simp_all add: start newScenarioResult_def)
    with None foldl_addTeardown_status(2) [of "(sx_result x')\<lparr>cr_Artifacts := arts\<rparr>" ts] show ?thesis
      by (simp add: find r split: option.splits)
  next
    case (Some t)
    with steps_run_status [OF run] have "cr_Status (sx_result x') = StatusFail" "cr_Failure (sx_result x') = sr_Failure t"
      by (simp_all add: start newScenarioResult_def)
    with Some foldl_addTeardown_status(1) [of "(sx_result x')\<lparr>cr_Artifacts := arts\<rparr>" ts] show ?thesis
      by (simp add: find r)
  qed
qed

section \<open>A concrete scenario\<close>

text \<open>Step a uses a provider nobody registered; b depends on it; c does not; the teardown is t, u.\<close>

definition demo_scenario :: scenario where
  "demo_scenario = \<lparr>sn_Name = ''demo'', sn_Tags = [''smoke''], sn_File = ''demo.tales'',
     sn_Steps = [blank_step ''ftp'' ''a'',
       (blank_step ''http'' ''b'')\<lparr>st_DependsOn := [''a''], st_Request := Some blank_request\<rparr>,
       (blank_step ''http'' ''c'')\<lparr>st_Request := Some blank_request\<rparr>],
     sn_Teardown = [(blank_step ''http'' ''t'')\<lparr>st_Request := Some blank_request\<rparr>, blank_step ''ftp'' ''u''],
     sn_SkipRules = [], sn_Record = None\<rparr>"

definition demo_env :: "nat suite_env" where
  "demo_env = \<lparr>se_runner = demo_runner, se_hooks = [\<lparr>hk_Begin = \<lambda>sn w. (None, w), hk_End = \<lambda>sn w. ([], w)\<rparr>],
     se_workspace = \<lambda>sn w. (Inr (''/w'', ''/w/artifacts'', Map.empty), w),
     se_teardownWorkspace = \<lambda>f w. (Inr (''/t'', ''/t/artifacts'', Map.empty), w),
     se_cleanup = \<lambda>w. w, se_seed = 7\<rparr>"

definition demo_statuses :: "((scenario_result option \<times> goerr option) \<times> nat) run \<Rightarrow> (status list \<times> status list \<times> bool) option" where
  "demo_statuses x = (case x of
     Ret ((Some r, e), w) \<Rightarrow> Some (map sr_Status (cr_Steps r), map sr_Status (cr_Teardown r), e = None) | _ \<Rightarrow> None)"

lemma demo_statuses_run:
  "demo_statuses (runScenario demo_env demo_suite demo_scenario Map.empty 0) =
     Some ([StatusFail, StatusSkip, StatusSkip], [StatusPass, StatusFail], True)"
  by code_simp

lemma demo_run:
  "\<exists>r w. runScenario demo_env demo_suite demo_scenario Map.empty 0 = Ret ((Some r, None), w)
     \<and> map sr_Status (cr_Steps r) = [StatusFail, StatusSkip, StatusSkip]
     \<and> map sr_Status (cr_Teardown r) = [StatusPass, StatusFail]"
  using demo_statuses_run
  by (cases "runScenario demo_env demo_suite demo_scenario Map.empty 0")
    (auto simp: demo_statuses_def split: option.splits)

lemma demo_deps:
  "\<exists>deps. allDependencies (sn_Steps demo_scenario) (\<lambda>_. []) = Inr deps \<and> ''a'' \<in> set (deps ''b'')"
proof -
  have "(case allDependencies (sn_Steps demo_scenario) (\<lambda>_. []) of Inl e \<Rightarrow> False | Inr deps \<Rightarrow> ''a'' \<in> set (deps ''b''))"
    by code_simp
  then show ?thesis by (auto split: sum.splits)
qed

lemma demo_executors_ok: "executors_ok (se_runner demo_env)"
  by (simp add: executors_ok_def demo_env_def demo_runner_def result_ok_def)

section \<open>Properties\<close>



text \<open>C2: once a step has failed, every later step of the scenario is skipped.\<close>

theorem runScenario_stops_at_first_failure:
  assumes "executors_ok (se_runner S)" and "runScenario S su sn config w = Ret ((Some r, None), w')"
    and "i < j" and "j < length (cr_Steps r)" and "sr_Status (cr_Steps r ! i) = StatusFail"
  shows "sr_Status (cr_Steps r ! j) = StatusSkip"
proof -
  from assms(4) have "\<not> not_run r" by (auto simp: not_run_def)
  with runScenario_ran [OF assms(1,2)] obtain deps x rs x' ts
    where ran: "scenario_ran sn r deps (x :: 'a scenario_run) rs x' ts" by blast
  then have run: "steps_run deps (sn_Steps sn) x rs x'" by (simp add: scenario_ran_def)
  from scenario_ran_steps [OF ran] assms(3-5) show ?thesis using steps_run_stop [OF run, of i j] by simp
qed

theorem runScenario_stops_at_first_failure_witness:
  "\<exists>r w. runScenario demo_env demo_suite demo_scenario Map.empty 0 = Ret ((Some r, None), w)
     \<and> sr_Status (cr_Steps r ! 2) = StatusSkip"
proof -
  obtain r w where run: "runScenario demo_env demo_suite demo_scenario Map.empty 0 = Ret ((Some r, None), w)"
    and st: "map sr_Status (cr_Steps r) = [StatusFail, StatusSkip, StatusSkip]"
    using demo_run by (elim exE conjE)
  from st have "length (cr_Steps r) = 3" "sr_Status (cr_Steps r ! 0) = StatusFail" by auto
  with runScenario_stops_at_first_failure [OF demo_executors_ok run, of 0 2] run show ?thesis by auto
qed

text \<open>C1: the verdict of a scenario that ran: it passes exactly when no step and no teardown step failed;
  otherwise it fails, and the failure it reports is that of the first failed step, or, when all steps
  passed, of the first failed teardown step; every teardown failure is recorded, in order.\<close>

theorem runScenario_verdict:
  assumes "executors_ok (se_runner S)" and "runScenario S su sn config w = Ret ((Some r, None), w')"
    and "\<not> not_run r"
  shows "(case List.find (\<lambda>t. sr_Status t = StatusFail) (cr_Steps r @ cr_Teardown r) of
       None \<Rightarrow> cr_Status r = StatusPass \<and> cr_Failure r = None
     | Some t \<Rightarrow> cr_Status r = StatusFail \<and> cr_Failure r = sr_Failure t)
    \<and> cr_TeardownFailures r = map sr_Failure (filter (\<lambda>t. sr_Status t = StatusFail) (cr_Teardown r))"
proof -
  from runScenario_ran [OF assms(1,2)] assms(3) obtain deps x rs x' ts
    where ran: "scenario_ran sn r deps (x :: 'a scenario_run) rs x' ts" by blast
  from scenario_ran_steps [OF ran] scenario_ran_status [OF ran] show ?thesis by simp
qed

theorem runScenario_verdict_witness:
  "\<exists>r w. runScenario demo_env demo_suite demo_scenario Map.empty 0 = Ret ((Some r, None), w)
     \<and> cr_Status r = StatusFail \<and> cr_Failure r = sr_Failure (cr_Steps r ! 0)
     \<and> cr_TeardownFailures r = [sr_Failure (cr_Teardown r ! 1)]"
proof -
  obtain r w where run: "runScenario demo_env demo_suite demo_scenario Map.empty 0 = Ret ((Some r, None), w)"
    and st: "map sr_Status (cr_Steps r) = [StatusFail, StatusSkip, StatusSkip]"
      "map sr_Status (cr_Teardown r) = [StatusPass, StatusFail]"
    using demo_run by (elim exE conjE)
  then have "\<not> not_run r" by (auto simp: not_run_def)
  from runScenario_verdict [OF demo_executors_ok run this] st run show ?thesis by auto
qed

text \<open>C10: a failure or a skip cascades: a step that depends on an earlier step which failed or was skipped
  is itself skipped.\<close>

theorem runScenario_cascades:
  assumes "executors_ok (se_runner S)" and "runScenario S su sn config w = Ret ((Some r, None), w')"
    and "allDependencies (sn_Steps sn) (\<lambda>_. []) = Inr deps"
    and "i < j" and "j < length (cr_Steps r)"
    and "st_Name (sn_Steps sn ! i) \<in> set (deps (st_Name (sn_Steps sn ! j)))"
    and "sr_Status (cr_Steps r ! i) = StatusFail \<or> sr_Status (cr_Steps r ! i) = StatusSkip"
  shows "sr_Status (cr_Steps r ! j) = StatusSkip"
proof -
  from assms(5) have "\<not> not_run r" by (auto simp: not_run_def)
  with runScenario_ran [OF assms(1,2)] obtain deps' x rs x' ts
    where ran: "scenario_ran sn r deps' (x :: 'a scenario_run) rs x' ts" by blast
  with assms(3) have run: "steps_run deps (sn_Steps sn) x rs x'" and t: "sx_tracker x = newDepTracker"
    by (auto simp: scenario_ran_def)
  from scenario_ran_steps [OF ran] assms(4-7) show ?thesis using steps_run_cascade [OF run t, of i j] by simp
qed

theorem runScenario_cascades_witness:
  "\<exists>r w. runScenario demo_env demo_suite demo_scenario Map.empty 0 = Ret ((Some r, None), w)
     \<and> sr_Status (cr_Steps r ! 1) = StatusSkip"
proof -
  obtain r w where run: "runScenario demo_env demo_suite demo_scenario Map.empty 0 = Ret ((Some r, None), w)"
    and st: "map sr_Status (cr_Steps r) = [StatusFail, StatusSkip, StatusSkip]"
    using demo_run by (elim exE conjE)
  obtain deps where d: "allDependencies (sn_Steps demo_scenario) (\<lambda>_. []) = Inr deps" "''a'' \<in> set (deps ''b'')"
    using demo_deps by blast
  from st have "length (cr_Steps r) = 3" "sr_Status (cr_Steps r ! 0) = StatusFail" by auto
  with runScenario_cascades [OF demo_executors_ok run d(1), of 0 1] d(2) run show ?thesis
    by (auto simp: demo_scenario_def blank_step_def)
qed




text \<open>Each event appends a digit to the world: the hooks' numbers, 9 for the cleanup context.\<close>

definition digit_hook :: "nat \<Rightarrow> bool \<Rightarrow> nat hook" where
  "digit_hook d begins = \<lparr>hk_Begin = \<lambda>sn w. (if begins then None else Some (Errorf ''no'' []), w),
     hk_End = \<lambda>sn w. ([], 10 * w + d)\<rparr>"

definition digit_env :: "nat suite_env" where
  "digit_env = demo_env\<lparr>se_hooks := [digit_hook 1 True, digit_hook 2 True, digit_hook 3 False, digit_hook 4 True],
     se_cleanup := \<lambda>w. 10 * w + 9\<rparr>"


section \<open>Suite teardown and configuration\<close>

lemma suiteTeardownLoop_results:
  "executors_ok (rc_env C) \<Longrightarrow> suiteTeardownLoop C ev ss rs fs st w = Ret ((rs', fs'), w') \<Longrightarrow>
     \<exists>ts. rs' = rs @ ts \<and> fs' = fs @ map sr_Failure (filter (\<lambda>t. sr_Status t = StatusFail) ts)
       \<and> map sr_Name ts = map st_Name ss"
proof (induction ss arbitrary: rs fs st w)
  case (Cons s ss)
  from Cons.prems(2) obtain t st1 w1 where
    t: "executeTeardownStepInPhase C ev Map.empty s ''suite_teardown'' st w = Ret (t, st1, w1)"
    "suiteTeardownLoop C ev ss (rs @ [t])
       (if sr_Status t = StatusFail then fs @ [sr_Failure t] else fs) st1 w1 = Ret ((rs', fs'), w')"
    by auto
  from Cons.IH [OF Cons.prems(1) t(2)] obtain ts where ts: "rs' = (rs @ [t]) @ ts"
    "fs' = (if sr_Status t = StatusFail then fs @ [sr_Failure t] else fs)
       @ map sr_Failure (filter (\<lambda>t. sr_Status t = StatusFail) ts)"
    "map sr_Name ts = map st_Name ss" by blast
  have "sr_Name t = st_Name s" by (rule executeTeardownStepInPhase_name [OF Cons.prems(1) t(1)])
  with ts show ?case by (intro exI [of _ "t # ts"]) auto
qed auto



lemma configLoop_cong: "map_of es = map_of fs \<Longrightarrow> configLoop R w es ks m = configLoop R w fs ks m"
  by (induction ks arbitrary: m) (auto split: sum.splits)



end
