(* ===== verification/Spec2Isabelle.thy ===== *)
theory Spec2Isabelle
  imports SqlExpand JsonMatch Loader ScenarioProps
begin

text \<open>
  A verification development for tales, a testing tool written in Go.
\<close>

end
